theory Spec2Isabelle
  imports Main
begin

section \<open>Kinds of tokens and nodes\<close>

text \<open>
  Modelled from the spec: the enumeration \<open>SyntaxKind\<close> of token and node kinds (its
  declaring file, tokens.ts, is not among the sources). The members are the kinds that the
  parser and the binder name, in the groups of the enumeration (structural tokens and
  trivia, literals, punctuation, keywords, nodes); \<open>OtherKind n\<close> stands for every member
  they never name.
\<close>

datatype StructuralKind =
    K_EndOfFileToken | K_LineTerminatorToken | K_IndentToken | K_DedentToken | K_HtmlOpenTagTrivia
  | K_HtmlCloseTagTrivia

datatype LiteralKind =
    K_StringLiteral | K_Terminal | K_UnicodeCharacterLiteral | K_Identifier | K_LinkReference
  | K_ProseFull | K_ProseHead | K_ProseMiddle | K_ProseTail

datatype PunctuationKind =
    K_AtToken | K_OpenBraceToken | K_CloseBraceToken | K_OpenBracketToken | K_OpenBracketGreaterThanToken
  | K_CloseBracketToken | K_GreaterThanToken | K_OpenParenToken | K_CloseParenToken | K_ColonToken
  | K_ColonColonToken | K_ColonColonColonToken | K_CommaToken | K_PlusToken | K_TildeToken
  | K_QuestionToken | K_EqualsToken | K_EqualsEqualsToken | K_ExclamationEqualsToken | K_NotEqualToToken
  | K_LessThanMinusToken | K_ElementOfToken | K_LessThanExclamationToken | K_NotAnElementOfToken

datatype KeywordKind =
    K_ButKeyword | K_DefineKeyword | K_EmptyKeyword | K_FalseKeyword | K_GoalKeyword
  | K_HereKeyword | K_ImportKeyword | K_LexicalKeyword | K_LookaheadKeyword | K_NoKeyword
  | K_NotKeyword | K_OfKeyword | K_OneKeyword | K_OrKeyword | K_ThroughKeyword
  | K_TrueKeyword

datatype NodeKind =
    K_SourceFile | K_Production | K_Parameter | K_ParameterList | K_Argument
  | K_ArgumentList | K_UnicodeCharacterRange | K_Prose | K_ProseAssertion | K_ProseFragmentLiteral
  | K_EmptyAssertion | K_LookaheadAssertion | K_NoSymbolHereAssertion | K_LexicalGoalAssertion | K_ParameterValueAssertion
  | K_InvalidAssertion | K_Nonterminal | K_OneOfSymbol | K_PlaceholderSymbol | K_InvalidSymbol
  | K_ButNotSymbol | K_SymbolSpan | K_SymbolSet | K_RightHandSide | K_RightHandSideList
  | K_OneOfList | K_Import | K_Define

datatype SyntaxKind =
    StructuralToken StructuralKind
  | LiteralToken LiteralKind
  | PunctuationToken PunctuationKind
  | KeywordToken KeywordKind
  | NodeKind NodeKind
  | OtherKind nat

text \<open>The members under the names the sources use.\<close>

abbreviation EndOfFileToken :: SyntaxKind where "EndOfFileToken \<equiv> StructuralToken K_EndOfFileToken"
abbreviation LineTerminatorToken :: SyntaxKind where "LineTerminatorToken \<equiv> StructuralToken K_LineTerminatorToken"
abbreviation IndentToken :: SyntaxKind where "IndentToken \<equiv> StructuralToken K_IndentToken"
abbreviation DedentToken :: SyntaxKind where "DedentToken \<equiv> StructuralToken K_DedentToken"
abbreviation HtmlOpenTagTrivia :: SyntaxKind where "HtmlOpenTagTrivia \<equiv> StructuralToken K_HtmlOpenTagTrivia"
abbreviation HtmlCloseTagTrivia :: SyntaxKind where "HtmlCloseTagTrivia \<equiv> StructuralToken K_HtmlCloseTagTrivia"

abbreviation StringLiteral :: SyntaxKind where "StringLiteral \<equiv> LiteralToken K_StringLiteral"
abbreviation Terminal :: SyntaxKind where "Terminal \<equiv> LiteralToken K_Terminal"
abbreviation UnicodeCharacterLiteral :: SyntaxKind where "UnicodeCharacterLiteral \<equiv> LiteralToken K_UnicodeCharacterLiteral"
abbreviation Identifier :: SyntaxKind where "Identifier \<equiv> LiteralToken K_Identifier"
abbreviation LinkReference :: SyntaxKind where "LinkReference \<equiv> LiteralToken K_LinkReference"
abbreviation ProseFull :: SyntaxKind where "ProseFull \<equiv> LiteralToken K_ProseFull"
abbreviation ProseHead :: SyntaxKind where "ProseHead \<equiv> LiteralToken K_ProseHead"
abbreviation ProseMiddle :: SyntaxKind where "ProseMiddle \<equiv> LiteralToken K_ProseMiddle"
abbreviation ProseTail :: SyntaxKind where "ProseTail \<equiv> LiteralToken K_ProseTail"

abbreviation AtToken :: SyntaxKind where "AtToken \<equiv> PunctuationToken K_AtToken"
abbreviation OpenBraceToken :: SyntaxKind where "OpenBraceToken \<equiv> PunctuationToken K_OpenBraceToken"
abbreviation CloseBraceToken :: SyntaxKind where "CloseBraceToken \<equiv> PunctuationToken K_CloseBraceToken"
abbreviation OpenBracketToken :: SyntaxKind where "OpenBracketToken \<equiv> PunctuationToken K_OpenBracketToken"
abbreviation OpenBracketGreaterThanToken :: SyntaxKind where "OpenBracketGreaterThanToken \<equiv> PunctuationToken K_OpenBracketGreaterThanToken"
abbreviation CloseBracketToken :: SyntaxKind where "CloseBracketToken \<equiv> PunctuationToken K_CloseBracketToken"
abbreviation GreaterThanToken :: SyntaxKind where "GreaterThanToken \<equiv> PunctuationToken K_GreaterThanToken"
abbreviation OpenParenToken :: SyntaxKind where "OpenParenToken \<equiv> PunctuationToken K_OpenParenToken"
abbreviation CloseParenToken :: SyntaxKind where "CloseParenToken \<equiv> PunctuationToken K_CloseParenToken"
abbreviation ColonToken :: SyntaxKind where "ColonToken \<equiv> PunctuationToken K_ColonToken"
abbreviation ColonColonToken :: SyntaxKind where "ColonColonToken \<equiv> PunctuationToken K_ColonColonToken"
abbreviation ColonColonColonToken :: SyntaxKind where "ColonColonColonToken \<equiv> PunctuationToken K_ColonColonColonToken"
abbreviation CommaToken :: SyntaxKind where "CommaToken \<equiv> PunctuationToken K_CommaToken"
abbreviation PlusToken :: SyntaxKind where "PlusToken \<equiv> PunctuationToken K_PlusToken"
abbreviation TildeToken :: SyntaxKind where "TildeToken \<equiv> PunctuationToken K_TildeToken"
abbreviation QuestionToken :: SyntaxKind where "QuestionToken \<equiv> PunctuationToken K_QuestionToken"
abbreviation EqualsToken :: SyntaxKind where "EqualsToken \<equiv> PunctuationToken K_EqualsToken"
abbreviation EqualsEqualsToken :: SyntaxKind where "EqualsEqualsToken \<equiv> PunctuationToken K_EqualsEqualsToken"
abbreviation ExclamationEqualsToken :: SyntaxKind where "ExclamationEqualsToken \<equiv> PunctuationToken K_ExclamationEqualsToken"
abbreviation NotEqualToToken :: SyntaxKind where "NotEqualToToken \<equiv> PunctuationToken K_NotEqualToToken"
abbreviation LessThanMinusToken :: SyntaxKind where "LessThanMinusToken \<equiv> PunctuationToken K_LessThanMinusToken"
abbreviation ElementOfToken :: SyntaxKind where "ElementOfToken \<equiv> PunctuationToken K_ElementOfToken"
abbreviation LessThanExclamationToken :: SyntaxKind where "LessThanExclamationToken \<equiv> PunctuationToken K_LessThanExclamationToken"
abbreviation NotAnElementOfToken :: SyntaxKind where "NotAnElementOfToken \<equiv> PunctuationToken K_NotAnElementOfToken"

abbreviation ButKeyword :: SyntaxKind where "ButKeyword \<equiv> KeywordToken K_ButKeyword"
abbreviation DefineKeyword :: SyntaxKind where "DefineKeyword \<equiv> KeywordToken K_DefineKeyword"
abbreviation EmptyKeyword :: SyntaxKind where "EmptyKeyword \<equiv> KeywordToken K_EmptyKeyword"
abbreviation FalseKeyword :: SyntaxKind where "FalseKeyword \<equiv> KeywordToken K_FalseKeyword"
abbreviation GoalKeyword :: SyntaxKind where "GoalKeyword \<equiv> KeywordToken K_GoalKeyword"
abbreviation HereKeyword :: SyntaxKind where "HereKeyword \<equiv> KeywordToken K_HereKeyword"
abbreviation ImportKeyword :: SyntaxKind where "ImportKeyword \<equiv> KeywordToken K_ImportKeyword"
abbreviation LexicalKeyword :: SyntaxKind where "LexicalKeyword \<equiv> KeywordToken K_LexicalKeyword"
abbreviation LookaheadKeyword :: SyntaxKind where "LookaheadKeyword \<equiv> KeywordToken K_LookaheadKeyword"
abbreviation NoKeyword :: SyntaxKind where "NoKeyword \<equiv> KeywordToken K_NoKeyword"
abbreviation NotKeyword :: SyntaxKind where "NotKeyword \<equiv> KeywordToken K_NotKeyword"
abbreviation OfKeyword :: SyntaxKind where "OfKeyword \<equiv> KeywordToken K_OfKeyword"
abbreviation OneKeyword :: SyntaxKind where "OneKeyword \<equiv> KeywordToken K_OneKeyword"
abbreviation OrKeyword :: SyntaxKind where "OrKeyword \<equiv> KeywordToken K_OrKeyword"
abbreviation ThroughKeyword :: SyntaxKind where "ThroughKeyword \<equiv> KeywordToken K_ThroughKeyword"
abbreviation TrueKeyword :: SyntaxKind where "TrueKeyword \<equiv> KeywordToken K_TrueKeyword"

abbreviation SourceFile :: SyntaxKind where "SourceFile \<equiv> NodeKind K_SourceFile"
abbreviation Production :: SyntaxKind where "Production \<equiv> NodeKind K_Production"
abbreviation Parameter :: SyntaxKind where "Parameter \<equiv> NodeKind K_Parameter"
abbreviation ParameterList :: SyntaxKind where "ParameterList \<equiv> NodeKind K_ParameterList"
abbreviation Argument :: SyntaxKind where "Argument \<equiv> NodeKind K_Argument"
abbreviation ArgumentList :: SyntaxKind where "ArgumentList \<equiv> NodeKind K_ArgumentList"
abbreviation UnicodeCharacterRange :: SyntaxKind where "UnicodeCharacterRange \<equiv> NodeKind K_UnicodeCharacterRange"
abbreviation Prose :: SyntaxKind where "Prose \<equiv> NodeKind K_Prose"
abbreviation ProseAssertion :: SyntaxKind where "ProseAssertion \<equiv> NodeKind K_ProseAssertion"
abbreviation ProseFragmentLiteral :: SyntaxKind where "ProseFragmentLiteral \<equiv> NodeKind K_ProseFragmentLiteral"
abbreviation EmptyAssertion :: SyntaxKind where "EmptyAssertion \<equiv> NodeKind K_EmptyAssertion"
abbreviation LookaheadAssertion :: SyntaxKind where "LookaheadAssertion \<equiv> NodeKind K_LookaheadAssertion"
abbreviation NoSymbolHereAssertion :: SyntaxKind where "NoSymbolHereAssertion \<equiv> NodeKind K_NoSymbolHereAssertion"
abbreviation LexicalGoalAssertion :: SyntaxKind where "LexicalGoalAssertion \<equiv> NodeKind K_LexicalGoalAssertion"
abbreviation ParameterValueAssertion :: SyntaxKind where "ParameterValueAssertion \<equiv> NodeKind K_ParameterValueAssertion"
abbreviation InvalidAssertion :: SyntaxKind where "InvalidAssertion \<equiv> NodeKind K_InvalidAssertion"
abbreviation Nonterminal :: SyntaxKind where "Nonterminal \<equiv> NodeKind K_Nonterminal"
abbreviation OneOfSymbol :: SyntaxKind where "OneOfSymbol \<equiv> NodeKind K_OneOfSymbol"
abbreviation PlaceholderSymbol :: SyntaxKind where "PlaceholderSymbol \<equiv> NodeKind K_PlaceholderSymbol"
abbreviation InvalidSymbol :: SyntaxKind where "InvalidSymbol \<equiv> NodeKind K_InvalidSymbol"
abbreviation ButNotSymbol :: SyntaxKind where "ButNotSymbol \<equiv> NodeKind K_ButNotSymbol"
abbreviation SymbolSpan :: SyntaxKind where "SymbolSpan \<equiv> NodeKind K_SymbolSpan"
abbreviation SymbolSet :: SyntaxKind where "SymbolSet \<equiv> NodeKind K_SymbolSet"
abbreviation RightHandSide :: SyntaxKind where "RightHandSide \<equiv> NodeKind K_RightHandSide"
abbreviation RightHandSideList :: SyntaxKind where "RightHandSideList \<equiv> NodeKind K_RightHandSideList"
abbreviation OneOfList :: SyntaxKind where "OneOfList \<equiv> NodeKind K_OneOfList"
abbreviation Import :: SyntaxKind where "Import \<equiv> NodeKind K_Import"
abbreviation Define :: SyntaxKind where "Define \<equiv> NodeKind K_Define"

section \<open>Symbols and symbol tables (symbols.ts)\<close>

datatype SymbolKind = SourceFileSymbol | ProductionSymbol | ParameterSymbol

text \<open>
  A \<open>Symbol\<close> object. Symbols are shared by reference between the tables that hold them and
  \<open>parent\<close> is assigned after construction, so the objects live in a store indexed by their
  \<open>id\<close>; a reference to a symbol is its id. The field \<open>locals\<close> is never written by the code
  and is left out.
\<close>

record Symbol =
  symbol_id :: nat
  symbol_name :: string
  symbol_kind :: SymbolKind
  symbol_parent :: "nat option"

text \<open>The module-level counter \<open>nextSymbolId\<close> together with the store of symbol objects.\<close>

record SymbolModule =
  nextSymbolId :: nat
  symbolObjects :: "nat \<rightharpoonup> Symbol"

text \<open>\<open>new Symbol(kind, name)\<close>: the field initialiser \<open>id = ++nextSymbolId\<close> runs first.\<close>

definition newSymbol :: "SymbolKind \<Rightarrow> string \<Rightarrow> SymbolModule \<Rightarrow> nat \<times> SymbolModule" where
  "newSymbol kind name m =
     (let i = nextSymbolId m + 1 in
      (i, m\<lparr>nextSymbolId := i,
            symbolObjects := (symbolObjects m)(i \<mapsto>
              \<lparr>symbol_id = i, symbol_name = name, symbol_kind = kind, symbol_parent = None\<rparr>)\<rparr>))"

text \<open>\<open>symbol.parent = parent\<close> on the object behind a reference.\<close>

definition setSymbolParent :: "nat \<Rightarrow> nat option \<Rightarrow> SymbolModule \<Rightarrow> SymbolModule" where
  "setSymbolParent i parent m =
     (case symbolObjects m i of
        None \<Rightarrow> m
      | Some obj \<Rightarrow> m\<lparr>symbolObjects := (symbolObjects m)(i \<mapsto> obj\<lparr>symbol_parent := parent\<rparr>)\<rparr>)"

text \<open>
  A name is a string or \<open>undefined\<close>; the code tests it with \<open>if (name)\<close>, which fails for
  \<open>undefined\<close> and for the empty string.
\<close>

definition truthy :: "string option \<Rightarrow> bool" where
  "truthy name = (case name of None \<Rightarrow> False | Some s \<Rightarrow> s \<noteq> [])"

text \<open>
  \<open>SymbolTable\<close>: the private \<open>nameMap\<close>, undefined until the first declaration, maps a kind
  to a map from names to symbols.
\<close>

record SymbolTable =
  nameMap :: "(SymbolKind \<rightharpoonup> (string \<rightharpoonup> nat)) option"

definition emptySymbolTable :: SymbolTable where
  "emptySymbolTable = \<lparr>nameMap = None\<rparr>"

definition isEmpty :: "SymbolTable \<Rightarrow> bool" where
  "isEmpty t = (nameMap t = None)"

text \<open>
  \<open>getSymbols(kind, create)\<close> returns the inner map of a kind, creating the outer and the inner
  map when \<open>create\<close> is set. The inner map is returned by reference; a later \<open>set\<close> on it is
  written back by \<open>setSymbols\<close>.
\<close>

definition getSymbols :: "SymbolKind \<Rightarrow> bool \<Rightarrow> SymbolTable \<Rightarrow> (string \<rightharpoonup> nat) option \<times> SymbolTable" where
  "getSymbols kind create t =
     (case nameMap t of
        None \<Rightarrow>
          if \<not> create then (None, t)
          else (Some Map.empty, t\<lparr>nameMap := Some (Map.empty(kind \<mapsto> Map.empty))\<rparr>)
      | Some m \<Rightarrow>
          (case m kind of
             Some symbols \<Rightarrow> (Some symbols, t)
           | None \<Rightarrow>
               if create then (Some Map.empty, t\<lparr>nameMap := Some (m(kind \<mapsto> Map.empty))\<rparr>)
               else (None, t)))"

definition setSymbols :: "SymbolKind \<Rightarrow> string \<Rightarrow> nat \<Rightarrow> SymbolTable \<Rightarrow> SymbolTable" where
  "setSymbols kind name symbol t =
     (case nameMap t of
        None \<Rightarrow> t
      | Some m \<Rightarrow>
          (case m kind of
             None \<Rightarrow> t
           | Some symbols \<Rightarrow> t\<lparr>nameMap := Some (m(kind \<mapsto> symbols(name \<mapsto> symbol)))\<rparr>))"

definition resolveSymbol :: "string option \<Rightarrow> SymbolKind \<Rightarrow> SymbolTable \<Rightarrow> nat option" where
  "resolveSymbol name kind t =
     (case name of
        None \<Rightarrow> None
      | Some s \<Rightarrow>
          if s = [] then None
          else (case fst (getSymbols kind False t) of
                  None \<Rightarrow> None
                | Some symbols \<Rightarrow> symbols s))"

text \<open>
  \<open>declareSymbol(name, kind, parent)\<close>: declare-or-fetch for a truthy name, a fresh symbol
  named \<open>*missing*\<close> otherwise; in both cases the symbol's parent is overwritten.
\<close>

definition declareSymbol ::
  "string option \<Rightarrow> SymbolKind \<Rightarrow> nat option \<Rightarrow> SymbolTable \<Rightarrow> SymbolModule
     \<Rightarrow> nat \<times> SymbolTable \<times> SymbolModule" where
  "declareSymbol name kind parent t m =
     (let (symbol, t', m') =
        (case name of
           None \<Rightarrow> (let (i, m1) = newSymbol kind ''*missing*'' m in (i, t, m1))
         | Some s \<Rightarrow>
             if s = [] then (let (i, m1) = newSymbol kind ''*missing*'' m in (i, t, m1))
             else
               (let (symbols, t1) = getSymbols kind True t in
                case (case symbols of None \<Rightarrow> None | Some sy \<Rightarrow> sy s) of
                  Some i \<Rightarrow> (i, t1, m)
                | None \<Rightarrow> (let (i, m1) = newSymbol kind s m in (i, setSymbols kind s i t1, m1))))
      in (symbol, t', setSymbolParent symbol parent m'))"

text \<open>\<open>copyFrom(other)\<close>: every entry of the other table is written over this one.\<close>

definition copyFrom :: "SymbolTable \<Rightarrow> SymbolTable \<Rightarrow> SymbolTable" where
  "copyFrom other t =
     (case nameMap other of
        None \<Rightarrow> t
      | Some om \<Rightarrow>
          if om = Map.empty then t
          else \<lparr>nameMap = Some (\<lambda>kind.
                  case om kind of
                    None \<Rightarrow> (case nameMap t of None \<Rightarrow> None | Some m \<Rightarrow> m kind)
                  | Some osyms \<Rightarrow>
                      Some ((case nameMap t of
                               None \<Rightarrow> Map.empty
                             | Some m \<Rightarrow> (case m kind of None \<Rightarrow> Map.empty | Some syms \<Rightarrow> syms))
                            ++ osyms))\<rparr>)"


section \<open>Nodes as the binder reads them\<close>

text \<open>
  Modelled from the spec: the node classes (nodes.ts is not among the sources). The binder
  reads a node's \<open>id\<close> and \<open>kind\<close>, the \<open>filename\<close> of a SourceFile, the \<open>name\<close> identifier of a
  Production or Parameter with its \<open>text\<close>, and the children that \<open>forEachChild\<close> visits, in
  order. A Production's children are its name followed by its other children; a Parameter's
  only child is its name. Node identity is the \<open>id\<close>, unique per node object.
\<close>

datatype Node =
    SourceFileNode nat string "Node list"
  | ProductionNode nat Node "Node list"
  | ParameterNode nat Node
  | IdentifierNode nat "string option"
  | OtherNode nat SyntaxKind "Node list"

fun node_id :: "Node \<Rightarrow> nat" where
  "node_id (SourceFileNode i _ _) = i"
| "node_id (ProductionNode i _ _) = i"
| "node_id (ParameterNode i _) = i"
| "node_id (IdentifierNode i _) = i"
| "node_id (OtherNode i _ _) = i"

fun node_kind :: "Node \<Rightarrow> SyntaxKind" where
  "node_kind (SourceFileNode _ _ _) = SourceFile"
| "node_kind (ProductionNode _ _ _) = Production"
| "node_kind (ParameterNode _ _) = Parameter"
| "node_kind (IdentifierNode _ _) = Identifier"
| "node_kind (OtherNode _ k _) = k"

fun node_children :: "Node \<Rightarrow> Node list" where
  "node_children (SourceFileNode _ _ elements) = elements"
| "node_children (ProductionNode _ name others) = name # others"
| "node_children (ParameterNode _ name) = [name]"
| "node_children (IdentifierNode _ _) = []"
| "node_children (OtherNode _ _ cs) = cs"

text \<open>\<open>node.name\<close>, \<open>name.text\<close> and \<open>file.filename\<close>; a property a node lacks reads \<open>undefined\<close>.\<close>

fun node_name :: "Node \<Rightarrow> Node option" where
  "node_name (ProductionNode _ name _) = Some name"
| "node_name (ParameterNode _ name) = Some name"
| "node_name _ = None"

fun node_text :: "Node \<Rightarrow> string option" where
  "node_text (IdentifierNode _ t) = t"
| "node_text _ = None"

fun filename :: "Node \<Rightarrow> string option" where
  "filename (SourceFileNode _ f _) = Some f"
| "filename _ = None"

definition name_text :: "Node \<Rightarrow> string option" where
  "name_text node = (case node_name node of None \<Rightarrow> None | Some n \<Rightarrow> node_text n)"

section \<open>The binding table (binder.ts)\<close>

text \<open>
  The five private arrays are undefined until first written and are indexed by node id or
  symbol id. Symbols are held by reference (their id); nodes are held as they are.
\<close>

record BindingTable =
  globals :: SymbolTable
  parentNodes :: "(nat \<rightharpoonup> Node) option"
  nodeMap :: "(nat \<rightharpoonup> nat) option"
  symbolReferences :: "(nat \<rightharpoonup> Node list) option"
  symbolLocals :: "(nat \<rightharpoonup> SymbolTable) option"
  symbolDeclarations :: "(nat \<rightharpoonup> Node list) option"

definition newBindingTable :: BindingTable where
  "newBindingTable =
     \<lparr>globals = emptySymbolTable, parentNodes = None, nodeMap = None,
      symbolReferences = None, symbolLocals = None, symbolDeclarations = None\<rparr>"

text \<open>An array that is still undefined reads as one without entries.\<close>

definition entries :: "('k \<rightharpoonup> 'v) option \<Rightarrow> ('k \<rightharpoonup> 'v)" where
  "entries a = (case a of None \<Rightarrow> Map.empty | Some m \<Rightarrow> m)"

definition setParent :: "Node option \<Rightarrow> Node option \<Rightarrow> BindingTable \<Rightarrow> BindingTable" where
  "setParent node parent bt =
     (case (node, parent) of
        (Some n, Some p) \<Rightarrow> bt\<lparr>parentNodes := Some ((entries (parentNodes bt))(node_id n \<mapsto> p))\<rparr>
      | _ \<Rightarrow> bt)"

definition hasParent :: "Node option \<Rightarrow> BindingTable \<Rightarrow> bool" where
  "hasParent node bt =
     (case (node, parentNodes bt) of (Some n, Some ps) \<Rightarrow> ps (node_id n) \<noteq> None | _ \<Rightarrow> False)"

definition getParent :: "Node option \<Rightarrow> BindingTable \<Rightarrow> Node option" where
  "getParent node bt =
     (case (node, parentNodes bt) of (Some n, Some ps) \<Rightarrow> ps (node_id n) | _ \<Rightarrow> None)"

definition setSymbolForNode :: "Node \<Rightarrow> nat \<Rightarrow> BindingTable \<Rightarrow> BindingTable" where
  "setSymbolForNode node symbol bt =
     bt\<lparr>nodeMap := Some ((entries (nodeMap bt))(node_id node \<mapsto> symbol))\<rparr>"

text \<open>\<open>indexOf(node) === -1\<close> compares node objects, that is, nodes.\<close>

definition addReferenceToSymbol :: "nat \<Rightarrow> Node \<Rightarrow> BindingTable \<Rightarrow> BindingTable" where
  "addReferenceToSymbol symbol node bt =
     (let refs = entries (symbolReferences bt);
          current = (case refs symbol of None \<Rightarrow> [] | Some ns \<Rightarrow> ns)
      in bt\<lparr>symbolReferences :=
              Some (refs(symbol \<mapsto> (if node \<in> set current then current else current @ [node])))\<rparr>)"

definition setSymbol :: "Node option \<Rightarrow> nat option \<Rightarrow> BindingTable \<Rightarrow> BindingTable" where
  "setSymbol node symbol bt =
     (case (node, symbol) of
        (Some n, Some s) \<Rightarrow> addReferenceToSymbol s n (setSymbolForNode n s bt)
      | _ \<Rightarrow> bt)"

definition hasSymbol :: "Node option \<Rightarrow> BindingTable \<Rightarrow> bool" where
  "hasSymbol node bt =
     (case (node, nodeMap bt) of (Some n, Some nm) \<Rightarrow> nm (node_id n) \<noteq> None | _ \<Rightarrow> False)"

definition getSymbol :: "Node option \<Rightarrow> BindingTable \<Rightarrow> nat option" where
  "getSymbol node bt =
     (case (node, nodeMap bt) of (Some n, Some nm) \<Rightarrow> nm (node_id n) | _ \<Rightarrow> None)"

text \<open>
  \<open>addDeclarationToSymbol\<close> always pushes the node, records the symbol of the node, and for
  a node that is not a SourceFile adds the node's name as a reference.
\<close>

definition addDeclarationToSymbol :: "nat option \<Rightarrow> Node option \<Rightarrow> BindingTable \<Rightarrow> BindingTable" where
  "addDeclarationToSymbol symbol node bt =
     (case (symbol, node) of
        (Some s, Some n) \<Rightarrow>
          (let decls = entries (symbolDeclarations bt);
               declarations = (case decls s of None \<Rightarrow> [] | Some ds \<Rightarrow> ds);
               bt1 = bt\<lparr>symbolDeclarations := Some (decls(s \<mapsto> declarations @ [n]))\<rparr>;
               bt2 = setSymbolForNode n s bt1
           in if node_kind n \<noteq> SourceFile
              then (case node_name n of None \<Rightarrow> bt2 | Some nm \<Rightarrow> addReferenceToSymbol s nm bt2)
              else bt2)
      | _ \<Rightarrow> bt)"

definition getDeclarations :: "nat option \<Rightarrow> BindingTable \<Rightarrow> Node list" where
  "getDeclarations symbol bt =
     (case (symbol, symbolDeclarations bt) of
        (Some s, Some ds) \<Rightarrow> (case ds s of None \<Rightarrow> [] | Some l \<Rightarrow> l)
      | _ \<Rightarrow> [])"

definition getReferences :: "nat option \<Rightarrow> BindingTable \<Rightarrow> Node list" where
  "getReferences symbol bt =
     (case (symbol, symbolReferences bt) of
        (Some s, Some rs) \<Rightarrow> (case rs s of None \<Rightarrow> [] | Some l \<Rightarrow> l)
      | _ \<Rightarrow> [])"

text \<open>
  A scope is a \<open>SymbolTable\<close> object held by reference: either \<open>bindings.globals\<close> or the table
  stored for a symbol in \<open>symbolLocals\<close>.
\<close>

datatype ScopeRef = GlobalScope | LocalScope nat

definition scopeTable :: "ScopeRef \<Rightarrow> BindingTable \<Rightarrow> SymbolTable" where
  "scopeTable r bt =
     (case r of
        GlobalScope \<Rightarrow> globals bt
      | LocalScope i \<Rightarrow> (case entries (symbolLocals bt) i of None \<Rightarrow> emptySymbolTable | Some t \<Rightarrow> t))"

definition setScopeTable :: "ScopeRef \<Rightarrow> SymbolTable \<Rightarrow> BindingTable \<Rightarrow> BindingTable" where
  "setScopeTable r t bt =
     (case r of
        GlobalScope \<Rightarrow> bt\<lparr>globals := t\<rparr>
      | LocalScope i \<Rightarrow> bt\<lparr>symbolLocals := Some ((entries (symbolLocals bt))(i \<mapsto> t))\<rparr>)"

definition getScope :: "nat \<Rightarrow> BindingTable \<Rightarrow> ScopeRef \<times> BindingTable" where
  "getScope container bt =
     (let locals = entries (symbolLocals bt)
      in case locals container of
           Some _ \<Rightarrow> (LocalScope container, bt\<lparr>symbolLocals := Some locals\<rparr>)
         | None \<Rightarrow> (LocalScope container,
                     bt\<lparr>symbolLocals := Some (locals(container \<mapsto> emptySymbolTable))\<rparr>))"

text \<open>
  One step of the loop in \<open>BindingTable.resolveSymbol\<close> at a node that is not a SourceFile:
  the symbol of the node, that symbol's local scope if it has one, and the lookup there.
\<close>

definition resolveInLocals :: "BindingTable \<Rightarrow> string option \<Rightarrow> SymbolKind \<Rightarrow> Node \<Rightarrow> nat option" where
  "resolveInLocals bt name meaning loc =
     (let symbol = getSymbol (Some loc) bt;
          locals = (case symbol of None \<Rightarrow> None | Some s \<Rightarrow> entries (symbolLocals bt) s)
      in case locals of None \<Rightarrow> None | Some t \<Rightarrow> resolveSymbol name meaning t)"

text \<open>
  The loop may run forever on a cyclic parent table, so it is a partial function: \<open>None\<close> is
  "does not return", \<open>Some r\<close> is the returned symbol or \<open>undefined\<close>. At a SourceFile the
  global scope decides and the loop ends.
\<close>

partial_function (option) resolveSymbolLoop ::
  "Node option \<Rightarrow> string option \<Rightarrow> SymbolKind \<Rightarrow> BindingTable \<Rightarrow> nat option option" where
  "resolveSymbolLoop location name meaning bt =
     (case location of
        None \<Rightarrow> Some None
      | Some loc \<Rightarrow>
          if node_kind loc = SourceFile then Some (resolveSymbol name meaning (globals bt))
          else
            (case resolveInLocals bt name meaning loc of
               Some r \<Rightarrow> Some (Some r)
             | None \<Rightarrow> resolveSymbolLoop (getParent (Some loc) bt) name meaning bt))"

text \<open>\<open>BindingTable.resolveSymbol\<close>: the loop runs only when \<open>symbolLocals\<close> is defined.\<close>

definition bt_resolveSymbol ::
  "Node option \<Rightarrow> string option \<Rightarrow> SymbolKind \<Rightarrow> BindingTable \<Rightarrow> nat option option" where
  "bt_resolveSymbol location name meaning bt =
     (if symbolLocals bt \<noteq> None then resolveSymbolLoop location name meaning bt else Some None)"


section \<open>Cancellation\<close>

text \<open>
  The cancellation token comes from a library and is an object the host controls. The code
  only ever polls it, so a token is what it answers to the polls: \<open>CancellationToken f\<close>
  reports a requested cancellation at the poll numbered \<open>n\<close> when \<open>f n\<close> holds. The number of
  polls made so far is kept beside the state that holds the token.
  \<open>CancellationToken.none\<close> never reports one.
\<close>

datatype Exception = OperationCanceled

datatype CancellationToken = CancellationToken "nat \<Rightarrow> bool"

definition CancellationToken_none :: CancellationToken where
  "CancellationToken_none = CancellationToken (\<lambda>_. False)"

fun cancellationRequested :: "CancellationToken \<Rightarrow> nat \<Rightarrow> bool" where
  "cancellationRequested (CancellationToken f) n = f n"

definition throwIfCancellationRequested :: "CancellationToken \<Rightarrow> nat \<Rightarrow> (Exception + unit) \<times> nat" where
  "throwIfCancellationRequested ct n =
     (if cancellationRequested ct n then (Inl OperationCanceled, n + 1) else (Inr (), n + 1))"

section \<open>The binder (binder.ts)\<close>

text \<open>
  The fields of a \<open>Binder\<close>, the binding table it was constructed with, and the two pieces of
  state outside the object that its methods read and write: the module state of symbols.ts
  and the number of polls of the cancellation token.
\<close>

record Binder =
  parentNode :: "Node option"
  parentSymbol :: "nat option"
  bindings :: BindingTable
  scope :: ScopeRef
  binderCancellationToken :: CancellationToken
  symbolModule :: SymbolModule
  binderPolls :: nat

definition newBinder :: "BindingTable \<Rightarrow> CancellationToken \<Rightarrow> SymbolModule \<Rightarrow> nat \<Rightarrow> Binder" where
  "newBinder bt ct m n =
     \<lparr>parentNode = None, parentSymbol = None, bindings = bt, scope = GlobalScope,
      binderCancellationToken = ct, symbolModule = m, binderPolls = n\<rparr>"

text \<open>\<open>Binder.declareSymbol\<close>: declare in the current scope, then record the declaration.\<close>

definition binder_declareSymbol :: "string option \<Rightarrow> Node \<Rightarrow> SymbolKind \<Rightarrow> Binder \<Rightarrow> nat \<times> Binder" where
  "binder_declareSymbol name declaration kind b =
     (let r = declareSymbol name kind (parentSymbol b) (scopeTable (scope b) (bindings b)) (symbolModule b);
          symbol = fst r;
          bt = addDeclarationToSymbol (Some symbol) (Some declaration)
                 (setScopeTable (scope b) (fst (snd r)) (bindings b))
      in (symbol, b\<lparr>bindings := bt, symbolModule := snd (snd r)\<rparr>))"

text \<open>A count of the nodes of a tree, by which the traversal terminates.\<close>

fun weight :: "Node \<Rightarrow> nat" and weights :: "Node list \<Rightarrow> nat" where
  "weight (SourceFileNode _ _ elements) = Suc (weights elements)"
| "weight (ProductionNode _ name others) = Suc (weight name + weights others)"
| "weight (ParameterNode _ name) = Suc (weight name)"
| "weight (IdentifierNode _ _) = Suc 0"
| "weight (OtherNode _ _ cs) = Suc (weights cs)"
| "weights [] = 0"
| "weights (c # cs) = weight c + weights cs"

lemma weight_pos: "0 < weight n"
  by (cases n) simp_all

lemma weights_children: "Suc (weights (node_children n)) = weight n"
  by (cases n) simp_all

lemma weights_children_bound: "4 * weights (node_children n) + 4 \<le> 4 * weight n"
  using weights_children [of n] by simp

text \<open>
  The traversal. A call that returns a value together with the new state is bound to one
  name and its two parts are read with \<open>fst\<close> and \<open>snd\<close>.
  \<open>forEachChild(parentNode, child => this.bind(child))\<close> is the function
  \<open>forEachChild_bind\<close> over the children in order; \<open>bindChildren\<close> saves the three context
  fields, sets them, binds the children and restores them.
\<close>

function bind :: "Node option \<Rightarrow> Binder \<Rightarrow> Binder"
  and bindProduction :: "Node \<Rightarrow> Binder \<Rightarrow> Binder"
  and bindParameter :: "Node \<Rightarrow> Binder \<Rightarrow> Binder"
  and bindChildren :: "Node \<Rightarrow> nat option \<Rightarrow> ScopeRef \<Rightarrow> Binder \<Rightarrow> Binder"
  and forEachChild_bind :: "Node list \<Rightarrow> Binder \<Rightarrow> Binder" where
  "bind None b = b"
| "bind (Some node) b =
     (let b1 = b\<lparr>bindings := setParent (Some node) (parentNode b) (bindings b)\<rparr>
      in if node_kind node = Production then bindProduction node b1
         else if node_kind node = Parameter then bindParameter node b1
         else bindChildren node (parentSymbol b1) (scope b1) b1)"
| "bindProduction node b =
     (let declared = binder_declareSymbol (name_text node) node ProductionSymbol b;
          symbol = fst declared;
          sc = getScope symbol (bindings (snd declared))
      in bindChildren node (Some symbol) (fst sc) ((snd declared)\<lparr>bindings := snd sc\<rparr>))"
| "bindParameter node b =
     (let declared = binder_declareSymbol (name_text node) node ParameterSymbol b;
          b1 = snd declared
      in bindChildren node (parentSymbol b1) (scope b1) b1)"
| "bindChildren pn ps sc b =
     (let saveParentNode = parentNode b;
          saveParentSymbol = parentSymbol b;
          saveScope = scope b;
          b1 = forEachChild_bind (node_children pn)
                 (b\<lparr>parentNode := Some pn, parentSymbol := ps, scope := sc\<rparr>)
      in b1\<lparr>scope := saveScope, parentSymbol := saveParentSymbol, parentNode := saveParentNode\<rparr>)"
| "forEachChild_bind [] b = b"
| "forEachChild_bind (c # cs) b = forEachChild_bind cs (bind (Some c) b)"
  by pat_completeness auto
termination
  by (relation "measure (\<lambda>x. case x of
          Inl (Inl (node, _)) \<Rightarrow> (case node of None \<Rightarrow> 0 | Some n \<Rightarrow> 4 * weight n + 3)
        | Inl (Inr (n, _)) \<Rightarrow> 4 * weight n + 2
        | Inr (Inl (n, _)) \<Rightarrow> 4 * weight n + 2
        | Inr (Inr (Inl (n, _, _, _))) \<Rightarrow> 4 * weight n + 1
        | Inr (Inr (Inr (cs, _))) \<Rightarrow> 4 * weights cs + 4)")
     (auto simp: weights_children_bound weight_pos less_Suc_eq_le Suc_le_eq)

text \<open>\<open>bindSourceFile\<close>: poll the token, skip a file that is already bound, else bind it.\<close>

definition bindSourceFile :: "Node \<Rightarrow> Binder \<Rightarrow> (Exception + unit) \<times> Binder" where
  "bindSourceFile file b =
     (let polled = throwIfCancellationRequested (binderCancellationToken b) (binderPolls b);
          b0 = b\<lparr>binderPolls := snd polled\<rparr>
      in case fst polled of
           Inl e \<Rightarrow> (Inl e, b0)
         | Inr _ \<Rightarrow>
             if resolveSymbol (filename file) SourceFileSymbol (scopeTable (scope b0) (bindings b0)) \<noteq> None
             then (Inr (), b0)
             else
               (let declared = binder_declareSymbol (filename file) file SourceFileSymbol b0;
                    b1 = snd declared
                in (Inr (), bindChildren file (Some (fst declared)) (scope b1) b1)))"

section \<open>Notions used to state the properties of the binder\<close>

text \<open>
  Every symbol a table resolves was created earlier: its id is at most the counter. The
  tables built by \<open>declareSymbol\<close> have this property (\<open>symbolsBelow_declareSymbol\<close>).
\<close>

definition symbolsBelow :: "SymbolTable \<Rightarrow> nat \<Rightarrow> bool" where
  "symbolsBelow t n = (\<forall>name kind i. resolveSymbol name kind t = Some i \<longrightarrow> i \<le> n)"

text \<open>A sequence of later declarations into a table.\<close>

fun declareAll ::
  "(string option \<times> SymbolKind \<times> nat option) list \<Rightarrow> SymbolTable \<Rightarrow> SymbolModule
     \<Rightarrow> SymbolTable \<times> SymbolModule" where
  "declareAll [] t m = (t, m)"
| "declareAll (d # ds) t m =
     (let r = declareSymbol (fst d) (fst (snd d)) (snd (snd d)) t m
      in declareAll ds (fst (snd r)) (snd (snd r)))"

text \<open>
  A symbol id that no name of the table resolves to, in a table whose symbols were all
  created earlier, the id itself being no later than the counter.
\<close>

definition unreachable :: "nat \<Rightarrow> SymbolTable \<Rightarrow> SymbolModule \<Rightarrow> bool" where
  "unreachable i t m =
     (symbolsBelow t (nextSymbolId m) \<and> i \<le> nextSymbolId m \<and>
      (\<forall>n k. resolveSymbol n k t \<noteq> Some i))"

text \<open>The operations of a binding table that change it, and a sequence of them.\<close>

datatype BindingOp =
    SetParent "Node option" "Node option"
  | SetSymbol "Node option" "nat option"
  | AddDeclarationToSymbol "nat option" "Node option"
  | GetScope nat

fun applyOp :: "BindingOp \<Rightarrow> BindingTable \<Rightarrow> BindingTable" where
  "applyOp (SetParent node parent) bt = setParent node parent bt"
| "applyOp (SetSymbol node symbol) bt = setSymbol node symbol bt"
| "applyOp (AddDeclarationToSymbol symbol node) bt = addDeclarationToSymbol symbol node bt"
| "applyOp (GetScope container) bt = snd (getScope container bt)"

definition applyOps :: "BindingOp list \<Rightarrow> BindingTable \<Rightarrow> BindingTable" where
  "applyOps ops bt = foldl (\<lambda>t op. applyOp op t) bt ops"

definition referencesDistinct :: "BindingTable \<Rightarrow> bool" where
  "referencesDistinct bt = (\<forall>s. distinct (getReferences (Some s) bt))"

text \<open>A binder keeps a resolution of the global scope.\<close>

definition keepsGlobal :: "string option \<Rightarrow> SymbolKind \<Rightarrow> nat \<Rightarrow> Binder \<Rightarrow> Binder \<Rightarrow> bool" where
  "keepsGlobal f k i b b' =
     (resolveSymbol f k (globals (bindings b)) = Some i \<longrightarrow>
      resolveSymbol f k (globals (bindings b')) = Some i)"

text \<open>
  The path that \<open>resolveSymbol\<close> walks: from a node along the parent table up to the first
  SourceFile node, or to a node without a parent.
\<close>

fun isAncestorPath :: "BindingTable \<Rightarrow> Node list \<Rightarrow> bool" where
  "isAncestorPath bt [] = False"
| "isAncestorPath bt [loc] = (node_kind loc = SourceFile \<or> getParent (Some loc) bt = None)"
| "isAncestorPath bt (loc # p # up) =
     (node_kind loc \<noteq> SourceFile \<and> getParent (Some loc) bt = Some p \<and> isAncestorPath bt (p # up))"

text \<open>
  The resolution as the specification words it, along a given path: at each ancestor that
  has a symbol, that symbol's private local scope is checked for a match of name and
  meaning; at a SourceFile node the file-global scope is consulted; the first symbol
  found is returned, and none when no scope on the path has a match.
\<close>

definition localScopeMatch :: "BindingTable \<Rightarrow> string option \<Rightarrow> SymbolKind \<Rightarrow> Node \<Rightarrow> nat option" where
  "localScopeMatch bt name meaning ancestor =
     (case getSymbol (Some ancestor) bt of
        None \<Rightarrow> None
      | Some symbol \<Rightarrow>
          (case entries (symbolLocals bt) symbol of
             None \<Rightarrow> None
           | Some localScope \<Rightarrow> resolveSymbol name meaning localScope))"

fun resolveSymbol_spec :: "Node list \<Rightarrow> string option \<Rightarrow> SymbolKind \<Rightarrow> BindingTable \<Rightarrow> nat option" where
  "resolveSymbol_spec [] name meaning bt = None"
| "resolveSymbol_spec (ancestor # up) name meaning bt =
     (if node_kind ancestor = SourceFile then resolveSymbol name meaning (globals bt)
      else (case localScopeMatch bt name meaning ancestor of
              Some symbol \<Rightarrow> Some symbol
            | None \<Rightarrow> resolveSymbol_spec up name meaning bt))"

subsection \<open>Concrete inputs\<close>

definition initialModule :: SymbolModule where
  "initialModule = \<lparr>nextSymbolId = 0, symbolObjects = Map.empty\<rparr>"

definition initialBinder :: Binder where
  "initialBinder = newBinder newBindingTable CancellationToken_none initialModule 0"

text \<open>A file without elements, and a file with two productions whose names are empty.\<close>

definition emptyFile :: Node where
  "emptyFile = SourceFileNode 1 ''a.grammar'' []"




text \<open>Two productions named \<open>A\<close>, the first with a parameter.\<close>

definition splitA1 :: Node where
  "splitA1 = ProductionNode 2 (IdentifierNode 3 (Some ''A''))
     [OtherNode 6 ParameterList [ParameterNode 7 (IdentifierNode 8 (Some ''x''))]]"

definition splitA2 :: Node where
  "splitA2 = ProductionNode 4 (IdentifierNode 5 (Some ''A'')) []"

definition splitFile :: Node where
  "splitFile = SourceFileNode 1 ''a.grammar'' [splitA1, splitA2]"

section \<open>Markup trivia and syntax nodes as the parser builds them\<close>

text \<open>
  Modelled from the spec: the class \<open>HtmlTrivia\<close> and the node classes (nodes.ts is not among
  the sources). The parser reads of a trivia its \<open>kind\<close>, \<open>tagName\<close> and \<open>pos\<close>. Of a node it
  writes \<open>pos\<close>, \<open>end\<close> and the two trivia lists, and reads \<open>firstChild\<close> and \<open>lastChild\<close>; the
  children of a node are the nodes its constructor is given, in order. A new node has
  position 0 and no trivia until \<open>finishNode\<close> sets them.
\<close>

record HtmlTrivia =
  triviaKind :: SyntaxKind
  tagName :: string
  triviaPos :: nat

datatype SyntaxNode =
  SyntaxNode (nodeKind: SyntaxKind) (nodePos: nat) (nodeEnd: nat) (nodeText: "string option")
    (leadingHtmlTrivia: "HtmlTrivia list option") (trailingHtmlTrivia: "HtmlTrivia list option")
    (childNodes: "SyntaxNode list")

definition newNode :: "SyntaxKind \<Rightarrow> string option \<Rightarrow> SyntaxNode list \<Rightarrow> SyntaxNode" where
  "newNode kind text children = SyntaxNode kind 0 0 text None None children"

text \<open>An optional constructor argument is a child when it is present.\<close>

definition present :: "SyntaxNode option \<Rightarrow> SyntaxNode list" where
  "present n = (case n of None \<Rightarrow> [] | Some c \<Rightarrow> [c])"

definition presentList :: "SyntaxNode list option \<Rightarrow> SyntaxNode list" where
  "presentList ns = (case ns of None \<Rightarrow> [] | Some cs \<Rightarrow> cs)"

fun setPos :: "nat \<Rightarrow> SyntaxNode \<Rightarrow> SyntaxNode" where
  "setPos v (SyntaxNode k p e t l r cs) = SyntaxNode k v e t l r cs"

fun setEnd :: "nat \<Rightarrow> SyntaxNode \<Rightarrow> SyntaxNode" where
  "setEnd v (SyntaxNode k p e t l r cs) = SyntaxNode k p v t l r cs"

fun setLeading :: "HtmlTrivia list option \<Rightarrow> SyntaxNode \<Rightarrow> SyntaxNode" where
  "setLeading v (SyntaxNode k p e t l r cs) = SyntaxNode k p e t v r cs"

fun setTrailing :: "HtmlTrivia list option \<Rightarrow> SyntaxNode \<Rightarrow> SyntaxNode" where
  "setTrailing v (SyntaxNode k p e t l r cs) = SyntaxNode k p e t l v cs"

fun setChildNodes :: "SyntaxNode list \<Rightarrow> SyntaxNode \<Rightarrow> SyntaxNode" where
  "setChildNodes v (SyntaxNode k p e t l r cs) = SyntaxNode k p e t l r v"

definition firstChild :: "SyntaxNode \<Rightarrow> SyntaxNode option" where
  "firstChild n = (case childNodes n of [] \<Rightarrow> None | c # _ \<Rightarrow> Some c)"

definition lastChild :: "SyntaxNode \<Rightarrow> SyntaxNode option" where
  "lastChild n = (if childNodes n = [] then None else Some (last (childNodes n)))"

definition setFirstChild :: "SyntaxNode \<Rightarrow> SyntaxNode \<Rightarrow> SyntaxNode" where
  "setFirstChild c n = (if childNodes n = [] then n else setChildNodes (c # tl (childNodes n)) n)"

definition setLastChild :: "SyntaxNode \<Rightarrow> SyntaxNode \<Rightarrow> SyntaxNode" where
  "setLastChild c n =
     (if childNodes n = [] then n else setChildNodes (butlast (childNodes n) @ [c]) n)"

subsection \<open>Trimming, attaching and promoting trivia\<close>

definition matched :: "HtmlTrivia \<Rightarrow> HtmlTrivia \<Rightarrow> bool" where
  "matched possibleOpenTag possibleCloseTag =
     (triviaKind possibleOpenTag = HtmlOpenTagTrivia \<and>
      triviaKind possibleCloseTag = HtmlCloseTagTrivia \<and>
      tagName possibleOpenTag = tagName possibleCloseTag)"

text \<open>
  The loop of \<open>trimTrivia\<close> over the indices \<open>i < length - 1\<close>: \<open>seen\<close> is \<open>trivia.slice(0, i)\<close>
  and \<open>result\<close> the array created at the first matched pair.
\<close>

fun trimTriviaLoop ::
  "HtmlTrivia list \<Rightarrow> HtmlTrivia list \<Rightarrow> HtmlTrivia list option \<Rightarrow> HtmlTrivia list option" where
  "trimTriviaLoop (x # y # rest) seen result =
     (if matched x y
      then trimTriviaLoop (y # rest) (seen @ [x])
             (case result of None \<Rightarrow> Some seen | Some r \<Rightarrow> Some r)
      else trimTriviaLoop (y # rest) (seen @ [x])
             (case result of None \<Rightarrow> None | Some r \<Rightarrow> Some (r @ [x])))"
| "trimTriviaLoop _ seen result = result"

definition trimTrivia :: "HtmlTrivia list option \<Rightarrow> HtmlTrivia list option" where
  "trimTrivia trivia =
     (case trivia of
        None \<Rightarrow> None
      | Some ts \<Rightarrow> (case trimTriviaLoop ts [] None of None \<Rightarrow> Some ts | Some r \<Rightarrow> Some r))"

text \<open>
  \<open>attachHtmlTrivia\<close>, first half: the open tags at the end of \<open>leadingTags\<close> move to the front
  of the node's leading trivia, in their order; the array keeps the rest. Second half: the
  close tags at the front of \<open>trailingTags\<close> move to the end of the node's trailing trivia.
  Each half returns the node and what is left of the array.
\<close>

definition isOpenTag :: "HtmlTrivia \<Rightarrow> bool" where
  "isOpenTag t = (triviaKind t = HtmlOpenTagTrivia)"

definition isCloseTag :: "HtmlTrivia \<Rightarrow> bool" where
  "isCloseTag t = (triviaKind t = HtmlCloseTagTrivia)"

definition attachLeading :: "SyntaxNode \<Rightarrow> HtmlTrivia list \<Rightarrow> SyntaxNode \<times> HtmlTrivia list" where
  "attachLeading node leadingTags =
     (let moved = rev (takeWhile isOpenTag (rev leadingTags));
          kept = rev (dropWhile isOpenTag (rev leadingTags))
      in if moved = [] then (node, kept)
         else (setLeading (Some (moved @ (case leadingHtmlTrivia node of None \<Rightarrow> [] | Some l \<Rightarrow> l))) node,
               kept))"

definition attachTrailing :: "SyntaxNode \<Rightarrow> HtmlTrivia list \<Rightarrow> SyntaxNode \<times> HtmlTrivia list" where
  "attachTrailing node trailingTags =
     (let moved = takeWhile isCloseTag trailingTags;
          kept = dropWhile isCloseTag trailingTags
      in if moved = [] then (node, kept)
         else (setTrailing (Some ((case trailingHtmlTrivia node of None \<Rightarrow> [] | Some l \<Rightarrow> l) @ moved)) node,
               kept))"

text \<open>
  \<open>attachHtmlTrivia(node, tags.get(node.pos), tags.get(node.end))\<close> on the map of tags: the
  two arrays are entries of the map and are changed in place; when \<open>pos = end\<close> they are the
  same array, which the second half reads as the first half left it.
\<close>

definition attachHtmlTrivia ::
  "SyntaxNode \<Rightarrow> (nat \<rightharpoonup> HtmlTrivia list) \<Rightarrow> SyntaxNode \<times> (nat \<rightharpoonup> HtmlTrivia list)" where
  "attachHtmlTrivia node tags =
     (let a = (case tags (nodePos node) of
                 None \<Rightarrow> (node, tags)
               | Some leadingTags \<Rightarrow>
                   (let r = attachLeading node leadingTags
                    in (fst r, tags(nodePos node \<mapsto> snd r))));
          node1 = fst a; tags1 = snd a
      in case tags1 (nodeEnd node1) of
           None \<Rightarrow> (node1, tags1)
         | Some trailingTags \<Rightarrow>
             (let r = attachTrailing node1 trailingTags
              in (fst r, tags1(nodeEnd node1 \<mapsto> snd r))))"

text \<open>
  The loop of \<open>promoteLeadingHtmlTrivia\<close>: leading tags of the child move to the parent until
  one matches the trailing tag popped from the child; the pair is the moved tags and the
  tags the child keeps.
\<close>

fun promoteLeadingLoop :: "HtmlTrivia list \<Rightarrow> HtmlTrivia option \<Rightarrow> HtmlTrivia list \<times> HtmlTrivia list" where
  "promoteLeadingLoop [] trailingTag = ([], [])"
| "promoteLeadingLoop (leadingTag # rest) trailingTag =
     (if (case trailingTag of None \<Rightarrow> True | Some t \<Rightarrow> \<not> matched leadingTag t)
      then (let r = promoteLeadingLoop rest trailingTag in (leadingTag # fst r, snd r))
      else ([], leadingTag # rest))"

text \<open>\<open>pop\<close> of an array: the last element, if any, and the array without it.\<close>

definition pop :: "'a list \<Rightarrow> 'a option \<times> 'a list" where
  "pop xs = (if xs = [] then (None, []) else (Some (last xs), butlast xs))"

definition promoteLeadingHtmlTrivia :: "SyntaxNode \<Rightarrow> SyntaxNode \<Rightarrow> SyntaxNode \<times> SyntaxNode" where
  "promoteLeadingHtmlTrivia parent child =
     (case leadingHtmlTrivia child of
        None \<Rightarrow> (parent, child)
      | Some leading \<Rightarrow>
          (case trailingHtmlTrivia child of
             Some trailing \<Rightarrow>
               (let popped = pop trailing;
                    r = promoteLeadingLoop leading (fst popped);
                    parent1 = (if fst r = [] then parent
                               else setLeading (Some ((case leadingHtmlTrivia parent of None \<Rightarrow> [] | Some l \<Rightarrow> l) @ fst r)) parent);
                    trailing1 = (case fst popped of None \<Rightarrow> snd popped | Some t \<Rightarrow> t # snd popped)
                in (parent1, setTrailing (Some trailing1) (setLeading (Some (snd r)) child)))
           | None \<Rightarrow>
               (setLeading (Some (case leadingHtmlTrivia parent of None \<Rightarrow> leading | Some l \<Rightarrow> l @ leading)) parent,
                setLeading None child)))"

text \<open>
  The loop of \<open>promoteTrailingHtmlTrivia\<close> pops trailing tags off the end of the child until
  one matches the first leading tag; the pair is the moved tags, in their order, and the
  tags left with the tag that stopped the loop put back at the front, as the code does.
\<close>

fun promoteTrailingLoop :: "HtmlTrivia list \<Rightarrow> HtmlTrivia option \<Rightarrow> HtmlTrivia list \<times> HtmlTrivia list" where
  "promoteTrailingLoop [] leadingTag = ([], [])"
| "promoteTrailingLoop (trailingTag # restRev) leadingTag =
     (if (case leadingTag of None \<Rightarrow> True | Some t \<Rightarrow> \<not> matched t trailingTag)
      then (let r = promoteTrailingLoop restRev leadingTag in (fst r @ [trailingTag], snd r))
      else ([], trailingTag # rev restRev))"

definition promoteTrailingHtmlTrivia :: "SyntaxNode \<Rightarrow> SyntaxNode \<Rightarrow> SyntaxNode \<times> SyntaxNode" where
  "promoteTrailingHtmlTrivia parent child =
     (case trailingHtmlTrivia child of
        None \<Rightarrow> (parent, child)
      | Some trailing \<Rightarrow>
          (case leadingHtmlTrivia child of
             Some leading \<Rightarrow>
               (let leadingTag = (case leading of [] \<Rightarrow> None | t # _ \<Rightarrow> Some t);
                    r = promoteTrailingLoop (rev trailing) leadingTag;
                    parent1 = (if fst r = [] then parent
                               else setTrailing (Some (fst r @ (case trailingHtmlTrivia parent of None \<Rightarrow> [] | Some l \<Rightarrow> l))) parent)
                in (parent1, setTrailing (Some (snd r)) child))
           | None \<Rightarrow>
               (setTrailing (Some (case trailingHtmlTrivia parent of None \<Rightarrow> trailing | Some l \<Rightarrow> trailing @ l)) parent,
                setTrailing None child)))"

definition promoteAllHtmlTrivia :: "SyntaxNode \<Rightarrow> SyntaxNode \<Rightarrow> SyntaxNode \<times> SyntaxNode" where
  "promoteAllHtmlTrivia parent onlyChild =
     (let a = (case leadingHtmlTrivia onlyChild of
                 None \<Rightarrow> (parent, onlyChild)
               | Some leading \<Rightarrow>
                   (setLeading (Some (case leadingHtmlTrivia parent of None \<Rightarrow> leading | Some l \<Rightarrow> l @ leading)) parent,
                    setLeading None onlyChild));
          parent1 = fst a; child1 = snd a
      in case trailingHtmlTrivia child1 of
           None \<Rightarrow> (parent1, child1)
         | Some trailing \<Rightarrow>
             (setTrailing (Some (case trailingHtmlTrivia parent1 of None \<Rightarrow> trailing | Some l \<Rightarrow> trailing @ l)) parent1,
              setTrailing None child1))"

text \<open>
  \<open>promoteHtmlTrivia(node, node.firstChild, node.lastChild)\<close>: with one child, all of its
  trivia; otherwise leading trivia of the first child and trailing trivia of the last. The
  children are changed in place, that is, within the node.
\<close>

definition promoteHtmlTrivia :: "SyntaxNode \<Rightarrow> SyntaxNode" where
  "promoteHtmlTrivia parent =
     (case childNodes parent of
        [] \<Rightarrow> parent
      | [onlyChild] \<Rightarrow>
          (let r = promoteAllHtmlTrivia parent onlyChild in setFirstChild (snd r) (fst r))
      | first # _ \<Rightarrow>
          (let a = promoteLeadingHtmlTrivia parent first;
               parent1 = setFirstChild (snd a) (fst a);
               b = promoteTrailingHtmlTrivia parent1 (last (childNodes parent1))
           in setLastChild (snd b) (fst b)))"

section \<open>Diagnostics, the scanner and the state of the parser\<close>

text \<open>
  Modelled from the spec: the diagnostic sink (diagnostics.ts is not among the sources). A
  \<open>DiagnosticMessages\<close> object is an ordered sequence of positioned messages; the parser and
  the scanner of one parse hold the same object, so the objects live in a store and are
  held by address. \<open>NullDiagnosticMessages.instance\<close> is the discard sink: a report to it is
  dropped. The messages are the ones the parser reports, and \<open>ScannerMessage\<close> for those
  of the scanner.
\<close>

datatype Message =
    Production_expected
  | Expected "SyntaxKind list"
  | Unexpected_token SyntaxKind
  | ScannerMessage nat

datatype Diagnostic = Diagnostic nat Message

datatype DiagnosticsRef = MessagesAt nat | NullDiagnosticMessages

definition report ::
  "DiagnosticsRef \<Rightarrow> Diagnostic \<Rightarrow> (nat \<Rightarrow> Diagnostic list) \<Rightarrow> (nat \<Rightarrow> Diagnostic list)" where
  "report target d store =
     (case target of
        NullDiagnosticMessages \<Rightarrow> store
      | MessagesAt a \<Rightarrow> store(a := store a @ [d]))"

text \<open>
  Modelled from the spec: the scanner (scanner.ts is not among the sources). The text to
  scan is given by the tokens the scanner finds in it: for each token its kind, the width
  of the whitespace before it and of its own text, its decoded value and raw text, the
  markup trivia collected before it, and the diagnostics the scanner reports on it.
  \<open>scan()\<close> starts at the end of the previous token, so \<open>getStartPos()\<close> of a token is the
  end of the one before; after the last token \<open>scan()\<close> gives \<open>EndOfFileToken\<close>. The scanner
  holds the cancellation token the parser constructs it with and polls it before each
  token scan.
\<close>

record ScannedToken =
  scannedKind :: SyntaxKind
  leadingWidth :: nat
  textWidth :: nat
  scannedValue :: string
  scannedText :: string
  scannedTrivia :: "HtmlTrivia list option"
  scannedDiagnostics :: "Message list"

record Scanner =
  pending :: "ScannedToken list"
  pos :: nat
  startPos :: nat
  tokenPos :: nat
  scannerToken :: SyntaxKind
  tokenValue :: string
  tokenText :: string
  htmlTrivia :: "HtmlTrivia list option"
  scannerDiagnostics :: DiagnosticsRef
  scannerCancellationToken :: CancellationToken

definition newScanner :: "ScannedToken list \<Rightarrow> DiagnosticsRef \<Rightarrow> CancellationToken \<Rightarrow> Scanner" where
  "newScanner text diagnostics ct =
     \<lparr>pending = text, pos = 0, startPos = 0, tokenPos = 0, scannerToken = OtherKind 0,
      tokenValue = [], tokenText = [], htmlTrivia = None, scannerDiagnostics = diagnostics,
      scannerCancellationToken = ct\<rparr>"

datatype ParsingContext =
    SourceElements | Parameters | BracketedParameters | Arguments | BracketedArguments
  | RightHandSideListIndented | SymbolSetContext | OneOfListContext | OneOfListIndented
  | OneOfSymbolList | NoSymbolHere

text \<open>
  The fields of a \<open>Parser\<close>, followed by the state outside the object that its methods read
  and write: the store of diagnostic sinks with the next free address, and the number of
  polls of the cancellation token. The fields marked \<open>!\<close> in the source have no value
  before the first parse; here they have some value that nothing reads.
\<close>

record Parser =
  scanner :: Scanner
  token :: SyntaxKind
  parserImports :: "string list"
  diagnostics :: DiagnosticsRef
  parsingContext :: ParsingContext
  cancellationToken :: CancellationToken
  tags :: "(nat \<rightharpoonup> HtmlTrivia list) option"
  tagsOffset :: nat
  messages :: "nat \<Rightarrow> Diagnostic list"
  nextMessages :: nat
  polls :: nat

subsection \<open>Results of a call\<close>

text \<open>
  A call of a parser method returns a value, throws, or does not return. A method whose
  loop may run forever takes a bound on the number of iterations and calls it may make;
  \<open>Diverges\<close> is the result when the bound is used up. The state comes with the result in
  each case, as the object is left as it is when an exception passes.
\<close>

datatype 'a Completion = Normal 'a | Throws Exception | Diverges

text \<open>
  \<open>andThen r k\<close> continues with \<open>k\<close> on the value and state of \<open>r\<close> when \<open>r\<close> returned, and
  passes an exception or a divergence on: the parser has no \<open>catch\<close>. \<open>returns\<close> wraps the
  result of a call that always returns.
\<close>

definition andThen ::
  "'a Completion \<times> Parser \<Rightarrow> ('a \<times> Parser \<Rightarrow> 'b Completion \<times> Parser) \<Rightarrow> 'b Completion \<times> Parser" where
  "andThen r k =
     (case fst r of
        Normal x \<Rightarrow> k (x, snd r)
      | Throws e \<Rightarrow> (Throws e, snd r)
      | Diverges \<Rightarrow> (Diverges, snd r))"

definition returns :: "'a \<times> Parser \<Rightarrow> 'a Completion \<times> Parser" where
  "returns r = (Normal (fst r), snd r)"

text \<open>
  What a callback returns to \<open>speculate\<close>: the code tests it with \<open>!result\<close>. A node is
  truthy, \<open>undefined\<close> and \<open>false\<close> are not.
\<close>

datatype Value = Undefined | Boolean bool | NodeValue SyntaxNode

fun truthyValue :: "Value \<Rightarrow> bool" where
  "truthyValue Undefined = False"
| "truthyValue (Boolean b) = b"
| "truthyValue (NodeValue _) = True"

subsection \<open>The scanner's methods\<close>

definition reportAll :: "DiagnosticsRef \<Rightarrow> nat \<Rightarrow> Message list \<Rightarrow> (nat \<Rightarrow> Diagnostic list) \<Rightarrow> (nat \<Rightarrow> Diagnostic list)" where
  "reportAll target at ms store = foldl (\<lambda>s m. report target (Diagnostic at m) s) store ms"

text \<open>
  \<open>scanner.scan()\<close>, on the parser state that holds the scanner and the store: the poll of
  the scanner's cancellation token, then the token.
\<close>

definition scan :: "Parser \<Rightarrow> SyntaxKind Completion \<times> Parser" where
  "scan p =
     (let polled = throwIfCancellationRequested (scannerCancellationToken (scanner p)) (polls p);
          p0 = p\<lparr>polls := snd polled\<rparr>;
          sc = scanner p0
      in case fst polled of
           Inl e \<Rightarrow> (Throws e, p0)
         | Inr _ \<Rightarrow>
             (case pending sc of
                [] \<Rightarrow>
                  (Normal EndOfFileToken,
                   p0\<lparr>scanner := sc\<lparr>startPos := pos sc, tokenPos := pos sc,
                                      scannerToken := EndOfFileToken, tokenValue := [],
                                      tokenText := [], htmlTrivia := None\<rparr>\<rparr>)
              | t # rest \<Rightarrow>
                  (Normal (scannedKind t),
                   p0\<lparr>scanner := sc\<lparr>pending := rest, startPos := pos sc,
                                      tokenPos := pos sc + leadingWidth t,
                                      pos := pos sc + leadingWidth t + textWidth t,
                                      scannerToken := scannedKind t, tokenValue := scannedValue t,
                                      tokenText := scannedText t, htmlTrivia := scannedTrivia t\<rparr>,
                      messages := reportAll (scannerDiagnostics sc) (pos sc + leadingWidth t)
                                    (scannedDiagnostics t) (messages p0)\<rparr>)))"

definition getStartPos :: "Parser \<Rightarrow> nat" where
  "getStartPos p = startPos (scanner p)"

definition getTokenPos :: "Parser \<Rightarrow> nat" where
  "getTokenPos p = tokenPos (scanner p)"

definition getTokenValue :: "Parser \<Rightarrow> string" where
  "getTokenValue p = tokenValue (scanner p)"

definition getTokenText :: "Parser \<Rightarrow> string" where
  "getTokenText p = tokenText (scanner p)"

text \<open>\<open>getHtmlTrivia()\<close> drains the trivia collected before the current token.\<close>

definition getHtmlTrivia :: "Parser \<Rightarrow> HtmlTrivia list option \<times> Parser" where
  "getHtmlTrivia p = (htmlTrivia (scanner p), p\<lparr>scanner := (scanner p)\<lparr>htmlTrivia := None\<rparr>\<rparr>)"

text \<open>
  \<open>scanner.speculate(callback, isLookahead)\<close>, from the specification: it runs the callback
  against the saved scanner state with the scanner's diagnostics redirected to the discard
  sink, and restores the saved state when \<open>isLookahead\<close> holds or the result is falsy. The
  callback is the parser's closure: it works on the parser state.
\<close>

definition scanner_speculate ::
  "(Parser \<Rightarrow> Value Completion \<times> Parser) \<Rightarrow> bool \<Rightarrow> Parser \<Rightarrow> Value Completion \<times> Parser" where
  "scanner_speculate callback isLookahead p =
     (let saved = scanner p;
          r = callback (p\<lparr>scanner := saved\<lparr>scannerDiagnostics := NullDiagnosticMessages\<rparr>\<rparr>);
          p1 = snd r
      in case fst r of
           Normal result \<Rightarrow>
             (Normal result,
              if \<not> truthyValue result \<or> isLookahead then p1\<lparr>scanner := saved\<rparr>
              else p1\<lparr>scanner := (scanner p1)\<lparr>scannerDiagnostics := scannerDiagnostics saved\<rparr>\<rparr>)
         | Throws e \<Rightarrow> (Throws e, p1)
         | Diverges \<Rightarrow> (Diverges, p1))"

section \<open>The parser (parser.ts)\<close>

subsection \<open>Tokens, speculation and nodes\<close>

text \<open>
  \<open>nextToken\<close>: when the scan throws, \<open>token\<close> is not assigned.
\<close>

definition nextToken :: "Parser \<Rightarrow> SyntaxKind Completion \<times> Parser" where
  "nextToken p =
     andThen (scan p)
       (\<lambda>scanned.
          let p2 = (snd scanned)\<lparr>token := fst scanned\<rparr>;
              drained = getHtmlTrivia p2;
              p3 = snd drained
          in case trimTrivia (fst drained) of
               None \<Rightarrow> (Normal (token p3), p3)
             | Some trivia \<Rightarrow>
                 (Normal (token p3),
                  p3\<lparr>tags := Some ((case tags p3 of None \<Rightarrow> Map.empty | Some m \<Rightarrow> m)
                                    (getStartPos p3 \<mapsto> trivia))\<rparr>))"

text \<open>
  \<open>speculate\<close> has no \<open>finally\<close>: when the callback throws, nothing is restored.
\<close>

definition speculate ::
  "(Parser \<Rightarrow> Value Completion \<times> Parser) \<Rightarrow> bool \<Rightarrow> Parser \<Rightarrow> Value Completion \<times> Parser" where
  "speculate callback isLookahead p =
     (let saveToken = token p;
          saveParsingContext = parsingContext p;
          saveDiagnostics = diagnostics p;
          r = scanner_speculate callback isLookahead (p\<lparr>diagnostics := NullDiagnosticMessages\<rparr>);
          p1 = snd r
      in case fst r of
           Normal result \<Rightarrow>
             (Normal result,
              if \<not> truthyValue result \<or> isLookahead
              then p1\<lparr>diagnostics := saveDiagnostics, token := saveToken,
                      parsingContext := saveParsingContext\<rparr>
              else p1\<lparr>diagnostics := saveDiagnostics\<rparr>)
         | Throws e \<Rightarrow> (Throws e, p1)
         | Diverges \<Rightarrow> (Diverges, p1))"

definition lookahead :: "(Parser \<Rightarrow> Value Completion \<times> Parser) \<Rightarrow> Parser \<Rightarrow> Value Completion \<times> Parser" where
  "lookahead callback p = speculate callback True p"

definition tryParse :: "(Parser \<Rightarrow> Value Completion \<times> Parser) \<Rightarrow> Parser \<Rightarrow> Value Completion \<times> Parser" where
  "tryParse callback p = speculate callback False p"

datatype SkipWhitespace = SkipNone | SkipLineTerminator | SkipIndentation | SkipAll

text \<open>The two bits of the flags.\<close>

fun skipsLineTerminator :: "SkipWhitespace \<Rightarrow> bool" where
  "skipsLineTerminator SkipLineTerminator = True"
| "skipsLineTerminator SkipAll = True"
| "skipsLineTerminator _ = False"

fun skipsIndentation :: "SkipWhitespace \<Rightarrow> bool" where
  "skipsIndentation SkipIndentation = True"
| "skipsIndentation SkipAll = True"
| "skipsIndentation _ = False"

definition isWhitespace :: "SkipWhitespace \<Rightarrow> Parser \<Rightarrow> bool" where
  "isWhitespace skip p =
     (if token p = LineTerminatorToken then skipsLineTerminator skip
      else if token p = IndentToken \<or> token p = DedentToken then skipsIndentation skip
      else False)"

definition isEOF :: "Parser \<Rightarrow> bool" where
  "isEOF p = (token p = EndOfFileToken)"

text \<open>
  \<open>skipUntil\<close> and \<open>skipWhitespace\<close> stop at the end of the file at the latest; the loops run
  at most once per token still to scan and once more.
\<close>

fun skipUntilLoop :: "nat \<Rightarrow> (SyntaxKind \<Rightarrow> bool) \<Rightarrow> Parser \<Rightarrow> unit Completion \<times> Parser" where
  "skipUntilLoop 0 isRecoveryToken p = (Normal (), p)"
| "skipUntilLoop (Suc n) isRecoveryToken p =
     (if \<not> isRecoveryToken (token p) \<and> \<not> isEOF p
      then andThen (nextToken p) (\<lambda>r. skipUntilLoop n isRecoveryToken (snd r))
      else (Normal (), p))"

definition skipUntil :: "(SyntaxKind \<Rightarrow> bool) \<Rightarrow> Parser \<Rightarrow> unit Completion \<times> Parser" where
  "skipUntil isRecoveryToken p =
     skipUntilLoop (Suc (length (pending (scanner p)))) isRecoveryToken p"

fun skipWhitespaceLoop :: "nat \<Rightarrow> SkipWhitespace \<Rightarrow> Parser \<Rightarrow> unit Completion \<times> Parser" where
  "skipWhitespaceLoop 0 skip p = (Normal (), p)"
| "skipWhitespaceLoop (Suc n) skip p =
     (if isWhitespace skip p
      then andThen (nextToken p) (\<lambda>r. skipWhitespaceLoop n skip (snd r))
      else (Normal (), p))"

definition skipWhitespace :: "SkipWhitespace \<Rightarrow> Parser \<Rightarrow> unit Completion \<times> Parser" where
  "skipWhitespace skip p = skipWhitespaceLoop (Suc (length (pending (scanner p)))) skip p"

definition readTokenValue :: "SyntaxKind \<Rightarrow> Parser \<Rightarrow> string option Completion \<times> Parser" where
  "readTokenValue tk p =
     (if token p = tk
      then (let text = getTokenValue p
            in andThen (nextToken p) (\<lambda>r. (Normal (Some text), snd r)))
      else (Normal None, p))"

definition readTokenText :: "SyntaxKind \<Rightarrow> Parser \<Rightarrow> string option Completion \<times> Parser" where
  "readTokenText tk p =
     (if token p = tk
      then (let text = getTokenText p
            in andThen (nextToken p) (\<lambda>r. (Normal (Some text), snd r)))
      else (Normal None, p))"

definition finishNode :: "SyntaxNode \<Rightarrow> nat \<Rightarrow> Parser \<Rightarrow> SyntaxNode \<times> Parser" where
  "finishNode node fullStart p =
     (let node1 = setEnd (getStartPos p) (setPos fullStart node)
      in case tags p of
           None \<Rightarrow> (promoteHtmlTrivia node1, p)
         | Some m \<Rightarrow>
             (let r = attachHtmlTrivia node1 m
              in (promoteHtmlTrivia (fst r), p\<lparr>tags := Some (snd r)\<rparr>)))"

definition parseToken :: "SyntaxKind \<Rightarrow> Parser \<Rightarrow> SyntaxNode option Completion \<times> Parser" where
  "parseToken tk p =
     (if token p = tk
      then (let fullStart = getStartPos p
            in andThen (nextToken p)
                 (\<lambda>r. let n = finishNode (newNode tk None []) fullStart (snd r)
                      in (Normal (Some (fst n)), snd n)))
      else (Normal None, p))"

definition parseAnyToken :: "(SyntaxKind \<Rightarrow> bool) \<Rightarrow> Parser \<Rightarrow> SyntaxNode option Completion \<times> Parser" where
  "parseAnyToken predicate p =
     (let tk = token p
      in if predicate tk
         then (let fullStart = getStartPos p
               in andThen (nextToken p)
                    (\<lambda>r. let n = finishNode (newNode tk None []) fullStart (snd r)
                         in (Normal (Some (fst n)), snd n)))
         else (Normal None, p))"

definition parseOptional :: "SyntaxKind \<Rightarrow> Parser \<Rightarrow> bool Completion \<times> Parser" where
  "parseOptional tk p =
     (if token p = tk then andThen (nextToken p) (\<lambda>r. (Normal True, snd r)) else (Normal False, p))"

subsection \<open>Token predicates\<close>

text \<open>
  \<open>canBeIdentifier\<close>: an identifier, or a kind between \<open>FirstKeyword\<close> and \<open>LastKeyword\<close>, which
  are the keywords.
\<close>

fun canBeIdentifier :: "SyntaxKind \<Rightarrow> bool" where
  "canBeIdentifier (KeywordToken _) = True"
| "canBeIdentifier k = (k = Identifier)"

definition isSourceElementsRecoveryToken :: "SyntaxKind \<Rightarrow> bool" where
  "isSourceElementsRecoveryToken tk = (tk = LineTerminatorToken)"

definition isParametersRecoveryToken :: "SyntaxKind \<Rightarrow> bool" where
  "isParametersRecoveryToken tk =
     (tk = CommaToken \<or> tk = Identifier \<or> tk = CloseParenToken \<or> tk = ColonToken \<or>
      tk = ColonColonToken \<or> tk = ColonColonColonToken \<or> tk = LineTerminatorToken)"

definition isBracketedParametersRecoveryToken :: "SyntaxKind \<Rightarrow> bool" where
  "isBracketedParametersRecoveryToken tk =
     (tk = CommaToken \<or> tk = Identifier \<or> tk = CloseBracketToken \<or> tk = ColonToken \<or>
      tk = ColonColonToken \<or> tk = ColonColonColonToken \<or> tk = LineTerminatorToken)"

definition isArgumentsRecoveryToken :: "SyntaxKind \<Rightarrow> bool" where
  "isArgumentsRecoveryToken tk =
     (tk = CommaToken \<or> tk = QuestionToken \<or> tk = Identifier \<or> tk = CloseParenToken \<or>
      tk = LineTerminatorToken)"

definition isBracketedArgumentsRecoveryToken :: "SyntaxKind \<Rightarrow> bool" where
  "isBracketedArgumentsRecoveryToken tk =
     (tk = CommaToken \<or> tk = QuestionToken \<or> tk = Identifier \<or> tk = CloseBracketToken \<or>
      tk = LineTerminatorToken)"

definition isRightHandSideListIndentedRecoveryToken :: "SyntaxKind \<Rightarrow> bool" where
  "isRightHandSideListIndentedRecoveryToken tk = (tk = DedentToken \<or> tk = LineTerminatorToken)"

definition isSymbolSetRecoveryToken :: "SyntaxKind \<Rightarrow> bool" where
  "isSymbolSetRecoveryToken tk =
     (tk = CommaToken \<or> tk = Terminal \<or> tk = CloseBraceToken \<or> tk = LineTerminatorToken)"

definition isOneOfListRecoveryToken :: "SyntaxKind \<Rightarrow> bool" where
  "isOneOfListRecoveryToken tk = (tk = Terminal \<or> tk = LineTerminatorToken)"

definition isOneOfListIndentedRecoveryToken :: "SyntaxKind \<Rightarrow> bool" where
  "isOneOfListIndentedRecoveryToken tk = (tk = Terminal \<or> tk = LineTerminatorToken)"

definition isOneOfSymbolListRecoveryToken :: "SyntaxKind \<Rightarrow> bool" where
  "isOneOfSymbolListRecoveryToken tk =
     (tk = OrKeyword \<or> tk = Terminal \<or> tk = Identifier \<or> tk = OpenBracketToken \<or>
      tk = QuestionToken \<or> tk = LineTerminatorToken)"

definition isNoSymbolHereRecoveryToken :: "SyntaxKind \<Rightarrow> bool" where
  "isNoSymbolHereRecoveryToken tk =
     (tk = OrKeyword \<or> tk = HereKeyword \<or> tk = Terminal \<or> tk = Identifier \<or>
      tk = CloseBracketToken \<or> tk = QuestionToken \<or> tk = LineTerminatorToken)"

definition isInvalidSymbolRecoveryToken :: "SyntaxKind \<Rightarrow> bool" where
  "isInvalidSymbolRecoveryToken tk =
     (tk = OpenBracketToken \<or> tk = Terminal \<or> tk = Identifier \<or> tk = LineTerminatorToken)"

definition isInvalidConstraintTailRecoveryToken :: "SyntaxKind \<Rightarrow> bool" where
  "isInvalidConstraintTailRecoveryToken tk =
     (tk = CloseBracketToken \<or> tk = LineTerminatorToken \<or> tk = Terminal \<or> tk = Identifier)"

definition isProductionSeparatorToken :: "SyntaxKind \<Rightarrow> bool" where
  "isProductionSeparatorToken tk =
     (tk = ColonToken \<or> tk = ColonColonToken \<or> tk = ColonColonColonToken)"

definition isLeadingArgumentToken :: "SyntaxKind \<Rightarrow> bool" where
  "isLeadingArgumentToken tk = (tk = QuestionToken \<or> tk = PlusToken \<or> tk = TildeToken)"

definition isParameterOperatorToken :: "SyntaxKind \<Rightarrow> bool" where
  "isParameterOperatorToken tk = (tk = PlusToken \<or> tk = TildeToken)"

definition isBooleanLiteralToken :: "SyntaxKind \<Rightarrow> bool" where
  "isBooleanLiteralToken tk = (tk = TrueKeyword \<or> tk = FalseKeyword)"

definition isLookaheadOperatorToken :: "SyntaxKind \<Rightarrow> bool" where
  "isLookaheadOperatorToken tk =
     (tk = EqualsToken \<or> tk = EqualsEqualsToken \<or> tk = ExclamationEqualsToken \<or>
      tk = NotEqualToToken \<or> tk = LessThanMinusToken \<or> tk = ElementOfToken \<or>
      tk = LessThanExclamationToken \<or> tk = NotAnElementOfToken)"

definition isStartOfParameter :: "Parser \<Rightarrow> bool" where
  "isStartOfParameter p = canBeIdentifier (token p)"

definition isStartOfArgument :: "Parser \<Rightarrow> bool" where
  "isStartOfArgument p = (isLeadingArgumentToken (token p) \<or> canBeIdentifier (token p))"

definition isStartOfSymbolSpan :: "Parser \<Rightarrow> bool" where
  "isStartOfSymbolSpan p =
     (token p = UnicodeCharacterLiteral \<or> token p = Terminal \<or> token p = Identifier \<or>
      token p = OpenBracketToken \<or> token p = OpenBracketGreaterThanToken \<or>
      token p = GreaterThanToken \<or> token p = AtToken)"

definition isStartOfRightHandSide :: "Parser \<Rightarrow> bool" where
  "isStartOfRightHandSide p = isStartOfSymbolSpan p"

definition isStartOfSourceElement :: "Parser \<Rightarrow> bool" where
  "isStartOfSourceElement p =
     (token p = AtToken \<or> token p = Identifier \<or> token p = ColonToken \<or>
      token p = ColonColonToken \<or> token p = ColonColonColonToken \<or> token p = OpenParenToken)"

subsection \<open>The policy of a parsing context\<close>

text \<open>Each of these switches on the field \<open>parsingContext\<close>, as in the source.\<close>

definition shouldParseElement :: "Parser \<Rightarrow> bool" where
  "shouldParseElement p =
     (case parsingContext p of
        SourceElements \<Rightarrow> isStartOfSourceElement p
      | Parameters \<Rightarrow> isStartOfParameter p
      | BracketedParameters \<Rightarrow> isStartOfParameter p
      | Arguments \<Rightarrow> isStartOfArgument p
      | BracketedArguments \<Rightarrow> isStartOfArgument p
      | RightHandSideListIndented \<Rightarrow> isStartOfRightHandSide p
      | SymbolSetContext \<Rightarrow>
          token p = Terminal \<or> token p = Identifier \<or> token p = UnicodeCharacterLiteral
      | OneOfListContext \<Rightarrow> token p = Terminal \<or> token p = UnicodeCharacterLiteral
      | OneOfListIndented \<Rightarrow> token p = Terminal \<or> token p = UnicodeCharacterLiteral
      | OneOfSymbolList \<Rightarrow>
          token p = Terminal \<or> token p = Identifier \<or> token p = UnicodeCharacterLiteral
      | NoSymbolHere \<Rightarrow>
          token p = Terminal \<or> token p = Identifier \<or> token p = UnicodeCharacterLiteral)"

definition shouldSkipWhitespace :: "Parser \<Rightarrow> SkipWhitespace" where
  "shouldSkipWhitespace p =
     (case parsingContext p of
        SourceElements \<Rightarrow> SkipAll
      | Parameters \<Rightarrow> SkipAll
      | BracketedParameters \<Rightarrow> SkipAll
      | Arguments \<Rightarrow> SkipAll
      | BracketedArguments \<Rightarrow> SkipAll
      | SymbolSetContext \<Rightarrow> SkipAll
      | RightHandSideListIndented \<Rightarrow> SkipLineTerminator
      | OneOfListContext \<Rightarrow> SkipNone
      | OneOfListIndented \<Rightarrow> SkipLineTerminator
      | OneOfSymbolList \<Rightarrow> SkipNone
      | NoSymbolHere \<Rightarrow> SkipNone)"

definition shouldConsumeCloseToken :: "Parser \<Rightarrow> bool" where
  "shouldConsumeCloseToken p =
     (case parsingContext p of
        Parameters \<Rightarrow> False
      | BracketedParameters \<Rightarrow> False
      | Arguments \<Rightarrow> False
      | BracketedArguments \<Rightarrow> False
      | SymbolSetContext \<Rightarrow> False
      | OneOfListIndented \<Rightarrow> False
      | RightHandSideListIndented \<Rightarrow> False
      | NoSymbolHere \<Rightarrow> False
      | _ \<Rightarrow> True)"

text \<open>
  \<open>recover\<close>: the parser skips to a recovery token of the context; six of the contexts go on
  with \<open>if (this.token === SyntaxKind.LineTerminatorToken) this.nextToken()\<close>, which is
  \<open>skipLineTerminatorAfterRecovery\<close>.
\<close>

definition skipLineTerminatorAfterRecovery :: "Parser \<Rightarrow> unit Completion \<times> Parser" where
  "skipLineTerminatorAfterRecovery p =
     (if token p = LineTerminatorToken then andThen (nextToken p) (\<lambda>r. (Normal (), snd r))
      else (Normal (), p))"

definition recover :: "Parser \<Rightarrow> unit Completion \<times> Parser" where
  "recover p =
     (case parsingContext p of
        SourceElements \<Rightarrow> skipUntil isSourceElementsRecoveryToken p
      | Parameters \<Rightarrow>
          andThen (skipUntil isParametersRecoveryToken p)
            (\<lambda>r. skipLineTerminatorAfterRecovery (snd r))
      | BracketedParameters \<Rightarrow>
          andThen (skipUntil isBracketedParametersRecoveryToken p)
            (\<lambda>r. skipLineTerminatorAfterRecovery (snd r))
      | Arguments \<Rightarrow>
          andThen (skipUntil isArgumentsRecoveryToken p)
            (\<lambda>r. skipLineTerminatorAfterRecovery (snd r))
      | BracketedArguments \<Rightarrow>
          andThen (skipUntil isBracketedArgumentsRecoveryToken p)
            (\<lambda>r. skipLineTerminatorAfterRecovery (snd r))
      | RightHandSideListIndented \<Rightarrow> skipUntil isRightHandSideListIndentedRecoveryToken p
      | SymbolSetContext \<Rightarrow>
          andThen (skipUntil isSymbolSetRecoveryToken p)
            (\<lambda>r. skipLineTerminatorAfterRecovery (snd r))
      | OneOfListContext \<Rightarrow> skipUntil isOneOfListRecoveryToken p
      | OneOfListIndented \<Rightarrow>
          andThen (skipUntil isOneOfListIndentedRecoveryToken p)
            (\<lambda>r. skipLineTerminatorAfterRecovery (snd r))
      | OneOfSymbolList \<Rightarrow> skipUntil isOneOfSymbolListRecoveryToken p
      | NoSymbolHere \<Rightarrow> skipUntil isNoSymbolHereRecoveryToken p)"

text \<open>\<open>this.diagnostics.report(pos, message, ...)\<close>: a report to the sink the parser holds.\<close>

definition diagnostics_report :: "nat \<Rightarrow> Message \<Rightarrow> Parser \<Rightarrow> Parser" where
  "diagnostics_report at m p = p\<lparr>messages := report (diagnostics p) (Diagnostic at m) (messages p)\<rparr>"

definition reportDiagnostics :: "Parser \<Rightarrow> Parser" where
  "reportDiagnostics p =
     (case parsingContext p of
        SourceElements \<Rightarrow> diagnostics_report (getTokenPos p) Production_expected p
      | Parameters \<Rightarrow> diagnostics_report (getTokenPos p) (Expected [CommaToken, CloseParenToken]) p
      | Arguments \<Rightarrow> diagnostics_report (getTokenPos p) (Expected [CommaToken, CloseParenToken]) p
      | BracketedParameters \<Rightarrow>
          diagnostics_report (getTokenPos p) (Expected [CommaToken, CloseBracketToken]) p
      | BracketedArguments \<Rightarrow>
          diagnostics_report (getTokenPos p) (Expected [CommaToken, CloseBracketToken]) p
      | SymbolSetContext \<Rightarrow> diagnostics_report (getTokenPos p) (Expected [CommaToken, CloseBraceToken]) p
      | OneOfListContext \<Rightarrow>
          diagnostics_report (getTokenPos p) (Expected [Terminal, LineTerminatorToken]) p
      | OneOfListIndented \<Rightarrow> diagnostics_report (getTokenPos p) (Expected [Terminal, DedentToken]) p
      | RightHandSideListIndented \<Rightarrow> diagnostics_report (getTokenPos p) Production_expected p
      | _ \<Rightarrow> p)"

definition hasCloseToken :: "Parser \<Rightarrow> bool" where
  "hasCloseToken p =
     (case parsingContext p of OneOfSymbolList \<Rightarrow> False | NoSymbolHere \<Rightarrow> False | _ \<Rightarrow> True)"

definition isOnCloseToken :: "Parser \<Rightarrow> bool" where
  "isOnCloseToken p =
     (case parsingContext p of
        SourceElements \<Rightarrow> token p = EndOfFileToken
      | Parameters \<Rightarrow> token p = CloseParenToken
      | Arguments \<Rightarrow> token p = CloseParenToken
      | BracketedParameters \<Rightarrow> token p = CloseBracketToken
      | BracketedArguments \<Rightarrow> token p = CloseBracketToken
      | RightHandSideListIndented \<Rightarrow> token p = DedentToken \<or> token p = EndOfFileToken
      | SymbolSetContext \<Rightarrow> token p = CloseBraceToken
      | OneOfListContext \<Rightarrow>
          token p = DedentToken \<or> token p = LineTerminatorToken \<or> token p = EndOfFileToken
      | OneOfListIndented \<Rightarrow> token p = DedentToken \<or> token p = EndOfFileToken
      | OneOfSymbolList \<Rightarrow> False
      | NoSymbolHere \<Rightarrow> token p = HereKeyword)"

definition parseCloseToken :: "Parser \<Rightarrow> bool Completion \<times> Parser" where
  "parseCloseToken p =
     (if isOnCloseToken p then andThen (nextToken p) (\<lambda>r. (Normal True, snd r))
      else (Normal False, p))"

definition hasSeparator :: "Parser \<Rightarrow> bool" where
  "hasSeparator p =
     (case parsingContext p of
        SourceElements \<Rightarrow> False
      | OneOfListContext \<Rightarrow> False
      | OneOfListIndented \<Rightarrow> False
      | _ \<Rightarrow> True)"

definition isOnSeparator :: "Parser \<Rightarrow> bool" where
  "isOnSeparator p =
     (case parsingContext p of
        Parameters \<Rightarrow> token p = CommaToken
      | BracketedParameters \<Rightarrow> token p = CommaToken
      | Arguments \<Rightarrow> token p = CommaToken
      | BracketedArguments \<Rightarrow> token p = CommaToken
      | SymbolSetContext \<Rightarrow> token p = CommaToken
      | RightHandSideListIndented \<Rightarrow> token p = LineTerminatorToken
      | OneOfSymbolList \<Rightarrow> token p = OrKeyword
      | NoSymbolHere \<Rightarrow> token p = OrKeyword
      | SourceElements \<Rightarrow> False
      | OneOfListContext \<Rightarrow> False
      | OneOfListIndented \<Rightarrow> False)"

definition parseSeparator :: "Parser \<Rightarrow> bool Completion \<times> Parser" where
  "parseSeparator p =
     (if isOnSeparator p then andThen (nextToken p) (\<lambda>r. (Normal True, snd r))
      else (Normal False, p))"

subsection \<open>The list loop\<close>

datatype LoopStep = Continue | Break

text \<open>
  The part of an iteration after the element: the close token, then the separator, then
  the diagnostic and the recovery. \<open>parsed\<close> tells whether the element-start test held.
\<close>

definition afterElement ::
  "bool \<Rightarrow> bool \<Rightarrow> bool \<Rightarrow> bool \<Rightarrow> SyntaxNode list option \<Rightarrow> Parser
     \<Rightarrow> (LoopStep \<times> SyntaxNode list option) Completion \<times> Parser" where
  "afterElement hasClose hasSep consumeClose parsed result p =
     andThen (if hasClose
              then (if consumeClose then parseCloseToken p else (Normal (isOnCloseToken p), p))
              else (Normal False, p))
       (\<lambda>closed.
          if fst closed then (Normal (Break, result), snd closed)
          else
            andThen (if hasSep then parseSeparator (snd closed) else (Normal parsed, snd closed))
              (\<lambda>sep.
                 if \<not> fst sep
                 then (if \<not> hasClose then (Normal (Break, result), snd sep)
                       else andThen (recover (reportDiagnostics (snd sep)))
                              (\<lambda>r. (Normal (Continue, result), snd r)))
                 else (Normal (Continue, result), snd sep)))"

text \<open>
  One iteration of the loop of \<open>parseList\<close>, run when the token is not the end of the file.
  The element parser is what \<open>parseElement(listContext)\<close> dispatches to; it is an argument
  here and each caller of \<open>parseList\<close> passes it.
\<close>

definition parseListIteration ::
  "(Parser \<Rightarrow> SyntaxNode option Completion \<times> Parser) \<Rightarrow> bool \<Rightarrow> bool \<Rightarrow> bool \<Rightarrow> SkipWhitespace
     \<Rightarrow> SyntaxNode list option \<Rightarrow> Parser
     \<Rightarrow> (LoopStep \<times> SyntaxNode list option) Completion \<times> Parser" where
  "parseListIteration parseElement hasClose hasSep consumeClose whitespaceToSkip result p =
     (let polled = throwIfCancellationRequested (cancellationToken p) (polls p);
          p0 = p\<lparr>polls := snd polled\<rparr>
      in case fst polled of
           Inl e \<Rightarrow> (Throws e, p0)
         | Inr _ \<Rightarrow>
             andThen (skipWhitespace whitespaceToSkip p0)
               (\<lambda>skipped.
                  if shouldParseElement (snd skipped)
                  then
                    andThen (parseElement (snd skipped))
                      (\<lambda>element.
                         case fst element of
                           Some el \<Rightarrow>
                             afterElement hasClose hasSep consumeClose True
                               (Some ((case result of None \<Rightarrow> [] | Some r \<Rightarrow> r) @ [el]))
                               (snd element)
                         | None \<Rightarrow>
                             andThen (recover (snd element))
                               (\<lambda>r. afterElement hasClose hasSep consumeClose True
                                       (Some (case result of None \<Rightarrow> [] | Some r \<Rightarrow> r)) (snd r)))
                  else afterElement hasClose hasSep consumeClose False result (snd skipped)))"

fun parseListLoop ::
  "nat \<Rightarrow> (Parser \<Rightarrow> SyntaxNode option Completion \<times> Parser) \<Rightarrow> bool \<Rightarrow> bool \<Rightarrow> bool
     \<Rightarrow> SkipWhitespace \<Rightarrow> SyntaxNode list option \<Rightarrow> Parser
     \<Rightarrow> SyntaxNode list option Completion \<times> Parser" where
  "parseListLoop 0 parseElement hasClose hasSep consumeClose whitespaceToSkip result p =
     (if isEOF p then (Normal result, p) else (Diverges, p))"
| "parseListLoop (Suc n) parseElement hasClose hasSep consumeClose whitespaceToSkip result p =
     (if isEOF p then (Normal result, p)
      else
        andThen (parseListIteration parseElement hasClose hasSep consumeClose whitespaceToSkip result p)
          (\<lambda>it.
             case fst (fst it) of
               Break \<Rightarrow> (Normal (snd (fst it)), snd it)
             | Continue \<Rightarrow>
                 parseListLoop n parseElement hasClose hasSep consumeClose whitespaceToSkip
                   (snd (fst it)) (snd it)))"

text \<open>
  \<open>parseList\<close>: the context is set, the four policy values are read once, the loop runs,
  and the context is set back when the loop ends without an exception.
\<close>

definition parseList ::
  "nat \<Rightarrow> (Parser \<Rightarrow> SyntaxNode option Completion \<times> Parser) \<Rightarrow> ParsingContext
     \<Rightarrow> SyntaxNode list option \<Rightarrow> Parser \<Rightarrow> SyntaxNode list option Completion \<times> Parser" where
  "parseList fuel parseElement listContext result p =
     (let saveContext = parsingContext p;
          p0 = p\<lparr>parsingContext := listContext\<rparr>
      in andThen (parseListLoop fuel parseElement (hasCloseToken p0) (hasSeparator p0)
                    (shouldConsumeCloseToken p0) (shouldSkipWhitespace p0) result p0)
           (\<lambda>r. (Normal (fst r), (snd r)\<lparr>parsingContext := saveContext\<rparr>)))"

subsection \<open>Methods that parse without a list\<close>

text \<open>An element parser from a method that returns a node.\<close>

definition asElement :: "SyntaxNode Completion \<times> Parser \<Rightarrow> SyntaxNode option Completion \<times> Parser" where
  "asElement r = andThen r (\<lambda>q. (Normal (Some (fst q)), snd q))"

definition parseIdentifier :: "Parser \<Rightarrow> SyntaxNode Completion \<times> Parser" where
  "parseIdentifier p =
     (let fullStart = getStartPos p
      in andThen (if canBeIdentifier (token p) then readTokenValue (token p) p else (Normal None, p))
           (\<lambda>text. returns (finishNode (newNode Identifier (fst text) []) fullStart (snd text))))"

definition parseUnicodeCharacterLiteral :: "bool \<Rightarrow> Parser \<Rightarrow> SyntaxNode Completion \<times> Parser" where
  "parseUnicodeCharacterLiteral allowOptional p =
     (let fullStart = getStartPos p
      in andThen (readTokenText UnicodeCharacterLiteral p)
           (\<lambda>text.
              andThen (if allowOptional then parseToken QuestionToken (snd text)
                       else (Normal None, snd text))
                (\<lambda>questionToken.
                   returns (finishNode
                     (newNode UnicodeCharacterLiteral (fst text) (present (fst questionToken)))
                     fullStart (snd questionToken)))))"

definition parseParameter :: "Parser \<Rightarrow> SyntaxNode Completion \<times> Parser" where
  "parseParameter p =
     (let fullStart = getStartPos p
      in andThen (parseIdentifier p)
           (\<lambda>name. returns (finishNode (newNode Parameter None [fst name]) fullStart (snd name))))"

definition parseEmptyAssertionTail ::
  "SyntaxNode \<Rightarrow> SyntaxNode \<Rightarrow> Parser \<Rightarrow> SyntaxNode Completion \<times> Parser" where
  "parseEmptyAssertionTail openBracketToken emptyKeyword p =
     andThen (parseToken CloseBracketToken p)
       (\<lambda>closeBracketToken.
          returns (finishNode
            (newNode EmptyAssertion None
               ([openBracketToken, emptyKeyword] @ present (fst closeBracketToken)))
            (nodePos openBracketToken) (snd closeBracketToken)))"

definition parseLexicalGoalAssertionTail ::
  "SyntaxNode \<Rightarrow> SyntaxNode \<Rightarrow> Parser \<Rightarrow> SyntaxNode Completion \<times> Parser" where
  "parseLexicalGoalAssertionTail openBracketToken lexicalKeyword p =
     andThen (parseToken GoalKeyword p)
       (\<lambda>goalKeyword.
          andThen (parseIdentifier (snd goalKeyword))
            (\<lambda>symbol.
               andThen (parseToken CloseBracketToken (snd symbol))
                 (\<lambda>closeBracketToken.
                    returns (finishNode
                      (newNode LexicalGoalAssertion None
                         ([openBracketToken, lexicalKeyword] @ present (fst goalKeyword) @
                          [fst symbol] @ present (fst closeBracketToken)))
                      (nodePos openBracketToken) (snd closeBracketToken)))))"

definition parseParameterValueAssertionTail ::
  "SyntaxNode \<Rightarrow> SyntaxNode \<Rightarrow> Parser \<Rightarrow> SyntaxNode Completion \<times> Parser" where
  "parseParameterValueAssertionTail openBracketToken operatorToken p =
     andThen (parseIdentifier p)
       (\<lambda>name.
          andThen (parseToken CloseBracketToken (snd name))
            (\<lambda>closeBracketToken.
               returns (finishNode
                 (newNode ParameterValueAssertion None
                    ([openBracketToken, operatorToken, fst name] @ present (fst closeBracketToken)))
                 (nodePos openBracketToken) (snd closeBracketToken))))"

text \<open>
  \<open>parseInvalidAssertionTail\<close> takes \<open>fullStart\<close> from the scanner after the open bracket was
  parsed, where the other assertion tails take \<open>openBracketToken.pos\<close>.
\<close>

definition parseInvalidAssertionTail :: "SyntaxNode \<Rightarrow> Parser \<Rightarrow> SyntaxNode Completion \<times> Parser" where
  "parseInvalidAssertionTail openBracketToken p =
     (let fullStart = getStartPos p
      in andThen (skipUntil isInvalidConstraintTailRecoveryToken p)
           (\<lambda>skipped.
              andThen (parseToken CloseBracketToken (snd skipped))
                (\<lambda>closeBracketToken.
                   returns (finishNode
                     (newNode InvalidAssertion None
                        (openBracketToken # present (fst closeBracketToken)))
                     fullStart (snd closeBracketToken)))))"

definition parseProseFragmentLiteral :: "SyntaxKind \<Rightarrow> Parser \<Rightarrow> SyntaxNode Completion \<times> Parser" where
  "parseProseFragmentLiteral tk p =
     (let fullStart = getStartPos p
      in andThen (readTokenValue tk p)
           (\<lambda>text. returns (finishNode (newNode tk (fst text) []) fullStart (snd text))))"

definition parseTerminal :: "bool \<Rightarrow> Parser \<Rightarrow> SyntaxNode Completion \<times> Parser" where
  "parseTerminal allowOptional p =
     (let fullStart = getStartPos p
      in andThen (readTokenValue Terminal p)
           (\<lambda>text.
              andThen (if allowOptional then parseToken QuestionToken (snd text)
                       else (Normal None, snd text))
                (\<lambda>questionToken.
                   returns (finishNode
                     (newNode Terminal (fst text) (present (fst questionToken)))
                     fullStart (snd questionToken)))))"

definition parseArgument :: "Parser \<Rightarrow> SyntaxNode Completion \<times> Parser" where
  "parseArgument p =
     (let fullStart = getStartPos p
      in andThen (parseAnyToken isLeadingArgumentToken p)
           (\<lambda>operatorToken.
              andThen (parseIdentifier (snd operatorToken))
                (\<lambda>name.
                   returns (finishNode
                     (newNode Argument None (present (fst operatorToken) @ [fst name]))
                     fullStart (snd name)))))"

definition parsePlaceholderSymbol :: "SyntaxNode \<Rightarrow> Parser \<Rightarrow> SyntaxNode Completion \<times> Parser" where
  "parsePlaceholderSymbol placeholderToken p =
     returns (finishNode (newNode PlaceholderSymbol None [placeholderToken])
                (nodePos placeholderToken) p)"

definition parseInvalidSymbol :: "Parser \<Rightarrow> SyntaxNode Completion \<times> Parser" where
  "parseInvalidSymbol p =
     (let fullStart = getStartPos p
      in andThen (skipUntil isInvalidSymbolRecoveryToken p)
           (\<lambda>skipped. returns (finishNode (newNode InvalidSymbol None []) fullStart (snd skipped))))"

definition parseUnicodeCharacterRangeTail ::
  "SyntaxNode \<Rightarrow> SyntaxNode \<Rightarrow> Parser \<Rightarrow> SyntaxNode Completion \<times> Parser" where
  "parseUnicodeCharacterRangeTail left throughKeyword p =
     andThen (parseUnicodeCharacterLiteral False p)
       (\<lambda>right.
          returns (finishNode (newNode UnicodeCharacterRange None [left, throughKeyword, fst right])
            (nodePos left) (snd right)))"

definition parseUnicodeCharacterRangeOrHigher :: "bool \<Rightarrow> Parser \<Rightarrow> SyntaxNode Completion \<times> Parser" where
  "parseUnicodeCharacterRangeOrHigher allowOptional p =
     andThen (parseUnicodeCharacterLiteral allowOptional p)
       (\<lambda>symbol.
          if \<not> allowOptional
          then andThen (parseToken ThroughKeyword (snd symbol))
                 (\<lambda>throughKeyword.
                    case fst throughKeyword of
                      Some tk \<Rightarrow> parseUnicodeCharacterRangeTail (fst symbol) tk (snd throughKeyword)
                    | None \<Rightarrow> (Normal (fst symbol), snd throughKeyword))
          else (Normal (fst symbol), snd symbol))"

definition parseLinkReference :: "Parser \<Rightarrow> SyntaxNode option Completion \<times> Parser" where
  "parseLinkReference p =
     (if token p = LinkReference
      then (let fullStart = getStartPos p
            in andThen (readTokenValue LinkReference p)
                 (\<lambda>text.
                    let n = finishNode (newNode LinkReference (fst text) []) fullStart (snd text)
                    in (Normal (Some (fst n)), snd n)))
      else (Normal None, p))"

definition parseStringLiteral :: "Parser \<Rightarrow> SyntaxNode option Completion \<times> Parser" where
  "parseStringLiteral p =
     (if token p = StringLiteral
      then (let fullStart = getStartPos p;
                text = getTokenValue p
            in andThen (nextToken p)
                 (\<lambda>r. let n = finishNode (newNode StringLiteral (Some text) []) fullStart (snd r)
                      in (Normal (Some (fst n)), snd n)))
      else (Normal None, p))"

text \<open>\<open>parseImport\<close> pushes the text of the path, when it has one that is not empty.\<close>

definition parseImport :: "SyntaxNode \<Rightarrow> SyntaxNode \<Rightarrow> Parser \<Rightarrow> SyntaxNode Completion \<times> Parser" where
  "parseImport atToken importKeyword p =
     andThen (parseStringLiteral p)
       (\<lambda>path.
          let n = finishNode (newNode Import None ([atToken, importKeyword] @ present (fst path)))
                    (nodePos atToken) (snd path);
              pathText = (case fst path of None \<Rightarrow> None | Some s \<Rightarrow> nodeText s)
          in if truthy pathText
             then (Normal (fst n), (snd n)\<lparr>parserImports := parserImports (snd n) @ [the pathText]\<rparr>)
             else returns n)"

definition parseDefine :: "SyntaxNode \<Rightarrow> SyntaxNode \<Rightarrow> Parser \<Rightarrow> SyntaxNode Completion \<times> Parser" where
  "parseDefine atToken defineKeyword p =
     andThen (parseIdentifier p)
       (\<lambda>key.
          andThen (parseAnyToken isBooleanLiteralToken (snd key))
            (\<lambda>valueToken.
               returns (finishNode
                 (newNode Define None ([atToken, defineKeyword, fst key] @ present (fst valueToken)))
                 (nodePos atToken) (snd valueToken))))"

definition parseMetaElement :: "SyntaxNode \<Rightarrow> Parser \<Rightarrow> SyntaxNode option Completion \<times> Parser" where
  "parseMetaElement atToken p =
     andThen (parseToken ImportKeyword p)
       (\<lambda>importKeyword.
          case fst importKeyword of
            Some ik \<Rightarrow> asElement (parseImport atToken ik (snd importKeyword))
          | None \<Rightarrow>
              andThen (parseToken DefineKeyword (snd importKeyword))
                (\<lambda>defineKeyword.
                   case fst defineKeyword of
                     Some dk \<Rightarrow> asElement (parseDefine atToken dk (snd defineKeyword))
                   | None \<Rightarrow>
                       (Normal None,
                        diagnostics_report (getTokenPos (snd defineKeyword))
                          (Expected [ImportKeyword, DefineKeyword]) (snd defineKeyword))))"

subsection \<open>Arguments and primary symbols\<close>

text \<open>The callback of the one \<open>lookahead\<close> the parser makes.\<close>

definition nextTokenIsArgument :: "Parser \<Rightarrow> Value Completion \<times> Parser" where
  "nextTokenIsArgument p =
     andThen (nextToken p)
       (\<lambda>r. (Normal (Boolean (isLeadingArgumentToken (token (snd r)) \<or> token (snd r) = Identifier)),
             snd r))"

definition isStartOfArgumentList :: "Parser \<Rightarrow> bool Completion \<times> Parser" where
  "isStartOfArgumentList p =
     (if token p = OpenBracketToken
      then andThen (lookahead nextTokenIsArgument p) (\<lambda>q. (Normal (truthyValue (fst q)), snd q))
      else (Normal False, p))"

definition parseArgumentListTail ::
  "nat \<Rightarrow> SyntaxNode \<Rightarrow> ParsingContext \<Rightarrow> SyntaxKind \<Rightarrow> Parser \<Rightarrow> SyntaxNode Completion \<times> Parser" where
  "parseArgumentListTail fuel openToken context closeTokenKind p =
     andThen (parseList fuel (\<lambda>q. asElement (parseArgument q)) context None p)
       (\<lambda>elements.
          andThen (parseToken closeTokenKind (snd elements))
            (\<lambda>closeToken.
               returns (finishNode
                 (newNode ArgumentList None
                    (openToken # presentList (fst elements) @ present (fst closeToken)))
                 (nodePos openToken) (snd closeToken))))"

definition tryParseArgumentList :: "nat \<Rightarrow> Parser \<Rightarrow> SyntaxNode option Completion \<times> Parser" where
  "tryParseArgumentList fuel p =
     andThen (parseToken OpenParenToken p)
       (\<lambda>openParenToken.
          case fst openParenToken of
            Some ot \<Rightarrow>
              asElement (parseArgumentListTail fuel ot Arguments CloseParenToken (snd openParenToken))
          | None \<Rightarrow>
              andThen (isStartOfArgumentList (snd openParenToken))
                (\<lambda>starts.
                   if fst starts
                   then andThen (parseToken OpenBracketToken (snd starts))
                          (\<lambda>openBracketToken.
                             case fst openBracketToken of
                               Some ot \<Rightarrow>
                                 asElement (parseArgumentListTail fuel ot BracketedArguments
                                              CloseBracketToken (snd openBracketToken))
                             | None \<Rightarrow> (Normal None, snd openBracketToken))
                   else (Normal None, snd starts)))"

definition parseNonterminal :: "nat \<Rightarrow> bool \<Rightarrow> bool \<Rightarrow> Parser \<Rightarrow> SyntaxNode Completion \<times> Parser" where
  "parseNonterminal fuel allowArgumentList allowOptional p =
     (let fullStart = getStartPos p
      in andThen (parseIdentifier p)
           (\<lambda>name.
              andThen (if allowArgumentList then tryParseArgumentList fuel (snd name)
                       else (Normal None, snd name))
                (\<lambda>argumentList.
                   andThen (if allowOptional then parseToken QuestionToken (snd argumentList)
                            else (Normal None, snd argumentList))
                     (\<lambda>questionToken.
                        returns (finishNode
                          (newNode Nonterminal None
                             (fst name # present (fst argumentList) @ present (fst questionToken)))
                          fullStart (snd questionToken))))))"

definition parsePrimarySymbol :: "nat \<Rightarrow> bool \<Rightarrow> Parser \<Rightarrow> SyntaxNode Completion \<times> Parser" where
  "parsePrimarySymbol fuel allowOptional p =
     (if token p = UnicodeCharacterLiteral then parseUnicodeCharacterRangeOrHigher allowOptional p
      else if token p = Terminal then parseTerminal allowOptional p
      else if token p = Identifier then parseNonterminal fuel True allowOptional p
      else
        andThen (parseToken AtToken p)
          (\<lambda>placeholderToken.
             case fst placeholderToken of
               Some pt \<Rightarrow> parsePlaceholderSymbol pt (snd placeholderToken)
             | None \<Rightarrow> parseInvalidSymbol (snd placeholderToken)))"

definition parseOneOfSymbol :: "nat \<Rightarrow> SyntaxNode \<Rightarrow> Parser \<Rightarrow> SyntaxNode Completion \<times> Parser" where
  "parseOneOfSymbol fuel oneKeyword p =
     andThen (parseToken OfKeyword p)
       (\<lambda>ofKeyword.
          andThen (parseList fuel (\<lambda>q. asElement (parsePrimarySymbol fuel False q)) OneOfSymbolList
                     None (snd ofKeyword))
            (\<lambda>symbols.
               returns (finishNode
                 (newNode OneOfSymbol None
                    (oneKeyword # present (fst ofKeyword) @ presentList (fst symbols)))
                 (nodePos oneKeyword) (snd symbols))))"

definition parseUnarySymbol :: "nat \<Rightarrow> Parser \<Rightarrow> SyntaxNode Completion \<times> Parser" where
  "parseUnarySymbol fuel p =
     andThen (parseToken OneKeyword p)
       (\<lambda>oneKeyword.
          case fst oneKeyword of
            Some ok \<Rightarrow> parseOneOfSymbol fuel ok (snd oneKeyword)
          | None \<Rightarrow> parsePrimarySymbol fuel True (snd oneKeyword))"

definition parseNoSymbolHereAssertionTail ::
  "nat \<Rightarrow> SyntaxNode \<Rightarrow> SyntaxNode \<Rightarrow> Parser \<Rightarrow> SyntaxNode Completion \<times> Parser" where
  "parseNoSymbolHereAssertionTail fuel openBracketToken noKeyword p =
     andThen (parseList fuel (\<lambda>q. asElement (parsePrimarySymbol fuel False q)) NoSymbolHere None p)
       (\<lambda>symbols.
          andThen (parseToken HereKeyword (snd symbols))
            (\<lambda>hereKeyword.
               andThen (parseToken CloseBracketToken (snd hereKeyword))
                 (\<lambda>closeBracketToken.
                    returns (finishNode
                      (newNode NoSymbolHereAssertion None
                         ([openBracketToken, noKeyword] @ presentList (fst symbols) @
                          present (fst hereKeyword) @ present (fst closeBracketToken)))
                      (nodePos openBracketToken) (snd closeBracketToken)))))"

subsection \<open>Prose\<close>

text \<open>
  The loop of \<open>parseProseFragments\<close> runs while the token is not the kind numbered 0, which
  no token of a text has; every iteration that does not end the loop takes a token, so it
  runs at most once per token still to scan and once more. Modelled from the spec: the
  kinds from \<open>FirstProseFragment\<close> to \<open>LastProseFragment\<close> are the prose fragments (head,
  middle, tail, full), and the full one is tested before the range.
\<close>

fun parseProseFragmentsLoop ::
  "nat \<Rightarrow> nat \<Rightarrow> SyntaxNode list option \<Rightarrow> Parser \<Rightarrow> SyntaxNode list option Completion \<times> Parser" where
  "parseProseFragmentsLoop 0 fuel fragments p = (Normal fragments, p)"
| "parseProseFragmentsLoop (Suc n) fuel fragments p =
     (let sofar = (case fragments of None \<Rightarrow> [] | Some fs \<Rightarrow> fs)
      in if token p = OtherKind 0 then (Normal fragments, p)
         else if token p = ProseFull
         then andThen (parseProseFragmentLiteral (token p) p)
                (\<lambda>f. (Normal (Some (sofar @ [fst f])), snd f))
         else if token p = ProseHead \<or> token p = ProseMiddle \<or> token p = ProseTail
         then andThen (parseProseFragmentLiteral (token p) p)
                (\<lambda>f. parseProseFragmentsLoop n fuel (Some (sofar @ [fst f])) (snd f))
         else if token p = Terminal
         then andThen (parseTerminal False p)
                (\<lambda>f. parseProseFragmentsLoop n fuel (Some (sofar @ [fst f])) (snd f))
         else if token p = Identifier
         then andThen (parseNonterminal fuel False False p)
                (\<lambda>f. parseProseFragmentsLoop n fuel (Some (sofar @ [fst f])) (snd f))
         else (Normal fragments, p))"

definition parseProseFragments :: "nat \<Rightarrow> Parser \<Rightarrow> SyntaxNode list option Completion \<times> Parser" where
  "parseProseFragments fuel p =
     parseProseFragmentsLoop (Suc (length (pending (scanner p)))) fuel None p"

definition parseProse :: "nat \<Rightarrow> SyntaxNode \<Rightarrow> Parser \<Rightarrow> SyntaxNode Completion \<times> Parser" where
  "parseProse fuel greaterThanToken p =
     andThen (parseProseFragments fuel p)
       (\<lambda>fragments.
          returns (finishNode (newNode Prose None (greaterThanToken # presentList (fst fragments)))
            (nodePos greaterThanToken) (snd fragments)))"

definition parseProseAssertion :: "nat \<Rightarrow> SyntaxNode \<Rightarrow> Parser \<Rightarrow> SyntaxNode Completion \<times> Parser" where
  "parseProseAssertion fuel openBracketToken p =
     andThen (parseProseFragments fuel p)
       (\<lambda>fragments.
          andThen (parseToken CloseBracketToken (snd fragments))
            (\<lambda>closeBracketToken.
               returns (finishNode
                 (newNode ProseAssertion None
                    (openBracketToken # presentList (fst fragments) @ present (fst closeBracketToken)))
                 (nodePos openBracketToken) (snd closeBracketToken))))"

subsection \<open>Symbols, assertions and symbol spans\<close>

text \<open>
  These nine methods call each other, \<open>parseSymbolSetTail\<close> through \<open>parseList\<close>. The first
  argument bounds the depth of the calls and the iterations of each list: at 0 the method
  does not return.
\<close>

function (sequential) parseSymbolSetTail :: "nat \<Rightarrow> SyntaxNode \<Rightarrow> Parser \<Rightarrow> SyntaxNode Completion \<times> Parser"
and parseSymbolSpanRestOrSymbolSet :: "nat \<Rightarrow> Parser \<Rightarrow> SyntaxNode Completion \<times> Parser"
and parseLookaheadAssertionTail :: "nat \<Rightarrow> SyntaxNode \<Rightarrow> SyntaxNode \<Rightarrow> Parser \<Rightarrow> SyntaxNode Completion \<times> Parser"
and parseAssertion :: "nat \<Rightarrow> SyntaxNode \<Rightarrow> Parser \<Rightarrow> SyntaxNode Completion \<times> Parser"
and parseButNotSymbolTail ::
  "nat \<Rightarrow> SyntaxNode \<Rightarrow> SyntaxNode option \<Rightarrow> SyntaxNode option \<Rightarrow> Parser \<Rightarrow> SyntaxNode Completion \<times> Parser"
and parseSymbol :: "nat \<Rightarrow> Parser \<Rightarrow> SyntaxNode Completion \<times> Parser"
and tryParseSymbolSpan :: "nat \<Rightarrow> Parser \<Rightarrow> SyntaxNode option Completion \<times> Parser"
and parseSymbolSpanRest :: "nat \<Rightarrow> Parser \<Rightarrow> SyntaxNode Completion \<times> Parser"
and parseSymbolSpan :: "nat \<Rightarrow> Parser \<Rightarrow> SyntaxNode Completion \<times> Parser" where
  "parseSymbolSetTail 0 openBraceToken p = (Diverges, p)"
| "parseSymbolSetTail (Suc n) openBraceToken p =
     andThen (parseList n (\<lambda>q. asElement (parseSymbolSpan n q)) SymbolSetContext None p)
       (\<lambda>terminals.
          andThen (parseToken CloseBraceToken (snd terminals))
            (\<lambda>closeBraceToken.
               returns (finishNode
                 (newNode SymbolSet None
                    (openBraceToken # presentList (fst terminals) @ present (fst closeBraceToken)))
                 (nodePos openBraceToken) (snd closeBraceToken))))"
| "parseSymbolSpanRestOrSymbolSet 0 p = (Diverges, p)"
| "parseSymbolSpanRestOrSymbolSet (Suc n) p =
     andThen (parseToken OpenBraceToken p)
       (\<lambda>openBraceToken.
          case fst openBraceToken of
            Some ob \<Rightarrow> parseSymbolSetTail n ob (snd openBraceToken)
          | None \<Rightarrow> parseSymbolSpanRest n (snd openBraceToken))"
| "parseLookaheadAssertionTail 0 openBracketToken lookaheadKeyword p = (Diverges, p)"
| "parseLookaheadAssertionTail (Suc n) openBracketToken lookaheadKeyword p =
     andThen (parseAnyToken isLookaheadOperatorToken p)
       (\<lambda>operatorToken.
          andThen (parseSymbolSpanRestOrSymbolSet n (snd operatorToken))
            (\<lambda>lookaheadNode.
               andThen (parseToken CloseBracketToken (snd lookaheadNode))
                 (\<lambda>closeBracketToken.
                    returns (finishNode
                      (newNode LookaheadAssertion None
                         ([openBracketToken, lookaheadKeyword] @ present (fst operatorToken) @
                          [fst lookaheadNode] @ present (fst closeBracketToken)))
                      (nodePos openBracketToken) (snd closeBracketToken)))))"
| "parseAssertion 0 openBracketToken p = (Diverges, p)"
| "parseAssertion (Suc n) openBracketToken p =
     andThen (parseToken EmptyKeyword p)
       (\<lambda>emptyKeyword.
          case fst emptyKeyword of
            Some ek \<Rightarrow> parseEmptyAssertionTail openBracketToken ek (snd emptyKeyword)
          | None \<Rightarrow>
        andThen (parseToken LookaheadKeyword (snd emptyKeyword))
          (\<lambda>lookaheadKeyword.
             case fst lookaheadKeyword of
               Some lk \<Rightarrow> parseLookaheadAssertionTail n openBracketToken lk (snd lookaheadKeyword)
             | None \<Rightarrow>
           andThen (parseToken NoKeyword (snd lookaheadKeyword))
             (\<lambda>noKeyword.
                case fst noKeyword of
                  Some nk \<Rightarrow> parseNoSymbolHereAssertionTail n openBracketToken nk (snd noKeyword)
                | None \<Rightarrow>
              andThen (parseToken LexicalKeyword (snd noKeyword))
                (\<lambda>lexicalKeyword.
                   case fst lexicalKeyword of
                     Some xk \<Rightarrow>
                       parseLexicalGoalAssertionTail openBracketToken xk (snd lexicalKeyword)
                   | None \<Rightarrow>
                 andThen (parseAnyToken isParameterOperatorToken (snd lexicalKeyword))
                   (\<lambda>operatorToken.
                      case fst operatorToken of
                        Some ot \<Rightarrow>
                          parseParameterValueAssertionTail openBracketToken ot (snd operatorToken)
                      | None \<Rightarrow>
                          parseInvalidAssertionTail openBracketToken (snd operatorToken))))))"
| "parseButNotSymbolTail 0 left butKeyword notKeyword p = (Diverges, p)"
| "parseButNotSymbolTail (Suc n) left butKeyword notKeyword p =
     andThen (parseSymbol n p)
       (\<lambda>right.
          returns (finishNode
            (newNode ButNotSymbol None
               (left # present butKeyword @ present notKeyword @ [fst right]))
            (nodePos left) (snd right)))"
| "parseSymbol 0 p = (Diverges, p)"
| "parseSymbol (Suc n) p =
     andThen (parseToken OpenBracketToken p)
       (\<lambda>openBracketToken.
          case fst openBracketToken of
            Some ob \<Rightarrow> parseAssertion n ob (snd openBracketToken)
          | None \<Rightarrow>
        andThen (parseToken OpenBracketGreaterThanToken (snd openBracketToken))
          (\<lambda>openBracketGreaterThanToken.
             case fst openBracketGreaterThanToken of
               Some og \<Rightarrow> parseProseAssertion n og (snd openBracketGreaterThanToken)
             | None \<Rightarrow>
                 andThen (parseUnarySymbol n (snd openBracketGreaterThanToken))
                   (\<lambda>symbol.
                      andThen (parseToken ButKeyword (snd symbol))
                        (\<lambda>butKeyword.
                           andThen (parseToken NotKeyword (snd butKeyword))
                             (\<lambda>notKeyword.
                                if fst butKeyword \<noteq> None \<or> fst notKeyword \<noteq> None
                                then parseButNotSymbolTail n (fst symbol) (fst butKeyword)
                                       (fst notKeyword) (snd notKeyword)
                                else (Normal (fst symbol), snd notKeyword))))))"
| "tryParseSymbolSpan 0 p = (Diverges, p)"
| "tryParseSymbolSpan (Suc n) p =
     (if isStartOfSymbolSpan p
      then asElement (parseSymbolSpanRest n p)
      else (Normal None, p))"
| "parseSymbolSpanRest 0 p = (Diverges, p)"
| "parseSymbolSpanRest (Suc n) p =
     (let fullStart = getStartPos p
      in andThen (parseSymbol n p)
           (\<lambda>symbol.
              andThen (tryParseSymbolSpan n (snd symbol))
                (\<lambda>next.
                   returns (finishNode (newNode SymbolSpan None (fst symbol # present (fst next)))
                     fullStart (snd next)))))"
| "parseSymbolSpan 0 p = (Diverges, p)"
| "parseSymbolSpan (Suc n) p =
     andThen (parseToken GreaterThanToken p)
       (\<lambda>greaterThanToken.
          case fst greaterThanToken of
            Some gt \<Rightarrow>
              andThen (parseProse n gt (snd greaterThanToken))
                (\<lambda>symbol.
                   returns (finishNode (newNode SymbolSpan None [fst symbol]) (nodePos gt) (snd symbol)))
          | None \<Rightarrow> parseSymbolSpanRest n (snd greaterThanToken))"
  by pat_completeness auto

termination
  by (relation "measure (\<lambda>x. case x of
        Inl (Inl (Inl a)) \<Rightarrow> fst a
      | Inl (Inl (Inr a)) \<Rightarrow> fst a
      | Inl (Inr (Inl a)) \<Rightarrow> fst a
      | Inl (Inr (Inr a)) \<Rightarrow> fst a
      | Inr (Inl (Inl a)) \<Rightarrow> fst a
      | Inr (Inl (Inr a)) \<Rightarrow> fst a
      | Inr (Inr (Inl a)) \<Rightarrow> fst a
      | Inr (Inr (Inr (Inl a))) \<Rightarrow> fst a
      | Inr (Inr (Inr (Inr a))) \<Rightarrow> fst a)") simp_all

subsection \<open>Parameters, one-of lists and right-hand sides\<close>

definition parseParameterListTail ::
  "nat \<Rightarrow> SyntaxNode \<Rightarrow> ParsingContext \<Rightarrow> SyntaxKind \<Rightarrow> Parser \<Rightarrow> SyntaxNode Completion \<times> Parser" where
  "parseParameterListTail fuel openToken context closeTokenKind p =
     andThen (parseList fuel (\<lambda>q. asElement (parseParameter q)) context None p)
       (\<lambda>elements.
          andThen (parseToken closeTokenKind (snd elements))
            (\<lambda>closeToken.
               returns (finishNode
                 (newNode ParameterList None
                    (openToken # presentList (fst elements) @ present (fst closeToken)))
                 (nodePos openToken) (snd closeToken))))"

definition tryParseParameterList :: "nat \<Rightarrow> Parser \<Rightarrow> SyntaxNode option Completion \<times> Parser" where
  "tryParseParameterList fuel p =
     andThen (parseToken OpenParenToken p)
       (\<lambda>openParenToken.
          case fst openParenToken of
            Some ot \<Rightarrow>
              asElement (parseParameterListTail fuel ot Parameters CloseParenToken (snd openParenToken))
          | None \<Rightarrow>
              andThen (parseToken OpenBracketToken (snd openParenToken))
                (\<lambda>openBracketToken.
                   case fst openBracketToken of
                     Some ot \<Rightarrow>
                       asElement (parseParameterListTail fuel ot BracketedParameters
                                    CloseBracketToken (snd openBracketToken))
                   | None \<Rightarrow> (Normal None, snd openBracketToken)))"

definition parseOneOfList :: "nat \<Rightarrow> SyntaxNode \<Rightarrow> Parser \<Rightarrow> SyntaxNode Completion \<times> Parser" where
  "parseOneOfList fuel oneKeyword p =
     andThen (parseToken OfKeyword p)
       (\<lambda>ofKeyword.
          andThen (parseOptional LineTerminatorToken (snd ofKeyword))
            (\<lambda>optional.
               andThen (parseToken IndentToken (snd optional))
                 (\<lambda>openIndentToken.
                    andThen (parseList fuel (\<lambda>q. asElement (parseTerminal False q))
                               (if fst openIndentToken \<noteq> None then OneOfListIndented
                                else OneOfListContext)
                               None (snd openIndentToken))
                      (\<lambda>terminals.
                         andThen (parseToken DedentToken (snd terminals))
                           (\<lambda>closeIndentToken.
                              returns (finishNode
                                (newNode OneOfList None
                                   (oneKeyword # present (fst ofKeyword) @
                                    present (fst openIndentToken) @ presentList (fst terminals) @
                                    present (fst closeIndentToken)))
                                (nodePos oneKeyword) (snd closeIndentToken)))))))"

text \<open>
  \<open>stableSort(array, comparer)\<close> of core.ts sorts the indices of the array with the sort of
  the host and the comparison \<open>comparer(array[x], array[y]) || x - y\<close>. The sort of the host
  is not code of the repository: it is the argument \<open>hostSort\<close>, which is given the
  comparison and the indices.
\<close>

definition stableSort ::
  "((nat \<Rightarrow> nat \<Rightarrow> int) \<Rightarrow> nat list \<Rightarrow> nat list) \<Rightarrow> 'a list \<Rightarrow> ('a \<Rightarrow> 'a \<Rightarrow> int) \<Rightarrow> 'a list" where
  "stableSort hostSort array comparer =
     map (\<lambda>i. array ! i)
       (hostSort (\<lambda>x y. if comparer (array ! x) (array ! y) \<noteq> 0 then comparer (array ! x) (array ! y)
                        else int x - int y)
          [0 ..< length array])"

text \<open>
  \<open>Array.prototype.sort\<close> is the host's. It is taken here as an insertion sort that calls
  the comparison with the element to insert as its first argument and puts the element
  before the first one it compares below.
\<close>

fun insertSorted :: "(nat \<Rightarrow> nat \<Rightarrow> int) \<Rightarrow> nat \<Rightarrow> nat list \<Rightarrow> nat list" where
  "insertSorted cmp x [] = [x]"
| "insertSorted cmp x (y # ys) = (if cmp x y < 0 then x # y # ys else y # insertSorted cmp x ys)"

definition hostSort :: "(nat \<Rightarrow> nat \<Rightarrow> int) \<Rightarrow> nat list \<Rightarrow> nat list" where
  "hostSort cmp xs = foldl (\<lambda>sorted x. insertSorted cmp x sorted) [] xs"

text \<open>
  \<open>parseRightHandSide\<close> ends with \<open>stableSort(node.trailingHtmlTrivia, trivia => trivia.pos)\<close>
  when it parsed a line terminator: the function it passes as the comparer takes one
  argument, so the comparison of two trivia is the position of the first.
\<close>

definition sortTrailingHtmlTrivia :: "SyntaxNode \<Rightarrow> SyntaxNode" where
  "sortTrailingHtmlTrivia node =
     (case trailingHtmlTrivia node of
        None \<Rightarrow> node
      | Some trailing \<Rightarrow>
          setTrailing (Some (stableSort hostSort trailing (\<lambda>trivia other. int (triviaPos trivia)))) node)"

definition parseRightHandSide :: "nat \<Rightarrow> Parser \<Rightarrow> SyntaxNode Completion \<times> Parser" where
  "parseRightHandSide fuel p =
     (let fullStart = getStartPos p
      in andThen (parseSymbolSpan fuel p)
           (\<lambda>head.
              andThen (parseLinkReference (snd head))
                (\<lambda>reference.
                   andThen (if parsingContext (snd reference) \<noteq> RightHandSideListIndented
                            then parseOptional LineTerminatorToken (snd reference)
                            else (Normal False, snd reference))
                     (\<lambda>parsedLineTerminator.
                        let finished = finishNode
                              (newNode RightHandSide None (fst head # present (fst reference)))
                              fullStart (snd parsedLineTerminator)
                        in if fst parsedLineTerminator \<and> trailingHtmlTrivia (fst finished) \<noteq> None
                           then (Normal (sortTrailingHtmlTrivia (fst finished)), snd finished)
                           else returns finished))))"

definition parseRightHandSideList :: "nat \<Rightarrow> Parser \<Rightarrow> SyntaxNode Completion \<times> Parser" where
  "parseRightHandSideList fuel p =
     (let fullStart = getStartPos p
      in andThen (parseToken IndentToken p)
           (\<lambda>openIndentToken.
              andThen (if fst openIndentToken \<noteq> None
                       then andThen (parseList fuel (\<lambda>q. asElement (parseRightHandSide fuel q))
                                       RightHandSideListIndented None (snd openIndentToken))
                              (\<lambda>q. (Normal (presentList (fst q)), snd q))
                       else (Normal [], snd openIndentToken))
                (\<lambda>elements.
                   andThen (parseToken DedentToken (snd elements))
                     (\<lambda>closeIndentToken.
                        returns (finishNode
                          (newNode RightHandSideList None
                             (present (fst openIndentToken) @ fst elements @
                              present (fst closeIndentToken)))
                          fullStart (snd closeIndentToken))))))"

definition parseBody :: "nat \<Rightarrow> Parser \<Rightarrow> SyntaxNode Completion \<times> Parser" where
  "parseBody fuel p =
     andThen (parseToken OneKeyword p)
       (\<lambda>oneKeyword.
          case fst oneKeyword of
            Some ok \<Rightarrow> parseOneOfList fuel ok (snd oneKeyword)
          | None \<Rightarrow>
              (if token (snd oneKeyword) = LineTerminatorToken
               then andThen (nextToken (snd oneKeyword)) (\<lambda>r. parseRightHandSideList fuel (snd r))
               else parseRightHandSide fuel (snd oneKeyword)))"

subsection \<open>Productions and source elements\<close>

definition parseProduction :: "nat \<Rightarrow> Parser \<Rightarrow> SyntaxNode Completion \<times> Parser" where
  "parseProduction fuel p =
     (let fullStart = getStartPos p
      in andThen (parseIdentifier p)
           (\<lambda>name.
              andThen (tryParseParameterList fuel (snd name))
                (\<lambda>parameters.
                   andThen (parseAnyToken isProductionSeparatorToken (snd parameters))
                     (\<lambda>colonToken.
                        andThen (parseBody fuel (snd colonToken))
                          (\<lambda>body.
                             returns (finishNode
                               (newNode Production None
                                  (fst name # present (fst parameters) @ present (fst colonToken) @
                                   [fst body]))
                               fullStart (snd body)))))))"

definition parseSourceElement :: "nat \<Rightarrow> Parser \<Rightarrow> SyntaxNode option Completion \<times> Parser" where
  "parseSourceElement fuel p =
     (if token p = Identifier then asElement (parseProduction fuel p)
      else
        andThen (parseToken AtToken p)
          (\<lambda>atToken.
             case fst atToken of
               Some at \<Rightarrow> parseMetaElement at (snd atToken)
             | None \<Rightarrow>
                 (Normal None,
                  diagnostics_report (getTokenPos (snd atToken))
                    (Unexpected_token (token (snd atToken))) (snd atToken))))"

text \<open>
  \<open>parseElement\<close>: the method \<open>parseList\<close> calls for an element. The \<open>default\<close> branch of the
  source is for a value outside the enumeration.
\<close>

definition parseElement :: "nat \<Rightarrow> ParsingContext \<Rightarrow> Parser \<Rightarrow> SyntaxNode option Completion \<times> Parser" where
  "parseElement fuel listContext p =
     (case listContext of
        SourceElements \<Rightarrow> parseSourceElement fuel p
      | Parameters \<Rightarrow> asElement (parseParameter p)
      | BracketedParameters \<Rightarrow> asElement (parseParameter p)
      | Arguments \<Rightarrow> asElement (parseArgument p)
      | BracketedArguments \<Rightarrow> asElement (parseArgument p)
      | RightHandSideListIndented \<Rightarrow> asElement (parseRightHandSide fuel p)
      | SymbolSetContext \<Rightarrow> asElement (parseSymbolSpan fuel p)
      | OneOfListContext \<Rightarrow> asElement (parseTerminal False p)
      | OneOfListIndented \<Rightarrow> asElement (parseTerminal False p)
      | OneOfSymbolList \<Rightarrow> asElement (parsePrimarySymbol fuel False p)
      | NoSymbolHere \<Rightarrow> asElement (parsePrimarySymbol fuel False p))"

definition parseSourceElementList ::
  "nat \<Rightarrow> SyntaxNode list option \<Rightarrow> Parser \<Rightarrow> SyntaxNode list option Completion \<times> Parser" where
  "parseSourceElementList fuel elements p =
     parseList fuel (parseSourceElement fuel) SourceElements elements p"

subsection \<open>Parsing a file\<close>

text \<open>
  The \<open>SourceFile\<close> a parse returns. \<open>elements\<close> is the array the list loop pushes to;
  \<open>parseDiagnostics\<close> is the sink of the parse, held by address.
\<close>

record SourceFile =
  sourceFilename :: string
  sourceText :: "ScannedToken list"
  elements :: "SyntaxNode list"
  sourceImports :: "string list"
  parseDiagnostics :: DiagnosticsRef

text \<open>
  \<open>parse\<close> makes a new sink and a new scanner, takes the first token and parses the
  elements. It does not assign \<open>tags\<close>.
\<close>

definition parse ::
  "nat \<Rightarrow> string \<Rightarrow> ScannedToken list \<Rightarrow> CancellationToken \<Rightarrow> Parser \<Rightarrow> SourceFile Completion \<times> Parser" where
  "parse fuel name text ct p =
     (let sink = MessagesAt (nextMessages p);
          p1 = p\<lparr>parserImports := [], diagnostics := sink,
                 messages := (messages p)(nextMessages p := []), nextMessages := Suc (nextMessages p),
                 cancellationToken := ct, parsingContext := SourceElements, tagsOffset := 0,
                 scanner := newScanner text sink ct\<rparr>
      in andThen (nextToken p1)
           (\<lambda>first.
              andThen (parseSourceElementList fuel (Some []) (snd first))
                (\<lambda>parsed.
                   (Normal \<lparr>sourceFilename = name, sourceText = text,
                             elements = presentList (fst parsed),
                             sourceImports = parserImports (snd parsed),
                             parseDiagnostics = diagnostics (snd parsed)\<rparr>,
                    snd parsed))))"

text \<open>
  \<open>parseSourceFile\<close>: the poll of the token given, the seven fields saved, \<open>parse\<close> in a \<open>try\<close>
  and the seven fields restored in the \<open>finally\<close>, which runs on a return and on an
  exception. \<open>tags\<close> holds a reference: when it held a map at the call, \<open>parse\<close> wrote to that
  same map, and the reference put back points to the map as \<open>parse\<close> left it.
\<close>

definition restoreSaved :: "Parser \<Rightarrow> Parser \<Rightarrow> Parser" where
  "restoreSaved saved p =
     p\<lparr>parserImports := parserImports saved, diagnostics := diagnostics saved,
       cancellationToken := cancellationToken saved, scanner := scanner saved,
       parsingContext := parsingContext saved,
       tags := (case tags saved of None \<Rightarrow> None | Some _ \<Rightarrow> tags p),
       tagsOffset := tagsOffset saved\<rparr>"

definition parseSourceFile ::
  "nat \<Rightarrow> string \<Rightarrow> ScannedToken list \<Rightarrow> CancellationToken \<Rightarrow> Parser \<Rightarrow> SourceFile Completion \<times> Parser" where
  "parseSourceFile fuel name text ct p =
     (let polled = throwIfCancellationRequested ct (polls p);
          p0 = p\<lparr>polls := snd polled\<rparr>
      in case fst polled of
           Inl e \<Rightarrow> (Throws e, p0)
         | Inr _ \<Rightarrow>
             (let r = parse fuel name text ct p0
              in case fst r of
                   Normal sourceFile \<Rightarrow> (Normal sourceFile, restoreSaved p0 (snd r))
                 | Throws e \<Rightarrow> (Throws e, restoreSaved p0 (snd r))
                 | Diverges \<Rightarrow> (Diverges, snd r)))"

section \<open>Properties of the parser: definitions\<close>

subsection \<open>Texts and parser states\<close>

text \<open>A token as the scanner finds it, without markup trivia and without diagnostics.\<close>

definition scanned :: "SyntaxKind \<Rightarrow> nat \<Rightarrow> nat \<Rightarrow> string \<Rightarrow> ScannedToken" where
  "scanned k lw tw s =
     \<lparr>scannedKind = k, leadingWidth = lw, textWidth = tw, scannedValue = s, scannedText = s,
      scannedTrivia = None, scannedDiagnostics = []\<rparr>"

text \<open>A parser on which nothing was parsed yet (\<open>new Parser()\<close>), with an empty store.\<close>

definition newParser :: Parser where
  "newParser =
     \<lparr>scanner = newScanner [] NullDiagnosticMessages CancellationToken_none, token = OtherKind 0, parserImports = [],
      diagnostics = NullDiagnosticMessages, parsingContext = SourceElements,
      cancellationToken = CancellationToken_none, tags = None, tagsOffset = 0,
      messages = (\<lambda>_. []), nextMessages = 0, polls = 0\<rparr>"

subsection \<open>Ranges of nodes\<close>

text \<open>
  \<open>rangesNested node\<close>: in the tree of \<open>node\<close> every node has \<open>pos \<le> end\<close> and the range of each
  child lies within the range of its parent.
\<close>

fun rangesNested :: "SyntaxNode \<Rightarrow> bool" where
  "rangesNested (SyntaxNode k p e t l r children) =
     (p \<le> e \<and> list_all (\<lambda>c. p \<le> nodePos c \<and> nodeEnd c \<le> e \<and> rangesNested c) children)"

text \<open>The text \<open>A : [junk]\<close> and the file the parser returns for it.\<close>

definition junkText :: "ScannedToken list" where
  "junkText =
     [scanned Identifier 0 1 ''A'', scanned ColonToken 1 1 '':'', scanned OpenBracketToken 1 1 ''['',
      scanned Identifier 0 4 ''junk'', scanned CloseBracketToken 0 1 '']'']"

definition junkInvalidAssertion :: SyntaxNode where
  "junkInvalidAssertion =
     SyntaxNode InvalidAssertion 5 5 None None None
       [SyntaxNode OpenBracketToken 3 5 None None None []]"

definition junkFile :: SourceFile where
  "junkFile =
     \<lparr>sourceFilename = ''junk.grammar'', sourceText = junkText,
      elements =
        [SyntaxNode Production 0 9 None None None
           [SyntaxNode Identifier 0 1 (Some ''A'') None None [],
            SyntaxNode ColonToken 1 3 None None None [],
            SyntaxNode RightHandSide 3 9 None None None
              [SyntaxNode SymbolSpan 3 9 None None None
                 [junkInvalidAssertion,
                  SyntaxNode SymbolSpan 5 9 None None None
                    [SyntaxNode Nonterminal 5 9 None None None
                       [SyntaxNode Identifier 5 9 (Some ''junk'') None None []]]]]]],
      sourceImports = [], parseDiagnostics = MessagesAt 0\<rparr>"

subsection \<open>A parse inside a parse\<close>

text \<open>
  The state in which \<open>parse\<close>, called on a new parser for the text \<open>A\<close>, starts the list of
  source elements: the sink at address 0, the scanner after the first token, the token
  \<open>Identifier\<close>.
\<close>

definition enclosingText :: "ScannedToken list" where
  "enclosingText = [scanned Identifier 0 1 ''A'']"

definition enclosingParse :: Parser where
  "enclosingParse =
     snd (nextToken
       (newParser\<lparr>diagnostics := MessagesAt 0, nextMessages := 1,
                   scanner := newScanner enclosingText (MessagesAt 0) CancellationToken_none\<rparr>))"

definition innerFile :: SourceFile where
  "innerFile =
     \<lparr>sourceFilename = ''inner.grammar'', sourceText = [], elements = [], sourceImports = [],
      parseDiagnostics = MessagesAt 1\<rparr>"

subsection \<open>An iteration of the list loop, as described\<close>

text \<open>
  Skipping is described by the tokens of the text. \<open>upcoming p\<close> are the kinds of the
  tokens from the current one on; \<open>tokensBefore stop p\<close> is the number of tokens in front
  of the first one at which \<open>stop\<close> holds, or of the end of the file; \<open>advance k\<close> takes
  \<open>k\<close> tokens, and ends early when a scan throws; \<open>skipTo stop\<close> takes the tokens in front
  of the first one at which \<open>stop\<close> holds.
\<close>

definition upcoming :: "Parser \<Rightarrow> SyntaxKind list" where
  "upcoming p = token p # map scannedKind (pending (scanner p))"

definition tokensBefore :: "(SyntaxKind \<Rightarrow> bool) \<Rightarrow> Parser \<Rightarrow> nat" where
  "tokensBefore stop p = length (takeWhile (\<lambda>k. \<not> stop k \<and> k \<noteq> EndOfFileToken) (upcoming p))"

primrec advance :: "nat \<Rightarrow> Parser \<Rightarrow> unit Completion \<times> Parser" where
  "advance 0 p = (Normal (), p)"
| "advance (Suc k) p = andThen (nextToken p) (\<lambda>r. advance k (snd r))"

definition skipTo :: "(SyntaxKind \<Rightarrow> bool) \<Rightarrow> Parser \<Rightarrow> unit Completion \<times> Parser" where
  "skipTo stop p = advance (tokensBefore stop p) p"

text \<open>
  The whitespace a context marks as insignificant: line terminators and indentation in the
  file and inside parentheses, brackets and braces; line terminators in an indented list of
  right-hand sides and in an indented one-of list; none elsewhere.
\<close>

definition insignificant :: "ParsingContext \<Rightarrow> SyntaxKind \<Rightarrow> bool" where
  "insignificant c k =
     (case c of
        SourceElements \<Rightarrow> k = LineTerminatorToken \<or> k = IndentToken \<or> k = DedentToken
      | Parameters \<Rightarrow> k = LineTerminatorToken \<or> k = IndentToken \<or> k = DedentToken
      | BracketedParameters \<Rightarrow> k = LineTerminatorToken \<or> k = IndentToken \<or> k = DedentToken
      | Arguments \<Rightarrow> k = LineTerminatorToken \<or> k = IndentToken \<or> k = DedentToken
      | BracketedArguments \<Rightarrow> k = LineTerminatorToken \<or> k = IndentToken \<or> k = DedentToken
      | SymbolSetContext \<Rightarrow> k = LineTerminatorToken \<or> k = IndentToken \<or> k = DedentToken
      | RightHandSideListIndented \<Rightarrow> k = LineTerminatorToken
      | OneOfListIndented \<Rightarrow> k = LineTerminatorToken
      | OneOfListContext \<Rightarrow> False
      | OneOfSymbolList \<Rightarrow> False
      | NoSymbolHere \<Rightarrow> False)"

text \<open>The recovery tokens of a context.\<close>

definition recoveryToken :: "ParsingContext \<Rightarrow> SyntaxKind \<Rightarrow> bool" where
  "recoveryToken c =
     (case c of
        SourceElements \<Rightarrow> isSourceElementsRecoveryToken
      | Parameters \<Rightarrow> isParametersRecoveryToken
      | BracketedParameters \<Rightarrow> isBracketedParametersRecoveryToken
      | Arguments \<Rightarrow> isArgumentsRecoveryToken
      | BracketedArguments \<Rightarrow> isBracketedArgumentsRecoveryToken
      | RightHandSideListIndented \<Rightarrow> isRightHandSideListIndentedRecoveryToken
      | SymbolSetContext \<Rightarrow> isSymbolSetRecoveryToken
      | OneOfListContext \<Rightarrow> isOneOfListRecoveryToken
      | OneOfListIndented \<Rightarrow> isOneOfListIndentedRecoveryToken
      | OneOfSymbolList \<Rightarrow> isOneOfSymbolListRecoveryToken
      | NoSymbolHere \<Rightarrow> isNoSymbolHereRecoveryToken)"

text \<open>
  The contexts in which a recovery that ends at a line terminator takes that line
  terminator too: the lists in parentheses, brackets and braces, and the indented one-of
  list.
\<close>

definition recoversPastLineTerminator :: "ParsingContext \<Rightarrow> bool" where
  "recoversPastLineTerminator c =
     (c = Parameters \<or> c = BracketedParameters \<or> c = Arguments \<or> c = BracketedArguments \<or>
      c = SymbolSetContext \<or> c = OneOfListIndented)"

text \<open>The diagnostic of a context, if it has one.\<close>

definition expectedTokensMessage :: "ParsingContext \<Rightarrow> Message option" where
  "expectedTokensMessage c =
     (case c of
        SourceElements \<Rightarrow> Some Production_expected
      | Parameters \<Rightarrow> Some (Expected [CommaToken, CloseParenToken])
      | Arguments \<Rightarrow> Some (Expected [CommaToken, CloseParenToken])
      | BracketedParameters \<Rightarrow> Some (Expected [CommaToken, CloseBracketToken])
      | BracketedArguments \<Rightarrow> Some (Expected [CommaToken, CloseBracketToken])
      | SymbolSetContext \<Rightarrow> Some (Expected [CommaToken, CloseBraceToken])
      | OneOfListContext \<Rightarrow> Some (Expected [Terminal, LineTerminatorToken])
      | OneOfListIndented \<Rightarrow> Some (Expected [Terminal, DedentToken])
      | RightHandSideListIndented \<Rightarrow> Some Production_expected
      | OneOfSymbolList \<Rightarrow> None
      | NoSymbolHere \<Rightarrow> None)"

text \<open>
  The steps of an iteration in the words of the specification: skip to the next recovery
  token of the context; report the diagnostic of the context at the token.
\<close>

definition skipToRecoveryToken :: "Parser \<Rightarrow> unit Completion \<times> Parser" where
  "skipToRecoveryToken p = skipTo (recoveryToken (parsingContext p)) p"

definition reportExpectedTokens :: "Parser \<Rightarrow> Parser" where
  "reportExpectedTokens p =
     (case expectedTokensMessage (parsingContext p) of
        None \<Rightarrow> p
      | Some m \<Rightarrow> p\<lparr>messages := report (diagnostics p) (Diagnostic (getTokenPos p) m) (messages p)\<rparr>)"

text \<open>
  The recovery as the code has it: after the skip to the next recovery token, a line
  terminator the skip ended at is taken too in the contexts named above.
\<close>

definition skipToRecoveryTokenAndLine :: "Parser \<Rightarrow> unit Completion \<times> Parser" where
  "skipToRecoveryTokenAndLine p =
     andThen (skipToRecoveryToken p)
       (\<lambda>r. if recoversPastLineTerminator (parsingContext (snd r)) \<and> token (snd r) = LineTerminatorToken
            then advance 1 (snd r)
            else (Normal (), snd r))"

text \<open>
  The first half of an iteration: the whitespace the policy of the context marks as
  insignificant is skipped; if the element-start test of the context holds, the element is
  parsed, appended on success, and on failure the parser recovers by \<open>recovery\<close>. The flag
  tells whether the element-start test held.
\<close>

definition elementStep ::
  "(Parser \<Rightarrow> unit Completion \<times> Parser) \<Rightarrow> (Parser \<Rightarrow> SyntaxNode option Completion \<times> Parser)
     \<Rightarrow> SyntaxNode list option \<Rightarrow> Parser \<Rightarrow> (bool \<times> SyntaxNode list option) Completion \<times> Parser" where
  "elementStep recovery element result p =
     andThen (skipTo (\<lambda>k. \<not> insignificant (parsingContext p) k) p)
       (\<lambda>skipped.
          if shouldParseElement (snd skipped)
          then andThen (element (snd skipped))
                 (\<lambda>parsed.
                    case fst parsed of
                      Some el \<Rightarrow>
                        (Normal (True, Some ((case result of None \<Rightarrow> [] | Some r \<Rightarrow> r) @ [el])),
                         snd parsed)
                    | None \<Rightarrow>
                        andThen (recovery (snd parsed))
                          (\<lambda>r. (Normal (True, Some (case result of None \<Rightarrow> [] | Some r \<Rightarrow> r)),
                                snd r)))
          else (Normal (False, result), snd skipped))"

text \<open>
  The second half as the specification words it: stop when the close token of the context
  is matched, consuming it when the policy says so; and when neither an element, a
  separator, nor a close token matched, report the diagnostic of the context and skip to
  the next recovery token. \<open>p\<close> is the state at the start of the iteration, whose context
  gives the policy.
\<close>

definition claimedAfter ::
  "Parser \<Rightarrow> bool \<Rightarrow> SyntaxNode list option \<Rightarrow> Parser
     \<Rightarrow> (LoopStep \<times> SyntaxNode list option) Completion \<times> Parser" where
  "claimedAfter p started result q =
     (if hasCloseToken p \<and> isOnCloseToken q
      then (if shouldConsumeCloseToken p
            then andThen (advance 1 q) (\<lambda>r. (Normal (Break, result), snd r))
            else (Normal (Break, result), q))
      else if hasSeparator p \<and> isOnSeparator q
      then andThen (advance 1 q) (\<lambda>r. (Normal (Continue, result), snd r))
      else if started then (Normal (Continue, result), q)
      else andThen (skipToRecoveryToken (reportExpectedTokens q))
             (\<lambda>r. (Normal (Continue, result), snd r)))"

definition claimedIteration ::
  "(Parser \<Rightarrow> SyntaxNode option Completion \<times> Parser) \<Rightarrow> SyntaxNode list option \<Rightarrow> Parser
     \<Rightarrow> (LoopStep \<times> SyntaxNode list option) Completion \<times> Parser" where
  "claimedIteration element result p =
     andThen (elementStep skipToRecoveryToken element result p)
       (\<lambda>s. claimedAfter p (fst (fst s)) (snd (fst s)) (snd s))"

text \<open>
  The second half as the code has it. A context with separators goes on only over a
  separator, whether or not an element was parsed; where the iteration can not go on, a
  context without close token ends the list, and one with a close token reports and
  recovers, past a line terminator in the contexts named above.
\<close>

definition amendedAfter ::
  "Parser \<Rightarrow> bool \<Rightarrow> SyntaxNode list option \<Rightarrow> Parser
     \<Rightarrow> (LoopStep \<times> SyntaxNode list option) Completion \<times> Parser" where
  "amendedAfter p started result q =
     (if hasCloseToken p \<and> isOnCloseToken q
      then (if shouldConsumeCloseToken p
            then andThen (advance 1 q) (\<lambda>r. (Normal (Break, result), snd r))
            else (Normal (Break, result), q))
      else if hasSeparator p \<and> isOnSeparator q
      then andThen (advance 1 q) (\<lambda>r. (Normal (Continue, result), snd r))
      else if \<not> hasSeparator p \<and> started then (Normal (Continue, result), q)
      else if \<not> hasCloseToken p then (Normal (Break, result), q)
      else andThen (skipToRecoveryTokenAndLine (reportExpectedTokens q))
             (\<lambda>r. (Normal (Continue, result), snd r)))"

definition amendedIteration ::
  "(Parser \<Rightarrow> SyntaxNode option Completion \<times> Parser) \<Rightarrow> SyntaxNode list option \<Rightarrow> Parser
     \<Rightarrow> (LoopStep \<times> SyntaxNode list option) Completion \<times> Parser" where
  "amendedIteration element result p =
     andThen (elementStep skipToRecoveryTokenAndLine element result p)
       (\<lambda>s. amendedAfter p (fst (fst s)) (snd (fst s)) (snd s))"

text \<open>
  The state in which \<open>parseNoSymbolHereAssertionTail\<close> starts its list for the text
  \<open>[no + "a" here]\<close>: the token is \<open>+\<close>, then come the terminal, \<open>here\<close> and the bracket.
\<close>

definition atPlusToken :: Parser where
  "atPlusToken =
     (snd (nextToken
        (newParser\<lparr>scanner := newScanner
           [scanned PlusToken 1 1 ''+'', scanned Terminal 1 3 ''a'', scanned HereKeyword 1 4 ''here'',
            scanned CloseBracketToken 0 1 '']''] NullDiagnosticMessages CancellationToken_none\<rparr>)))
     \<lparr>parsingContext := NoSymbolHere\<rparr>"

text \<open>The state in which \<open>parseParameterListTail\<close> starts its list for the text \<open>(a b)\<close>.\<close>

definition atParameters :: Parser where
  "atParameters =
     (snd (nextToken
        (newParser\<lparr>scanner := newScanner
           [scanned Identifier 0 1 ''a'', scanned Identifier 1 1 ''b'',
            scanned CloseParenToken 0 1 '')''] (MessagesAt 0) CancellationToken_none,
          diagnostics := MessagesAt 0, nextMessages := 1\<rparr>)))
     \<lparr>parsingContext := Parameters\<rparr>"

text \<open>
  The same for a list that starts with \<open>+\<close>, a line terminator and \<open>~\<close> before the
  parenthesis.
\<close>

definition atParametersLine :: Parser where
  "atParametersLine =
     (snd (nextToken
        (newParser\<lparr>scanner := newScanner
           [scanned PlusToken 0 1 ''+'', scanned LineTerminatorToken 0 1 [],
            scanned TildeToken 0 1 ''~'', scanned CloseParenToken 0 1 '')'']
           (MessagesAt 0) CancellationToken_none,
          diagnostics := MessagesAt 0, nextMessages := 1\<rparr>)))
     \<lparr>parsingContext := Parameters\<rparr>"

subsection \<open>Callbacks of a speculation\<close>

text \<open>
  The callback of \<open>lookahead\<close> and \<open>tryParse\<close> is a closure of the parser. A callback is given
  here by what it does, step by step, with the operations the methods of the parser are
  made of: take the next token, report a diagnostic to \<open>this.diagnostics\<close>, set the parsing
  context, record an import, poll the cancellation token, finish a node, read the state
  and go on as it says, and speculate in turn; it ends by returning a value or throwing,
  or runs forever.
\<close>

datatype Callback =
    Return Value
  | Throw Exception
  | Forever
  | NextToken Callback
  | Report nat Message Callback
  | SetParsingContext ParsingContext Callback
  | PushImport string Callback
  | Poll Callback
  | FinishNode SyntaxNode nat "SyntaxNode \<Rightarrow> Callback"
  | Inspect "Parser \<Rightarrow> Callback"
  | Lookahead Callback "Value \<Rightarrow> Callback"
  | TryParse Callback "Value \<Rightarrow> Callback"

primrec run :: "Callback \<Rightarrow> Parser \<Rightarrow> Value Completion \<times> Parser" where
  "run (Return v) p = (Normal v, p)"
| "run (Throw e) p = (Throws e, p)"
| "run Forever p = (Diverges, p)"
| "run (NextToken k) p = andThen (nextToken p) (\<lambda>r. run k (snd r))"
| "run (Report at m k) p = run k (diagnostics_report at m p)"
| "run (SetParsingContext c k) p = run k (p\<lparr>parsingContext := c\<rparr>)"
| "run (PushImport s k) p = run k (p\<lparr>parserImports := parserImports p @ [s]\<rparr>)"
| "run (Poll k) p =
     (let polled = throwIfCancellationRequested (cancellationToken p) (polls p);
          p0 = p\<lparr>polls := snd polled\<rparr>
      in case fst polled of
           Inl e \<Rightarrow> (Throws e, p0)
         | Inr _ \<Rightarrow> run k p0)"
| "run (FinishNode node fullStart k) p =
     (let r = finishNode node fullStart p in run (k (fst r)) (snd r))"
| "run (Inspect f) p = run (f p) p"
| "run (Lookahead fn k) p =
     (let r = lookahead (run fn) p
      in case fst r of
           Normal v \<Rightarrow> run (k v) (snd r)
         | Throws e \<Rightarrow> (Throws e, snd r)
         | Diverges \<Rightarrow> (Diverges, snd r))"
| "run (TryParse fn k) p =
     (let r = tryParse (run fn) p
      in case fst r of
           Normal v \<Rightarrow> run (k v) (snd r)
         | Throws e \<Rightarrow> (Throws e, snd r)
         | Diverges \<Rightarrow> (Diverges, snd r))"



text \<open>The one callback the parser passes: \<open>() => this.nextTokenIsArgument()\<close>.\<close>

definition nextTokenIsArgumentCallback :: Callback where
  "nextTokenIsArgumentCallback =
     NextToken (Inspect (\<lambda>p. Return (Boolean (isLeadingArgumentToken (token p) \<or> token p = Identifier))))"




section \<open>Properties of symbol tables and of the binder\<close>

text \<open>
  Evaluation on concrete inputs unfolds these definitions; a call is evaluated before its
  result is used.
\<close>

lemmas binder_eval = bindSourceFile_def throwIfCancellationRequested_def CancellationToken_none_def
  newBinder_def newBindingTable_def emptySymbolTable_def initialModule_def initialBinder_def
  binder_declareSymbol_def declareSymbol_def resolveSymbol_def getSymbols_def setSymbols_def
  newSymbol_def setSymbolParent_def scopeTable_def setScopeTable_def getScope_def
  addDeclarationToSymbol_def addReferenceToSymbol_def setSymbolForNode_def setParent_def
  entries_def name_text_def getSymbol_def getParent_def getDeclarations_def getReferences_def
  truthy_def Let_def

lemmas weak_congs = option.case_cong_weak sum.case_cong_weak let_weak_cong

subsection \<open>Symbol tables\<close>

lemma resolveSymbol_Some_iff:
  "resolveSymbol name kind t = Some i \<longleftrightarrow>
     (\<exists>s m symbols. name = Some s \<and> s \<noteq> [] \<and> nameMap t = Some m \<and> m kind = Some symbols \<and> symbols s = Some i)"
  by (auto simp: resolveSymbol_def getSymbols_def split: option.splits if_splits)

lemma declareSymbol_falsy:
  assumes "\<not> truthy name"
  shows "declareSymbol name kind parent t m =
           (nextSymbolId m + 1, t,
            m\<lparr>nextSymbolId := nextSymbolId m + 1,
              symbolObjects := (symbolObjects m)(nextSymbolId m + 1 \<mapsto>
                \<lparr>symbol_id = nextSymbolId m + 1, symbol_name = ''*missing*'',
                 symbol_kind = kind, symbol_parent = parent\<rparr>)\<rparr>)"
  using assms
  by (cases name) (auto simp: declareSymbol_def truthy_def newSymbol_def setSymbolParent_def Let_def)

lemma declareSymbol_existing:
  assumes "resolveSymbol name kind t = Some i"
  shows "declareSymbol name kind parent t m = (i, t, setSymbolParent i parent m)"
  using assms unfolding resolveSymbol_Some_iff
  by (auto simp: declareSymbol_def getSymbols_def Let_def)

lemma declareSymbol_new:
  assumes "truthy name" and "resolveSymbol name kind t = None"
  shows "\<exists>t' m'. declareSymbol name kind parent t m = (nextSymbolId m + 1, t', m') \<and>
           nextSymbolId m' = nextSymbolId m + 1 \<and>
           symbolObjects m' (nextSymbolId m + 1) =
             Some \<lparr>symbol_id = nextSymbolId m + 1, symbol_name = the name,
                   symbol_kind = kind, symbol_parent = parent\<rparr> \<and>
           (\<forall>n k. resolveSymbol n k t' =
               (if n = name \<and> k = kind then Some (nextSymbolId m + 1) else resolveSymbol n k t))"
  using assms
  apply (cases name)
   apply (simp add: truthy_def)
  apply (auto simp: truthy_def declareSymbol_def getSymbols_def setSymbols_def resolveSymbol_def
      newSymbol_def setSymbolParent_def Let_def split: option.splits if_splits)
  done

lemma declareSymbol_resolves:
  assumes "truthy name"
  shows "resolveSymbol name kind (fst (snd (declareSymbol name kind parent t m))) =
           Some (fst (declareSymbol name kind parent t m))"
proof (cases "resolveSymbol name kind t")
  case None
  from declareSymbol_new [OF assms None, of parent m] show ?thesis by auto
next
  case (Some i)
  then show ?thesis by (simp add: declareSymbol_existing)
qed

lemma declareSymbol_keeps:
  assumes "resolveSymbol n k t = Some i"
  shows "resolveSymbol n k (fst (snd (declareSymbol name kind parent t m))) = Some i"
proof (cases "truthy name")
  case False
  then show ?thesis using assms by (simp add: declareSymbol_falsy)
next
  case True
  show ?thesis
  proof (cases "resolveSymbol name kind t")
    case None
    from declareSymbol_new [OF True None, of parent m] assms None show ?thesis by auto
  next
    case (Some j)
    then show ?thesis using assms by (simp add: declareSymbol_existing)
  qed
qed


subsection \<open>The binding table\<close>

lemma scopeTable_setScopeTable [simp]: "scopeTable r (setScopeTable r t bt) = t"
  by (cases r) (simp_all add: scopeTable_def setScopeTable_def entries_def)

lemma addReferenceToSymbol_frame [simp]:
  "globals (addReferenceToSymbol s n bt) = globals bt"
  "symbolLocals (addReferenceToSymbol s n bt) = symbolLocals bt"
  "symbolDeclarations (addReferenceToSymbol s n bt) = symbolDeclarations bt"
  "nodeMap (addReferenceToSymbol s n bt) = nodeMap bt"
  "parentNodes (addReferenceToSymbol s n bt) = parentNodes bt"
  by (simp_all add: addReferenceToSymbol_def Let_def)

lemma setSymbolForNode_frame [simp]:
  "globals (setSymbolForNode n s bt) = globals bt"
  "symbolLocals (setSymbolForNode n s bt) = symbolLocals bt"
  "symbolDeclarations (setSymbolForNode n s bt) = symbolDeclarations bt"
  "symbolReferences (setSymbolForNode n s bt) = symbolReferences bt"
  "parentNodes (setSymbolForNode n s bt) = parentNodes bt"
  by (simp_all add: setSymbolForNode_def)

lemma addDeclarationToSymbol_frame [simp]:
  "globals (addDeclarationToSymbol s n bt) = globals bt"
  "symbolLocals (addDeclarationToSymbol s n bt) = symbolLocals bt"
  "parentNodes (addDeclarationToSymbol s n bt) = parentNodes bt"
  by (auto simp: addDeclarationToSymbol_def Let_def split: option.splits)

lemma scopeTable_addDeclarationToSymbol [simp]:
  "scopeTable r (addDeclarationToSymbol s n bt) = scopeTable r bt"
  by (cases r) (simp_all add: scopeTable_def)

lemma getDeclarations_addDeclarationToSymbol:
  "getDeclarations (Some s) (addDeclarationToSymbol (Some s) (Some n) bt) =
     getDeclarations (Some s) bt @ [n]"
  by (auto simp: getDeclarations_def addDeclarationToSymbol_def entries_def Let_def
      split: option.splits)

lemma getDeclarations_setScopeTable [simp]:
  "getDeclarations s (setScopeTable r t bt) = getDeclarations s bt"
  by (cases r) (simp_all add: getDeclarations_def setScopeTable_def)


lemma binder_declareSymbol_frame [simp]:
  "scope (snd (binder_declareSymbol name d kind b)) = scope b"
  "parentSymbol (snd (binder_declareSymbol name d kind b)) = parentSymbol b"
  "parentNode (snd (binder_declareSymbol name d kind b)) = parentNode b"
  "binderPolls (snd (binder_declareSymbol name d kind b)) = binderPolls b"
  by (simp_all add: binder_declareSymbol_def Let_def)





subsection \<open>References stay distinct\<close>

lemma getReferences_addReferenceToSymbol:
  "getReferences (Some s') (addReferenceToSymbol s n bt) =
     (if s' = s
      then (if n \<in> set (getReferences (Some s) bt) then getReferences (Some s) bt
            else getReferences (Some s) bt @ [n])
      else getReferences (Some s') bt)"
  by (auto simp: getReferences_def addReferenceToSymbol_def entries_def Let_def split: option.splits)

lemma referencesDistinct_addReferenceToSymbol:
  "referencesDistinct bt \<Longrightarrow> referencesDistinct (addReferenceToSymbol s n bt)"
  by (auto simp: referencesDistinct_def getReferences_addReferenceToSymbol)

lemma getReferences_frame [simp]:
  "getReferences s (setSymbolForNode n s' bt) = getReferences s bt"
  "getReferences s (setParent a b bt) = getReferences s bt"
  "getReferences s (snd (getScope c bt)) = getReferences s bt"
  by (auto simp: getReferences_def setSymbolForNode_def setParent_def getScope_def Let_def
      split: option.splits)

lemma referencesDistinct_frame:
  "symbolReferences bt' = symbolReferences bt \<Longrightarrow> referencesDistinct bt \<Longrightarrow> referencesDistinct bt'"
  by (simp add: referencesDistinct_def getReferences_def)

lemma referencesDistinct_applyOp:
  assumes "referencesDistinct bt"
  shows "referencesDistinct (applyOp op bt)"
proof (cases op)
  case (SetParent n p)
  then show ?thesis using assms by (simp add: referencesDistinct_def)
next
  case (SetSymbol n s)
  then show ?thesis using assms
    by (auto simp: setSymbol_def split: option.splits
        intro!: referencesDistinct_addReferenceToSymbol
        intro: referencesDistinct_frame [where bt = bt])
next
  case (AddDeclarationToSymbol s n)
  have "referencesDistinct (bt\<lparr>symbolDeclarations := d\<rparr>)" for d
    using assms by (simp add: referencesDistinct_def getReferences_def)
  then show ?thesis using assms AddDeclarationToSymbol
    by (auto simp: addDeclarationToSymbol_def Let_def split: option.splits
        intro!: referencesDistinct_addReferenceToSymbol
        intro: referencesDistinct_frame [where bt = "bt\<lparr>symbolDeclarations := d\<rparr>" for d])
next
  case (GetScope c)
  then show ?thesis using assms by (simp add: referencesDistinct_def)
qed

lemma referencesDistinct_applyOps:
  "referencesDistinct bt \<Longrightarrow> referencesDistinct (applyOps ops bt)"
  unfolding applyOps_def
  by (induction ops arbitrary: bt) (simp_all add: referencesDistinct_applyOp)

lemma referencesDistinct_new: "referencesDistinct newBindingTable"
  by (simp add: referencesDistinct_def getReferences_def newBindingTable_def)

lemma getSymbol_setSymbol:
  "getSymbol (Some n) (setSymbol (Some n) (Some s) bt) = Some s"
  by (simp add: getSymbol_def setSymbol_def setSymbolForNode_def addReferenceToSymbol_def Let_def)

lemma applyOps_snoc: "applyOps (ops @ [op]) bt = applyOp op (applyOps ops bt)"
  by (simp add: applyOps_def)


subsection \<open>Binding keeps what the global scope resolves\<close>

lemma setParent_globals [simp]: "globals (setParent n p bt) = globals bt"
  by (auto simp: setParent_def split: option.splits)

lemma getScope_globals [simp]: "globals (snd (getScope c bt)) = globals bt"
  by (auto simp: getScope_def Let_def split: option.splits)

lemma globals_setScopeTable:
  "globals (setScopeTable r t bt) = (case r of GlobalScope \<Rightarrow> t | LocalScope _ \<Rightarrow> globals bt)"
  by (cases r) (simp_all add: setScopeTable_def)

lemma binder_declareSymbol_keeps_global:
  assumes "resolveSymbol f k (globals (bindings b)) = Some i"
  shows "resolveSymbol f k (globals (bindings (snd (binder_declareSymbol name d kind b)))) = Some i"
proof (cases "scope b")
  case GlobalScope
  then show ?thesis
    using declareSymbol_keeps [OF assms, of name kind "parentSymbol b" "symbolModule b"]
    by (simp add: binder_declareSymbol_def Let_def globals_setScopeTable scopeTable_def)
next
  case (LocalScope j)
  then show ?thesis using assms
    by (simp add: binder_declareSymbol_def Let_def globals_setScopeTable)
qed

lemma keepsGlobal_refl: "keepsGlobal f k i b b"
  by (simp add: keepsGlobal_def)

lemma keepsGlobal_trans:
  "keepsGlobal f k i b b1 \<Longrightarrow> keepsGlobal f k i b1 b2 \<Longrightarrow> keepsGlobal f k i b b2"
  by (simp add: keepsGlobal_def)

lemma keepsGlobal_same_bindings:
  "bindings b1 = bindings b \<Longrightarrow> keepsGlobal f k i b b1"
  by (simp add: keepsGlobal_def)

lemma keepsGlobal_cong_left:
  "bindings b1 = bindings b \<Longrightarrow> keepsGlobal f k i b1 b2 \<Longrightarrow> keepsGlobal f k i b b2"
  by (simp add: keepsGlobal_def)

lemma keepsGlobal_cong_right:
  "bindings b2 = bindings b1 \<Longrightarrow> keepsGlobal f k i b b1 \<Longrightarrow> keepsGlobal f k i b b2"
  by (simp add: keepsGlobal_def)

lemma keepsGlobal_declare:
  "keepsGlobal f k i b (snd (binder_declareSymbol name d kind b))"
  by (simp add: keepsGlobal_def binder_declareSymbol_keeps_global)

lemmas bind_simps = bind.simps bindProduction.simps bindParameter.simps bindChildren.simps
  forEachChild_bind.simps

lemma bind_keeps_global:
  "keepsGlobal f k i b (bind node b)"
  "keepsGlobal f k i b (bindProduction n b)"
  "keepsGlobal f k i b (bindParameter n b)"
  "keepsGlobal f k i b (bindChildren pn ps sc b)"
  "keepsGlobal f k i b (forEachChild_bind cs b)"
proof (induction node b and n b and n b and pn ps sc b and cs b
    rule: bind_bindProduction_bindParameter_bindChildren_forEachChild_bind.induct)
  case (1 b)
  show ?case by (simp add: keepsGlobal_refl)
next
  case (2 node b)
  let ?b1 = "b\<lparr>bindings := setParent (Some node) (parentNode b) (bindings b)\<rparr>"
  have step: "keepsGlobal f k i b ?b1" by (simp add: keepsGlobal_def)
  have "keepsGlobal f k i ?b1 (bind (Some node) b)"
    using "2.IH" [of ?b1]
    by (simp add: Let_def del: bindProduction.simps bindParameter.simps bindChildren.simps)
  with step show ?case by (rule keepsGlobal_trans)
next
  case (3 node b)
  let ?d = "binder_declareSymbol (name_text node) node ProductionSymbol b"
  let ?sc = "getScope (fst ?d) (bindings (snd ?d))"
  let ?b2 = "(snd ?d)\<lparr>bindings := snd ?sc\<rparr>"
  have a: "keepsGlobal f k i b (snd ?d)" by (rule keepsGlobal_declare)
  have b: "keepsGlobal f k i (snd ?d) ?b2" by (simp add: keepsGlobal_def)
  have c: "keepsGlobal f k i ?b2 (bindChildren node (Some (fst ?d)) (fst ?sc) ?b2)"
    by (rule "3.IH" [OF refl refl refl])
  have "bindProduction node b = bindChildren node (Some (fst ?d)) (fst ?sc) ?b2"
    by (simp add: Let_def del: bindChildren.simps)
  then show ?case using keepsGlobal_trans [OF keepsGlobal_trans [OF a b] c] by simp
next
  case (4 node b)
  let ?d = "binder_declareSymbol (name_text node) node ParameterSymbol b"
  have a: "keepsGlobal f k i b (snd ?d)" by (rule keepsGlobal_declare)
  have c: "keepsGlobal f k i (snd ?d) (bindChildren node (parentSymbol (snd ?d)) (scope (snd ?d)) (snd ?d))"
    by (rule "4.IH" [OF refl refl])
  have "bindParameter node b = bindChildren node (parentSymbol (snd ?d)) (scope (snd ?d)) (snd ?d)"
    by (simp add: Let_def del: bindChildren.simps)
  then show ?case using keepsGlobal_trans [OF a c] by simp
next
  case (5 pn ps sc b)
  let ?b0 = "b\<lparr>parentNode := Some pn, parentSymbol := ps, scope := sc\<rparr>"
  let ?b1 = "forEachChild_bind (node_children pn) ?b0"
  have a: "keepsGlobal f k i ?b0 ?b1"
    by (rule "5.IH" [OF refl refl refl])
  have eq: "bindChildren pn ps sc b =
        ?b1\<lparr>scope := scope b, parentSymbol := parentSymbol b, parentNode := parentNode b\<rparr>"
    by (simp add: Let_def)
  show ?case unfolding eq
    by (rule keepsGlobal_cong_right [OF _ keepsGlobal_cong_left [OF _ a]]) simp_all
next
  case (6 b)
  show ?case by (simp add: keepsGlobal_refl)
next
  case (7 c cs b)
  have "keepsGlobal f k i b (bind (Some c) b)" by (rule "7.IH"(1))
  moreover have "keepsGlobal f k i (bind (Some c) b) (forEachChild_bind cs (bind (Some c) b))"
    by (rule "7.IH"(2))
  ultimately show ?case
    by (simp add: keepsGlobal_trans del: bind.simps)
qed

lemma bindChildren_scope [simp]: "scope (bindChildren pn ps sc b) = scope b"
  by (simp add: Let_def)

lemma bindSourceFile_skips:
  assumes "scope b = GlobalScope"
    and "resolveSymbol (filename file) SourceFileSymbol (globals (bindings b)) \<noteq> None"
  shows "snd (bindSourceFile file b) = b\<lparr>binderPolls := binderPolls b + 1\<rparr>"
  using assms
  by (auto simp: bindSourceFile_def throwIfCancellationRequested_def Let_def scopeTable_def
      split: sum.splits)

lemma bindSourceFile_binds:
  assumes "scope b = GlobalScope" and "truthy (filename file)"
    and "fst (bindSourceFile file b) = Inr ()"
  shows "resolveSymbol (filename file) SourceFileSymbol
           (globals (bindings (snd (bindSourceFile file b)))) \<noteq> None \<and>
         scope (snd (bindSourceFile file b)) = GlobalScope"
proof (cases "resolveSymbol (filename file) SourceFileSymbol (globals (bindings b))")
  case (Some i)
  then show ?thesis using assms(1)
    by (simp add: bindSourceFile_skips)
next
  case None
  let ?b0 = "b\<lparr>binderPolls := binderPolls b + 1\<rparr>"
  let ?d = "binder_declareSymbol (filename file) file SourceFileSymbol ?b0"
  have nc: "\<not> cancellationRequested (binderCancellationToken b) (binderPolls b)"
    using assms(3)
    by (auto simp: bindSourceFile_def throwIfCancellationRequested_def Let_def split: if_splits)
  have eq: "snd (bindSourceFile file b) = bindChildren file (Some (fst ?d)) (scope (snd ?d)) (snd ?d)"
    using None nc assms(1)
    by (simp add: bindSourceFile_def throwIfCancellationRequested_def Let_def scopeTable_def
        del: bindChildren.simps)
  have "resolveSymbol (filename file) SourceFileSymbol (globals (bindings (snd ?d))) = Some (fst ?d)"
    using declareSymbol_resolves [OF assms(2), of SourceFileSymbol "parentSymbol b" "globals (bindings b)" "symbolModule b"]
      assms(1)
    by (simp add: binder_declareSymbol_def Let_def globals_setScopeTable scopeTable_def)
  moreover have "keepsGlobal (filename file) SourceFileSymbol (fst ?d) (snd ?d)
        (bindChildren file (Some (fst ?d)) (scope (snd ?d)) (snd ?d))"
    by (rule bind_keeps_global(4))
  ultimately have "resolveSymbol (filename file) SourceFileSymbol (globals (bindings (snd (bindSourceFile file b)))) = Some (fst ?d)"
    unfolding eq keepsGlobal_def by simp
  moreover have "scope (snd (bindSourceFile file b)) = GlobalScope"
    unfolding eq using assms(1) by (simp del: bindChildren.simps)
  ultimately show ?thesis by simp
qed

lemma bindSourceFile_idempotent:
  assumes "scope b = GlobalScope" and "truthy (filename file)"
    and "fst (bindSourceFile file b) = Inr ()"
  shows "bindings (snd (bindSourceFile file (snd (bindSourceFile file b)))) =
           bindings (snd (bindSourceFile file b)) \<and>
         symbolModule (snd (bindSourceFile file (snd (bindSourceFile file b)))) =
           symbolModule (snd (bindSourceFile file b))"
  using bindSourceFile_binds [OF assms]
  by (simp add: bindSourceFile_skips)

subsection \<open>The loop of resolveSymbol along a path\<close>

lemma resolveInLocals_spec: "resolveInLocals bt name meaning loc = localScopeMatch bt name meaning loc"
  by (simp add: resolveInLocals_def localScopeMatch_def Let_def split: option.splits)

lemma resolveSymbolLoop_path:
  "isAncestorPath bt (loc # up) \<Longrightarrow>
     resolveSymbolLoop (Some loc) name meaning bt = Some (resolveSymbol_spec (loc # up) name meaning bt)"
proof (induction up arbitrary: loc)
  case Nil
  then show ?case
    by (subst resolveSymbolLoop.simps)
       (auto simp: resolveInLocals_spec resolveSymbolLoop.simps [of None] split: option.splits)
next
  case (Cons p up)
  from Cons.prems have k: "node_kind loc \<noteq> SourceFile"
    and par: "getParent (Some loc) bt = Some p" and rest: "isAncestorPath bt (p # up)"
    by simp_all
  show ?case
    by (subst resolveSymbolLoop.simps)
       (simp add: k par resolveInLocals_spec Cons.IH [OF rest] split: option.splits)
qed

lemma resolveSymbol_without_locals:
  "symbolLocals bt = None \<Longrightarrow> bt_resolveSymbol location name meaning bt = Some None"
  by (simp add: bt_resolveSymbol_def)

subsection \<open>Later declarations never reach an anonymous symbol\<close>

lemma nextSymbolId_setSymbolParent [simp]:
  "nextSymbolId (setSymbolParent i p m) = nextSymbolId m"
  by (simp add: setSymbolParent_def split: option.splits)

lemma unreachable_declareSymbol:
  assumes "unreachable i t m"
  shows "unreachable i (fst (snd (declareSymbol name kind parent t m)))
           (snd (snd (declareSymbol name kind parent t m)))"
proof (cases "truthy name")
  case False
  have "symbolsBelow t (Suc (nextSymbolId m))"
    using assms unfolding unreachable_def symbolsBelow_def by (meson le_SucI)
  then show ?thesis using assms False
    by (simp add: declareSymbol_falsy unreachable_def)
next
  case True
  show ?thesis
  proof (cases "resolveSymbol name kind t")
    case (Some j)
    then show ?thesis using assms
      by (simp add: declareSymbol_existing unreachable_def)
  next
    case None
    from declareSymbol_new [OF True None, of parent m]
    obtain t' m' where d: "declareSymbol name kind parent t m = (nextSymbolId m + 1, t', m')"
      and n: "nextSymbolId m' = nextSymbolId m + 1"
      and r: "\<forall>n k. resolveSymbol n k t' =
                (if n = name \<and> k = kind then Some (nextSymbolId m + 1) else resolveSymbol n k t)"
      by blast
    have "symbolsBelow t' (nextSymbolId m')"
      unfolding symbolsBelow_def n
    proof (intro allI impI)
      fix nm kd j
      assume a: "resolveSymbol nm kd t' = Some j"
      show "j \<le> nextSymbolId m + 1"
      proof (cases "nm = name \<and> kd = kind")
        case True
        then show ?thesis using a r by simp
      next
        case False
        then have "resolveSymbol nm kd t = Some j" using a r by auto
        then have "j \<le> nextSymbolId m"
          using assms unfolding unreachable_def symbolsBelow_def by blast
        then show ?thesis by simp
      qed
    qed
    moreover have "\<forall>n k. resolveSymbol n k t' \<noteq> Some i"
    proof (intro allI notI)
      fix nm kd
      assume a: "resolveSymbol nm kd t' = Some i"
      show False
      proof (cases "nm = name \<and> kd = kind")
        case True
        then have "i = nextSymbolId m + 1" using a r by simp
        then show False using assms by (simp add: unreachable_def)
      next
        case False
        then have "resolveSymbol nm kd t = Some i" using a r by auto
        then show False using assms by (simp add: unreachable_def)
      qed
    qed
    moreover have "i \<le> nextSymbolId m'"
      using assms n by (simp add: unreachable_def)
    ultimately show ?thesis by (simp add: d unreachable_def)
  qed
qed

lemma unreachable_declareAll:
  "unreachable i t m \<Longrightarrow> unreachable i (fst (declareAll ds t m)) (snd (declareAll ds t m))"
  by (induction ds arbitrary: t m) (simp_all add: Let_def unreachable_declareSymbol)

lemma symbolsBelow_declareSymbol:
  assumes "symbolsBelow t (nextSymbolId m)"
  shows "symbolsBelow (fst (snd (declareSymbol name kind parent t m)))
           (nextSymbolId (snd (snd (declareSymbol name kind parent t m))))"
proof -
  show ?thesis
  proof (cases "truthy name")
    case False
    then show ?thesis using assms
      unfolding symbolsBelow_def by (simp add: declareSymbol_falsy le_SucI)
  next
    case True
    show ?thesis
    proof (cases "resolveSymbol name kind t")
      case (Some j)
      then show ?thesis using assms by (simp add: declareSymbol_existing)
    next
      case None
      from declareSymbol_new [OF True None, of parent m]
      obtain t' m' where d: "declareSymbol name kind parent t m = (nextSymbolId m + 1, t', m')"
        and n: "nextSymbolId m' = nextSymbolId m + 1"
        and r: "\<forall>n k. resolveSymbol n k t' =
                  (if n = name \<and> k = kind then Some (nextSymbolId m + 1) else resolveSymbol n k t)"
        by blast
      have "symbolsBelow t' (nextSymbolId m + 1)"
        unfolding symbolsBelow_def
      proof (intro allI impI)
        fix nm kd j
        assume a: "resolveSymbol nm kd t' = Some j"
        show "j \<le> nextSymbolId m + 1"
        proof (cases "nm = name \<and> kd = kind")
          case True
          then show ?thesis using a r by simp
        next
          case False
          then have "resolveSymbol nm kd t = Some j" using a r by auto
          then have "j \<le> nextSymbolId m"
            using assms unfolding symbolsBelow_def by blast
          then show ?thesis by simp
        qed
      qed
      then show ?thesis by (simp add: d n)
    qed
  qed
qed

subsection \<open>The claims about symbol tables and the binder\<close>

text \<open>
  C10. \<open>declareSymbol\<close> with an undefined or empty name returns a fresh symbol named
  \<open>*missing*\<close> whose id is the next value of the counter, and leaves the table as it was;
  a second anonymous declaration returns another symbol; and, the table holding only
  symbols created earlier, no name resolves to the anonymous symbol, now or after any
  further declarations into the table.
\<close>

theorem declareSymbol_missing_name:
  assumes "name = None \<or> name = Some []"
  shows "let r = declareSymbol name kind parent t m;
             symbol = fst r; t' = fst (snd r); m' = snd (snd r)
         in symbol = nextSymbolId m + 1 \<and> nextSymbolId m' = symbol \<and> t' = t \<and>
            symbolObjects m' symbol =
              Some \<lparr>symbol_id = symbol, symbol_name = ''*missing*'', symbol_kind = kind,
                    symbol_parent = parent\<rparr> \<and>
            (\<forall>name2 kind2 parent2.
               name2 = None \<or> name2 = Some [] \<longrightarrow>
               fst (declareSymbol name2 kind2 parent2 t' m') \<noteq> symbol) \<and>
            (symbolsBelow t (nextSymbolId m) \<longrightarrow>
               (\<forall>ds n k. resolveSymbol n k (fst (declareAll ds t' m')) \<noteq> Some symbol))"
proof -
  have f: "\<not> truthy name" using assms by (auto simp: truthy_def)
  have g: "\<And>n2. n2 = None \<or> n2 = Some [] \<Longrightarrow> \<not> truthy n2" by (auto simp: truthy_def)
  let ?m' = "m\<lparr>nextSymbolId := nextSymbolId m + 1,
              symbolObjects := (symbolObjects m)(nextSymbolId m + 1 \<mapsto>
                \<lparr>symbol_id = nextSymbolId m + 1, symbol_name = ''*missing*'',
                 symbol_kind = kind, symbol_parent = parent\<rparr>)\<rparr>"
  have later: "\<forall>ds n k. resolveSymbol n k (fst (declareAll ds t ?m')) \<noteq> Some (nextSymbolId m + 1)"
    if below: "symbolsBelow t (nextSymbolId m)"
  proof -
    have "resolveSymbol n k t \<noteq> Some (nextSymbolId m + 1)" for n k
      using below unfolding symbolsBelow_def by fastforce
    moreover have "symbolsBelow t (nextSymbolId m + 1)"
      using below unfolding symbolsBelow_def by (simp add: le_SucI)
    ultimately have "unreachable (nextSymbolId m + 1) t ?m'"
      unfolding unreachable_def by simp
    from unreachable_declareAll [OF this] show ?thesis by (simp add: unreachable_def)
  qed
  show ?thesis
    using later by (simp add: declareSymbol_falsy [OF f] declareSymbol_falsy [OF g] Let_def)
qed

theorem declareSymbol_missing_name_witness:
  "((None :: string option) = None \<or> (None :: string option) = Some []) \<and>
   symbolsBelow emptySymbolTable (nextSymbolId initialModule) \<and>
   fst (declareSymbol None ProductionSymbol None emptySymbolTable initialModule) = 1 \<and>
   fst (snd (declareSymbol None ProductionSymbol None emptySymbolTable initialModule)) = emptySymbolTable \<and>
   resolveSymbol (Some ''*missing*'') ProductionSymbol
     (fst (declareAll [(Some ''A'', ProductionSymbol, None)]
        (fst (snd (declareSymbol None ProductionSymbol None emptySymbolTable initialModule)))
        (snd (snd (declareSymbol None ProductionSymbol None emptySymbolTable initialModule))))) \<noteq> Some 1"
proof -
  have below: "symbolsBelow emptySymbolTable (nextSymbolId initialModule)"
    by (simp add: symbolsBelow_def resolveSymbol_def getSymbols_def emptySymbolTable_def
        split: option.splits)
  have n: "nextSymbolId initialModule + 1 = 1" by (simp add: initialModule_def)
  have all: "let r = declareSymbol None ProductionSymbol None emptySymbolTable initialModule;
             symbol = fst r; t' = fst (snd r); m' = snd (snd r)
         in symbol = nextSymbolId initialModule + 1 \<and> nextSymbolId m' = symbol \<and>
            t' = emptySymbolTable \<and>
            symbolObjects m' symbol =
              Some \<lparr>symbol_id = symbol, symbol_name = ''*missing*'', symbol_kind = ProductionSymbol,
                    symbol_parent = None\<rparr> \<and>
            (\<forall>name2 kind2 parent2.
               name2 = None \<or> name2 = Some [] \<longrightarrow>
               fst (declareSymbol name2 kind2 parent2 t' m') \<noteq> symbol) \<and>
            (symbolsBelow emptySymbolTable (nextSymbolId initialModule) \<longrightarrow>
               (\<forall>ds n k. resolveSymbol n k (fst (declareAll ds t' m')) \<noteq> Some symbol))"
    by (rule declareSymbol_missing_name) simp
  have a: "fst (declareSymbol None ProductionSymbol None emptySymbolTable initialModule) = 1"
    using all n unfolding Let_def by simp
  have b: "fst (snd (declareSymbol None ProductionSymbol None emptySymbolTable initialModule)) = emptySymbolTable"
    using all unfolding Let_def by blast
  have c: "\<forall>ds n k. resolveSymbol n k (fst (declareAll ds
        (fst (snd (declareSymbol None ProductionSymbol None emptySymbolTable initialModule)))
        (snd (snd (declareSymbol None ProductionSymbol None emptySymbolTable initialModule))))) \<noteq>
      Some (fst (declareSymbol None ProductionSymbol None emptySymbolTable initialModule))"
    using all below unfolding Let_def by blast
  have d: "resolveSymbol (Some ''*missing*'') ProductionSymbol
     (fst (declareAll [(Some ''A'', ProductionSymbol, None)]
        (fst (snd (declareSymbol None ProductionSymbol None emptySymbolTable initialModule)))
        (snd (snd (declareSymbol None ProductionSymbol None emptySymbolTable initialModule))))) \<noteq>
      Some 1"
    using c a by metis
  show ?thesis using below a b d by blast
qed




text \<open>
  Through the whole binder: the two productions \<open>A\<close> of \<open>splitFile\<close> share symbol 2, whose
  declarations are the two nodes, and the parameter of the first one is symbol 3.
\<close>

lemma splitFile_bound:
  "getSymbol (Some splitA1) (bindings (snd (bindSourceFile splitFile initialBinder))) = Some 2 \<and>
   getSymbol (Some splitA2) (bindings (snd (bindSourceFile splitFile initialBinder))) = Some 2 \<and>
   getDeclarations (Some 2) (bindings (snd (bindSourceFile splitFile initialBinder))) = [splitA1, splitA2] \<and>
   nextSymbolId (symbolModule (snd (bindSourceFile splitFile initialBinder))) = 3"
  by (simp add: splitFile_def splitA1_def splitA2_def binder_eval cong: weak_congs)

text \<open>
  C9. After any sequence of operations on a new binding table, the references of a symbol
  hold no node twice; a node has at most one symbol, the one set last; and
  \<open>addDeclarationToSymbol\<close> appends one entry to the declarations of the symbol whether or
  not the node is among them already.
\<close>

theorem bindingTable_invariants:
  "distinct (getReferences symbol (applyOps ops newBindingTable)) \<and>
   card {s. getSymbol node (applyOps ops newBindingTable) = Some s} \<le> 1 \<and>
   getSymbol (Some n) (applyOps (ops @ [SetSymbol (Some n) (Some s)]) newBindingTable) = Some s \<and>
   getDeclarations (Some s) (applyOps (ops @ [AddDeclarationToSymbol (Some s) (Some n)]) newBindingTable) =
     getDeclarations (Some s) (applyOps ops newBindingTable) @ [n]"
proof -
  have inv: "referencesDistinct (applyOps ops newBindingTable)"
    by (rule referencesDistinct_applyOps [OF referencesDistinct_new])
  have a: "distinct (getReferences symbol (applyOps ops newBindingTable))"
  proof (cases symbol)
    case None
    then show ?thesis by (simp add: getReferences_def)
  next
    case (Some s)
    then show ?thesis using inv by (simp add: referencesDistinct_def)
  qed
  have b: "card {s. getSymbol node (applyOps ops newBindingTable) = Some s} \<le> 1"
  proof (cases "getSymbol node (applyOps ops newBindingTable)")
    case None
    then show ?thesis by simp
  next
    case (Some s0)
    then have "{s. getSymbol node (applyOps ops newBindingTable) = Some s} = {s0}" by auto
    then show ?thesis by simp
  qed
  show ?thesis
    using a b
    by (simp add: applyOps_snoc getSymbol_setSymbol getDeclarations_addDeclarationToSymbol)
qed

text \<open>A declaration recorded twice stands twice; a reference set twice stands once.\<close>

lemma duplicates_example:
  "getDeclarations (Some 1)
     (applyOps [AddDeclarationToSymbol (Some 1) (Some splitA2), AddDeclarationToSymbol (Some 1) (Some splitA2)]
        newBindingTable) = [splitA2, splitA2] \<and>
   getReferences (Some 1)
     (applyOps [SetSymbol (Some splitA2) (Some 1), SetSymbol (Some splitA2) (Some 1)]
        newBindingTable) = [splitA2]"
  by (simp add: applyOps_def splitA2_def setSymbol_def binder_eval cong: weak_congs)

text \<open>
  C3. When the binder is at the global scope and the filename of the file resolves there
  to a SourceFile symbol, \<open>bindSourceFile\<close> changes nothing of the binder but the count of
  polls: the binding table (symbols, declarations, references, parent links, scopes) and
  the symbol module are as before.
\<close>

theorem bindSourceFile_already_bound:
  assumes "scope b = GlobalScope"
    and "resolveSymbol (filename file) SourceFileSymbol (globals (bindings b)) \<noteq> None"
  shows "snd (bindSourceFile file b) = b\<lparr>binderPolls := binderPolls b + 1\<rparr>"
  using assms
  by (auto simp: bindSourceFile_def throwIfCancellationRequested_def Let_def scopeTable_def
      split: sum.splits)

theorem bindSourceFile_already_bound_witness:
  "scope (snd (bindSourceFile splitFile initialBinder)) = GlobalScope \<and>
   resolveSymbol (filename splitFile) SourceFileSymbol
     (globals (bindings (snd (bindSourceFile splitFile initialBinder)))) = Some 1 \<and>
   bindings (snd (bindSourceFile splitFile (snd (bindSourceFile splitFile initialBinder)))) =
     bindings (snd (bindSourceFile splitFile initialBinder)) \<and>
   symbolModule (snd (bindSourceFile splitFile (snd (bindSourceFile splitFile initialBinder)))) =
     symbolModule (snd (bindSourceFile splitFile initialBinder))"
proof -
  have s: "scope (snd (bindSourceFile splitFile initialBinder)) = GlobalScope"
    by (simp add: splitFile_def splitA1_def splitA2_def binder_eval cong: weak_congs)
  have r: "resolveSymbol (filename splitFile) SourceFileSymbol
     (globals (bindings (snd (bindSourceFile splitFile initialBinder)))) = Some 1"
    by (simp add: splitFile_def splitA1_def splitA2_def binder_eval cong: weak_congs)
  have r': "resolveSymbol (filename splitFile) SourceFileSymbol
     (globals (bindings (snd (bindSourceFile splitFile initialBinder)))) \<noteq> None"
    using r by simp
  from bindSourceFile_already_bound [OF s r'] s r
  show ?thesis by simp
qed

text \<open>
  C5, as amended. When the binding table has created its array of local scopes and the
  parent table leads from the node to a SourceFile node or to a node without a parent,
  \<open>resolveSymbol\<close> returns what the walk along that path finds: at each node that is not a
  SourceFile, the match in the local scope of the node's symbol, if the node has a symbol
  and the symbol a scope; at a SourceFile, the match in the global scope, with which the
  walk ends; the first symbol found, or none. When no local scope was ever created, it
  returns none without consulting any scope (\<open>resolveSymbol_without_locals\<close>).
\<close>

theorem resolveSymbol_walks_ancestors:
  assumes "symbolLocals bt \<noteq> None" and "isAncestorPath bt (location # up)"
  shows "bt_resolveSymbol (Some location) name meaning bt =
           Some (resolveSymbol_spec (location # up) name meaning bt)"
  using assms by (simp add: bt_resolveSymbol_def resolveSymbolLoop_path)

text \<open>
  In the bound \<open>splitFile\<close> the parameter name \<open>x\<close> resolves from the parameter node through
  the local scope of production \<open>A\<close>, two steps up the path.
\<close>

theorem resolveSymbol_walks_ancestors_witness:
  "symbolLocals (bindings (snd (bindSourceFile splitFile initialBinder))) \<noteq> None \<and>
   isAncestorPath (bindings (snd (bindSourceFile splitFile initialBinder)))
     [IdentifierNode 8 (Some ''x''), ParameterNode 7 (IdentifierNode 8 (Some ''x'')),
      OtherNode 6 ParameterList [ParameterNode 7 (IdentifierNode 8 (Some ''x''))], splitA1, splitFile] \<and>
   bt_resolveSymbol (Some (IdentifierNode 8 (Some ''x''))) (Some ''x'') ParameterSymbol
     (bindings (snd (bindSourceFile splitFile initialBinder))) = Some (Some 3)"
proof -
  let ?bt = "bindings (snd (bindSourceFile splitFile initialBinder))"
  let ?path = "[ParameterNode 7 (IdentifierNode 8 (Some ''x'')),
      OtherNode 6 ParameterList [ParameterNode 7 (IdentifierNode 8 (Some ''x''))], splitA1, splitFile]"
  have l: "symbolLocals ?bt \<noteq> None"
    by (simp add: splitFile_def splitA1_def splitA2_def binder_eval cong: weak_congs)
  have p: "isAncestorPath ?bt (IdentifierNode 8 (Some ''x'') # ?path)"
    by (simp add: splitFile_def splitA1_def splitA2_def binder_eval cong: weak_congs)
  have v: "resolveSymbol_spec (IdentifierNode 8 (Some ''x'') # ?path) (Some ''x'') ParameterSymbol ?bt = Some 3"
    by (simp add: splitFile_def splitA1_def splitA2_def localScopeMatch_def binder_eval
        cong: weak_congs)
  from resolveSymbol_walks_ancestors [OF l p, of "Some ''x''" ParameterSymbol] l p v
  show ?thesis by simp
qed

text \<open>
  The claim as stated fails when no local scope exists: after binding \<open>emptyFile\<close> the
  global scope resolves the filename to symbol 1, the file node is its own path, and the
  walk of the specification finds symbol 1 there, but \<open>resolveSymbol\<close> returns none.
\<close>

theorem resolveSymbol_walks_ancestors_counterexample:
  "isAncestorPath (bindings (snd (bindSourceFile emptyFile initialBinder))) [emptyFile] \<and>
   resolveSymbol_spec [emptyFile] (Some ''a.grammar'') SourceFileSymbol
     (bindings (snd (bindSourceFile emptyFile initialBinder))) = Some 1 \<and>
   bt_resolveSymbol (Some emptyFile) (Some ''a.grammar'') SourceFileSymbol
     (bindings (snd (bindSourceFile emptyFile initialBinder))) = Some None"
  by (simp add: emptyFile_def bt_resolveSymbol_def binder_eval cong: weak_congs)

section \<open>Properties of the parser: theorems\<close>

text \<open>
  Evaluation of a sequence of calls on a given state: the first call is evaluated, then
  the continuation is applied to its value and state.
\<close>

lemma andThen_Normal: "andThen (Normal x, s) k = k (x, s)"
  by (simp add: andThen_def)

lemma andThen_Throws: "andThen (Throws e, s) k = (Throws e, s)"
  by (simp add: andThen_def)

lemma andThen_Diverges: "andThen (Diverges, s) k = (Diverges, s)"
  by (simp add: andThen_def)

lemma andThen_weak_cong: "r = r' \<Longrightarrow> andThen r k = andThen r' k"
  by simp

lemmas completion_congs = option.case_cong_weak sum.case_cong_weak let_weak_cong
  Completion.case_cong_weak list.case_cong_weak if_weak_cong LoopStep.case_cong_weak
  andThen_weak_cong

lemmas trivia_eval =
  newNode_def present_def presentList_def firstChild_def lastChild_def setFirstChild_def
  setLastChild_def matched_def trimTrivia_def isOpenTag_def isCloseTag_def attachLeading_def
  attachTrailing_def attachHtmlTrivia_def pop_def promoteLeadingHtmlTrivia_def
  promoteTrailingHtmlTrivia_def promoteAllHtmlTrivia_def promoteHtmlTrivia_def

lemmas token_eval =
  report_def newScanner_def andThen_Normal andThen_Throws andThen_Diverges returns_def reportAll_def scan_def getStartPos_def
  getTokenPos_def getTokenValue_def getTokenText_def getHtmlTrivia_def scanner_speculate_def
  nextToken_def speculate_def lookahead_def tryParse_def isWhitespace_def isEOF_def
  skipUntil_def skipWhitespace_def readTokenValue_def readTokenText_def finishNode_def
  parseToken_def parseAnyToken_def parseOptional_def

lemmas list_eval =
  isSourceElementsRecoveryToken_def isParametersRecoveryToken_def
  isBracketedParametersRecoveryToken_def isArgumentsRecoveryToken_def
  isBracketedArgumentsRecoveryToken_def isRightHandSideListIndentedRecoveryToken_def
  isSymbolSetRecoveryToken_def isOneOfListRecoveryToken_def
  isOneOfListIndentedRecoveryToken_def isOneOfSymbolListRecoveryToken_def
  isNoSymbolHereRecoveryToken_def isInvalidSymbolRecoveryToken_def
  isInvalidConstraintTailRecoveryToken_def isProductionSeparatorToken_def
  isLeadingArgumentToken_def isParameterOperatorToken_def isBooleanLiteralToken_def
  isLookaheadOperatorToken_def isStartOfParameter_def isStartOfArgument_def
  isStartOfSymbolSpan_def isStartOfRightHandSide_def isStartOfSourceElement_def
  shouldParseElement_def shouldSkipWhitespace_def shouldConsumeCloseToken_def
  skipLineTerminatorAfterRecovery_def recover_def diagnostics_report_def reportDiagnostics_def
  hasCloseToken_def isOnCloseToken_def parseCloseToken_def hasSeparator_def isOnSeparator_def
  parseSeparator_def afterElement_def parseListIteration_def parseList_def

lemmas node_eval =
  asElement_def parseIdentifier_def parseUnicodeCharacterLiteral_def parseParameter_def
  parseEmptyAssertionTail_def parseLexicalGoalAssertionTail_def
  parseParameterValueAssertionTail_def parseInvalidAssertionTail_def
  parseProseFragmentLiteral_def parseTerminal_def parseArgument_def parsePlaceholderSymbol_def
  parseInvalidSymbol_def parseUnicodeCharacterRangeTail_def
  parseUnicodeCharacterRangeOrHigher_def parseLinkReference_def parseStringLiteral_def
  parseImport_def parseDefine_def parseMetaElement_def nextTokenIsArgument_def
  isStartOfArgumentList_def parseArgumentListTail_def tryParseArgumentList_def
  parseNonterminal_def parsePrimarySymbol_def parseOneOfSymbol_def parseUnarySymbol_def
  parseNoSymbolHereAssertionTail_def parseProseFragments_def parseProse_def
  parseProseAssertion_def

lemmas file_eval =
  parseParameterListTail_def tryParseParameterList_def parseOneOfList_def stableSort_def
  hostSort_def sortTrailingHtmlTrivia_def parseRightHandSide_def parseRightHandSideList_def
  parseBody_def parseProduction_def parseSourceElement_def parseElement_def
  parseSourceElementList_def parse_def restoreSaved_def parseSourceFile_def

lemmas parser_eval = trivia_eval token_eval list_eval node_eval file_eval
  throwIfCancellationRequested_def CancellationToken_none_def truthy_def scanned_def
  newParser_def Let_def


subsection \<open>Ranges of the nodes of a parsed tree\<close>

lemma junkInvalidAssertion_not_nested: "\<not> rangesNested junkInvalidAssertion"
  by (simp add: junkInvalidAssertion_def)

text \<open>
  C8. Every node of a tree returned by \<open>parseSourceFile\<close> has \<open>pos \<le> end\<close>, and the range of
  each child lies within the range of its parent. The code breaks this on the text
  \<open>A : [junk]\<close>: the parse returns the file \<open>junkFile\<close>, in which the \<open>InvalidAssertion\<close> node has
  the range from 5 to 5 and its child, the open bracket token, the range from 3 to 5.
  \<open>parseInvalidAssertionTail\<close> takes the start of the node from the scanner after the bracket
  was parsed; the other assertion tails take \<open>openBracketToken.pos\<close>.
\<close>

theorem parseSourceFile_invalid_assertion_range:
  "fst (parseSourceFile 8 ''junk.grammar'' junkText CancellationToken_none newParser) = Normal junkFile
   \<and> \<not> list_all rangesNested (elements junkFile)
   \<and> nodePos junkInvalidAssertion = 5 \<and> nodeEnd junkInvalidAssertion = 5
   \<and> map nodePos (childNodes junkInvalidAssertion) = [3]
   \<and> map nodeEnd (childNodes junkInvalidAssertion) = [5]"
proof -
  have "fst (parseSourceFile 8 ''junk.grammar'' junkText CancellationToken_none newParser)
        = Normal junkFile"
    by (simp add: parser_eval junkText_def junkFile_def junkInvalidAssertion_def eval_nat_numeral
        cong: completion_congs)
  moreover have "\<not> list_all rangesNested (elements junkFile)"
    by (simp add: junkFile_def junkInvalidAssertion_def)
  moreover have "nodePos junkInvalidAssertion = 5 \<and> nodeEnd junkInvalidAssertion = 5
      \<and> map nodePos (childNodes junkInvalidAssertion) = [3]
      \<and> map nodeEnd (childNodes junkInvalidAssertion) = [5]"
    by (simp add: junkInvalidAssertion_def)
  ultimately show ?thesis by blast
qed

subsection \<open>What \<open>parseSourceFile\<close> puts back\<close>

lemma parseSourceFile_restores_fields:
  assumes "fst (parseSourceFile fuel name text ct p) \<noteq> Diverges"
  shows "parserImports (snd (parseSourceFile fuel name text ct p)) = parserImports p
       \<and> diagnostics (snd (parseSourceFile fuel name text ct p)) = diagnostics p
       \<and> cancellationToken (snd (parseSourceFile fuel name text ct p)) = cancellationToken p
       \<and> scanner (snd (parseSourceFile fuel name text ct p)) = scanner p
       \<and> parsingContext (snd (parseSourceFile fuel name text ct p)) = parsingContext p
       \<and> tagsOffset (snd (parseSourceFile fuel name text ct p)) = tagsOffset p
       \<and> (tags p = None \<longrightarrow> tags (snd (parseSourceFile fuel name text ct p)) = None)"
proof (cases "cancellationRequested ct (polls p)")
  case True
  with assms show ?thesis
    by (simp add: parseSourceFile_def throwIfCancellationRequested_def Let_def)
next
  case False
  with assms show ?thesis
    by (cases "fst (parse fuel name text ct (p\<lparr>polls := Suc (polls p)\<rparr>))")
       (simp_all add: parseSourceFile_def restoreSaved_def throwIfCancellationRequested_def Let_def)
qed

lemma parse_reaches_enclosingParse:
  "parse fuel ''outer.grammar'' enclosingText CancellationToken_none newParser =
     andThen (parseSourceElementList fuel (Some []) enclosingParse)
       (\<lambda>parsed.
          (Normal \<lparr>sourceFilename = ''outer.grammar'', sourceText = enclosingText,
                    elements = presentList (fst parsed),
                    sourceImports = parserImports (snd parsed),
                    parseDiagnostics = diagnostics (snd parsed)\<rparr>,
           snd parsed))"
proof -
  let ?p1 = "newParser\<lparr>diagnostics := MessagesAt 0, nextMessages := 1,
                scanner := newScanner enclosingText (MessagesAt 0) CancellationToken_none\<rparr>"
  have start: "newParser\<lparr>parserImports := [], diagnostics := MessagesAt (nextMessages newParser),
                 messages := (messages newParser)(nextMessages newParser := []),
                 nextMessages := Suc (nextMessages newParser),
                 cancellationToken := CancellationToken_none, parsingContext := SourceElements,
                 tagsOffset := 0,
                 scanner := newScanner enclosingText (MessagesAt (nextMessages newParser))
                              CancellationToken_none\<rparr> = ?p1"
    by (simp add: newParser_def fun_upd_idem)
  have "fst (nextToken ?p1) = Normal Identifier"
    by (simp add: enclosingText_def parser_eval cong: completion_congs)
  then have "nextToken ?p1 = (Normal Identifier, enclosingParse)"
    by (simp add: enclosingParse_def prod_eq_iff)
  then show ?thesis
    unfolding parse_def Let_def start by (simp add: andThen_Normal)
qed

lemma token_enclosingParse: "token enclosingParse = Identifier"
  by (simp add: enclosingParse_def enclosingText_def parser_eval cong: completion_congs)

text \<open>
  C6. \<open>parseSourceFile\<close> saves and restores all mutable parser state, the current token
  included, so that a call made while a parse is under way leaves the state of that parse
  intact. The code does not save \<open>token\<close>: a call on the empty text, made where the
  enclosing parse is at the identifier \<open>A\<close>, returns with the token \<open>EndOfFileToken\<close>.
\<close>

theorem parseSourceFile_token_not_restored:
  "token enclosingParse = Identifier
   \<and> parseSourceFile 1 ''inner.grammar'' [] CancellationToken_none enclosingParse =
       (Normal innerFile,
        enclosingParse\<lparr>token := EndOfFileToken, polls := 3,
                        messages := (messages enclosingParse)(1 := []), nextMessages := 2\<rparr>)"
  by (simp add: enclosingParse_def enclosingText_def innerFile_def parser_eval
      cong: completion_congs)

subsection \<open>An iteration of the list loop\<close>

lemma andThen_cong_result:
  "(\<And>x. fst r = Normal x \<Longrightarrow> k (x, snd r) = k' (x, snd r)) \<Longrightarrow> andThen r k = andThen r k'"
  by (cases "fst r") (simp_all add: andThen_def)

lemma andThen_assoc: "andThen (andThen r f) g = andThen r (\<lambda>x. andThen (f x) g)"
  by (cases "fst r") (simp_all add: andThen_def)

lemma andThen_unit: "andThen r (\<lambda>x. (Normal (), snd x)) = r"
  by (cases "fst r") (simp_all add: andThen_def prod_eq_iff)

lemma scan_Normal:
  assumes "fst (scan p) = Normal tk"
  shows "parsingContext (snd (scan p)) = parsingContext p"
    and "pending (scanner (snd (scan p))) = tl (pending (scanner p))"
    and "tk = (case pending (scanner p) of [] \<Rightarrow> EndOfFileToken | t # rest \<Rightarrow> scannedKind t)"
  using assms
  by (auto simp: scan_def throwIfCancellationRequested_def Let_def split: if_splits list.splits)

lemma nextToken_Normal:
  assumes "fst (nextToken p) = Normal tk"
  shows "pending (scanner (snd (nextToken p))) = tl (pending (scanner p))"
    and "token (snd (nextToken p)) =
           (case pending (scanner p) of [] \<Rightarrow> EndOfFileToken | t # rest \<Rightarrow> scannedKind t)"
proof -
  from assms obtain sk where sk: "fst (scan p) = Normal sk"
    by (cases "fst (scan p)") (simp_all add: nextToken_def andThen_def)
  from scan_Normal [OF sk] sk
  show "pending (scanner (snd (nextToken p))) = tl (pending (scanner p))"
    and "token (snd (nextToken p)) =
           (case pending (scanner p) of [] \<Rightarrow> EndOfFileToken | t # rest \<Rightarrow> scannedKind t)"
    by (simp_all add: nextToken_def andThen_def getHtmlTrivia_def Let_def split: option.split)
qed

lemma nextToken_parsingContext: "parsingContext (snd (nextToken p)) = parsingContext p"
  by (cases "fst (scan p)")
     (auto simp: nextToken_def andThen_def scan_def throwIfCancellationRequested_def
        getHtmlTrivia_def Let_def split: option.split list.splits if_splits)

lemma advance_parsingContext: "parsingContext (snd (advance k p)) = parsingContext p"
proof (induction k arbitrary: p)
  case (Suc k)
  show ?case
    by (cases "fst (nextToken p)")
       (simp_all add: andThen_def Suc.IH nextToken_parsingContext)
qed simp

lemma skipTo_parsingContext: "parsingContext (snd (skipTo stop p)) = parsingContext p"
  by (simp add: skipTo_def advance_parsingContext)

lemma tokensBefore_stop:
  "stop (token p) \<or> token p = EndOfFileToken \<Longrightarrow> tokensBefore stop p = 0"
  by (auto simp: tokensBefore_def upcoming_def)

lemma tokensBefore_next:
  assumes "\<not> stop (token p)" "token p \<noteq> EndOfFileToken" "fst (nextToken p) = Normal tk"
  shows "tokensBefore stop p =
           (if pending (scanner p) = [] then 1 else Suc (tokensBefore stop (snd (nextToken p))))"
  using assms nextToken_Normal [OF assms(3)]
  by (cases "pending (scanner p)") (simp_all add: tokensBefore_def upcoming_def)

lemma skipUntilLoop_advance:
  "length (pending (scanner p)) \<le> n \<Longrightarrow>
   skipUntilLoop (Suc n) stop p = advance (tokensBefore stop p) p"
proof (induction n arbitrary: p)
  case 0
  show ?case
  proof (cases "stop (token p) \<or> token p = EndOfFileToken")
    case True
    then show ?thesis by (auto simp: tokensBefore_stop isEOF_def)
  next
    case False
    have "andThen (nextToken p) (\<lambda>r. skipUntilLoop 0 stop (snd r)) =
          andThen (nextToken p) (\<lambda>r. advance (tokensBefore stop p - 1) (snd r))"
    proof (rule andThen_cong_result)
      fix x assume x: "fst (nextToken p) = Normal x"
      from tokensBefore_next [OF _ _ x] False 0 have "tokensBefore stop p = 1" by simp
      then show "skipUntilLoop 0 stop (snd (x, snd (nextToken p))) =
                 advance (tokensBefore stop p - 1) (snd (x, snd (nextToken p)))" by simp
    qed
    moreover have "0 < tokensBefore stop p"
      using False by (simp add: tokensBefore_def upcoming_def)
    ultimately show ?thesis
      using False by (cases "tokensBefore stop p") (simp_all add: isEOF_def)
  qed
next
  case (Suc n)
  show ?case
  proof (cases "stop (token p) \<or> token p = EndOfFileToken")
    case True
    then show ?thesis by (auto simp: tokensBefore_stop isEOF_def)
  next
    case False
    have "andThen (nextToken p) (\<lambda>r. skipUntilLoop (Suc n) stop (snd r)) =
          andThen (nextToken p) (\<lambda>r. advance (tokensBefore stop p - 1) (snd r))"
    proof (rule andThen_cong_result)
      fix x assume x: "fst (nextToken p) = Normal x"
      let ?q = "snd (nextToken p)"
      have len: "length (pending (scanner ?q)) \<le> n"
        using nextToken_Normal(1) [OF x] Suc.prems by simp
      have "skipUntilLoop (Suc n) stop ?q = advance (tokensBefore stop ?q) ?q"
        by (rule Suc.IH [OF len])
      moreover have "tokensBefore stop p - 1 = tokensBefore stop ?q"
      proof (cases "pending (scanner p) = []")
        case True
        with nextToken_Normal [OF x] have "token ?q = EndOfFileToken" by simp
        then have "tokensBefore stop ?q = 0" by (simp add: tokensBefore_stop)
        with tokensBefore_next [OF _ _ x] False True show ?thesis by simp
      next
        case False
        with tokensBefore_next [OF _ _ x] \<open>\<not> (stop (token p) \<or> token p = EndOfFileToken)\<close>
        show ?thesis by simp
      qed
      ultimately show "skipUntilLoop (Suc n) stop (snd (x, ?q)) =
                 advance (tokensBefore stop p - 1) (snd (x, ?q))" by simp
    qed
    moreover have "0 < tokensBefore stop p"
      using False by (simp add: tokensBefore_def upcoming_def)
    ultimately show ?thesis
      using False by (cases "tokensBefore stop p") (simp_all add: isEOF_def)
  qed
qed

lemma skipUntil_skipTo: "skipUntil stop p = skipTo stop p"
  by (simp add: skipUntil_def skipTo_def skipUntilLoop_advance del: skipUntilLoop.simps)

lemma isWhitespace_insignificant:
  "isWhitespace (shouldSkipWhitespace p) q = insignificant (parsingContext p) (token q)"
  by (cases "parsingContext p")
     (auto simp: isWhitespace_def shouldSkipWhitespace_def insignificant_def)

lemma not_insignificant_EndOfFileToken: "\<not> insignificant c EndOfFileToken"
  by (cases c) (simp_all add: insignificant_def)

lemma skipWhitespaceLoop_advance:
  assumes ws: "\<And>q. isWhitespace skip q = insig (token q)" and eof: "\<not> insig EndOfFileToken"
  shows "length (pending (scanner p)) \<le> n \<Longrightarrow>
   skipWhitespaceLoop (Suc n) skip p = advance (tokensBefore (\<lambda>k. \<not> insig k) p) p"
proof (induction n arbitrary: p)
  case 0
  show ?case
  proof (cases "insig (token p)")
    case False
    then show ?thesis by (simp add: tokensBefore_stop ws)
  next
    case True
    then have ne: "token p \<noteq> EndOfFileToken" using eof by auto
    have "andThen (nextToken p) (\<lambda>r. skipWhitespaceLoop 0 skip (snd r)) =
          andThen (nextToken p) (\<lambda>r. advance (tokensBefore (\<lambda>k. \<not> insig k) p - 1) (snd r))"
    proof (rule andThen_cong_result)
      fix x assume x: "fst (nextToken p) = Normal x"
      from tokensBefore_next [OF _ ne x] True 0 have "tokensBefore (\<lambda>k. \<not> insig k) p = 1" by simp
      then show "skipWhitespaceLoop 0 skip (snd (x, snd (nextToken p))) =
                 advance (tokensBefore (\<lambda>k. \<not> insig k) p - 1) (snd (x, snd (nextToken p)))" by simp
    qed
    moreover have "0 < tokensBefore (\<lambda>k. \<not> insig k) p"
      using True ne by (simp add: tokensBefore_def upcoming_def)
    ultimately show ?thesis
      using True by (cases "tokensBefore (\<lambda>k. \<not> insig k) p") (simp_all add: ws)
  qed
next
  case (Suc n)
  show ?case
  proof (cases "insig (token p)")
    case False
    then show ?thesis by (simp add: tokensBefore_stop ws)
  next
    case True
    then have ne: "token p \<noteq> EndOfFileToken" using eof by auto
    have "andThen (nextToken p) (\<lambda>r. skipWhitespaceLoop (Suc n) skip (snd r)) =
          andThen (nextToken p) (\<lambda>r. advance (tokensBefore (\<lambda>k. \<not> insig k) p - 1) (snd r))"
    proof (rule andThen_cong_result)
      fix x assume x: "fst (nextToken p) = Normal x"
      let ?q = "snd (nextToken p)"
      have len: "length (pending (scanner ?q)) \<le> n"
        using nextToken_Normal(1) [OF x] Suc.prems by simp
      have "skipWhitespaceLoop (Suc n) skip ?q = advance (tokensBefore (\<lambda>k. \<not> insig k) ?q) ?q"
        by (rule Suc.IH [OF len])
      moreover have "tokensBefore (\<lambda>k. \<not> insig k) p - 1 = tokensBefore (\<lambda>k. \<not> insig k) ?q"
      proof (cases "pending (scanner p) = []")
        case True
        with nextToken_Normal [OF x] have "token ?q = EndOfFileToken" by simp
        then have "tokensBefore (\<lambda>k. \<not> insig k) ?q = 0" by (simp add: tokensBefore_stop)
        with tokensBefore_next [OF _ ne x] \<open>insig (token p)\<close> True show ?thesis by simp
      next
        case False
        with tokensBefore_next [OF _ ne x] \<open>insig (token p)\<close>
        show ?thesis by simp
      qed
      ultimately show "skipWhitespaceLoop (Suc n) skip (snd (x, ?q)) =
                 advance (tokensBefore (\<lambda>k. \<not> insig k) p - 1) (snd (x, ?q))" by simp
    qed
    moreover have "0 < tokensBefore (\<lambda>k. \<not> insig k) p"
      using True ne by (simp add: tokensBefore_def upcoming_def)
    ultimately show ?thesis
      using True by (cases "tokensBefore (\<lambda>k. \<not> insig k) p") (simp_all add: ws)
  qed
qed

lemma skipWhitespace_skipTo:
  "skipWhitespace (shouldSkipWhitespace p) q =
     skipTo (\<lambda>k. \<not> insignificant (parsingContext p) k) q"
  unfolding skipWhitespace_def skipTo_def
  by (rule skipWhitespaceLoop_advance [OF isWhitespace_insignificant
        not_insignificant_EndOfFileToken order_refl])

lemma reportDiagnostics_reportExpectedTokens: "reportDiagnostics p = reportExpectedTokens p"
  by (cases "parsingContext p")
     (simp_all add: reportDiagnostics_def reportExpectedTokens_def expectedTokensMessage_def
        diagnostics_report_def)

lemma advance_one: "advance 1 p = andThen (nextToken p) (\<lambda>r. (Normal (), snd r))"
  by simp

lemma skipToRecoveryTokenAndLine_unfold:
  "skipToRecoveryTokenAndLine p =
     andThen (skipTo (recoveryToken (parsingContext p)) p)
       (\<lambda>r. if recoversPastLineTerminator (parsingContext p) \<and> token (snd r) = LineTerminatorToken
            then advance 1 (snd r)
            else (Normal (), snd r))"
  unfolding skipToRecoveryTokenAndLine_def skipToRecoveryToken_def
  by (rule andThen_cong_result) (simp add: skipTo_parsingContext del: advance.simps)

lemma recover_skipToRecoveryTokenAndLine: "recover p = skipToRecoveryTokenAndLine p"
proof -
  have line: "andThen (skipTo stop p) (\<lambda>r. skipLineTerminatorAfterRecovery (snd r)) =
     andThen (skipTo stop p)
       (\<lambda>r. if token (snd r) = LineTerminatorToken then advance 1 (snd r) else (Normal (), snd r))"
    for stop
    by (simp add: skipLineTerminatorAfterRecovery_def cong: if_cong)
  show ?thesis
    by (cases "parsingContext p")
       (simp_all add: recover_def skipToRecoveryTokenAndLine_unfold
          recoveryToken_def recoversPastLineTerminator_def skipUntil_skipTo line
          andThen_unit del: advance.simps)
qed


lemma andThen_if: "andThen (if c then a else b) k = (if c then andThen a k else andThen b k)"
  by simp

lemma andThen_case_option:
  "andThen (case x of None \<Rightarrow> a | Some y \<Rightarrow> b y) k =
     (case x of None \<Rightarrow> andThen a k | Some y \<Rightarrow> andThen (b y) k)"
  by (cases x) simp_all

lemma afterElement_amendedAfter:
  "afterElement (hasCloseToken p) (hasSeparator p) (shouldConsumeCloseToken p) started result q =
     amendedAfter p started result q"
  by (simp add: afterElement_def amendedAfter_def parseCloseToken_def parseSeparator_def
      recover_skipToRecoveryTokenAndLine reportDiagnostics_reportExpectedTokens advance_one
      andThen_assoc andThen_Normal andThen_if del: advance.simps One_nat_def cong: if_cong)

text \<open>
  C2, as amended. For every parsing context an iteration of \<open>parseList\<close> (after its poll of
  the cancellation token) skips the whitespace the policy of the context marks as
  insignificant; if the element-start test of the context holds it parses the element,
  appends it on success and recovers on failure; it stops when the context has a close
  token and the token matches it, consuming it exactly when the policy says so; otherwise
  a context with separators goes on over a separator and a context without separators
  goes on when the element-start test held; and where the iteration can not go on that
  way, a context without close token stops the list, and a context with a close token
  reports the diagnostic of the context and recovers. To recover is to skip to the next
  recovery token of the context and, in the lists in parentheses, brackets and braces and
  in the indented one-of list, to take a line terminator the skip ended at. A scan that
  throws ends the iteration with the exception.
\<close>

theorem parseList_iteration:
  assumes "\<not> cancellationRequested (cancellationToken p) (polls p)"
  shows "parseListIteration element (hasCloseToken p) (hasSeparator p)
           (shouldConsumeCloseToken p) (shouldSkipWhitespace p) result p
         = amendedIteration element result (p\<lparr>polls := Suc (polls p)\<rparr>)"
proof -
  let ?p0 = "p\<lparr>polls := Suc (polls p)\<rparr>"
  have pol: "hasCloseToken ?p0 = hasCloseToken p" "hasSeparator ?p0 = hasSeparator p"
    "shouldConsumeCloseToken ?p0 = shouldConsumeCloseToken p"
    "shouldSkipWhitespace ?p0 = shouldSkipWhitespace p"
    by (simp_all add: hasCloseToken_def hasSeparator_def shouldConsumeCloseToken_def
        shouldSkipWhitespace_def)
  have after: "afterElement (hasCloseToken p) (hasSeparator p) (shouldConsumeCloseToken p)
                 started res q = amendedAfter ?p0 started res q" for started res q
    using afterElement_amendedAfter [of ?p0 started res q] by (simp add: pol)
  have ws: "skipWhitespace (shouldSkipWhitespace p) ?p0 =
            skipTo (\<lambda>k. \<not> insignificant (parsingContext ?p0) k) ?p0"
    using skipWhitespace_skipTo [of ?p0 ?p0] by (simp add: pol)
  have "parseListIteration element (hasCloseToken p) (hasSeparator p)
           (shouldConsumeCloseToken p) (shouldSkipWhitespace p) result p =
        andThen (skipWhitespace (shouldSkipWhitespace p) ?p0)
          (\<lambda>skipped.
             if shouldParseElement (snd skipped)
             then andThen (element (snd skipped))
                    (\<lambda>parsed.
                       case fst parsed of
                         Some el \<Rightarrow>
                           amendedAfter ?p0 True
                             (Some ((case result of None \<Rightarrow> [] | Some r \<Rightarrow> r) @ [el]))
                             (snd parsed)
                       | None \<Rightarrow>
                           andThen (skipToRecoveryTokenAndLine (snd parsed))
                             (\<lambda>r. amendedAfter ?p0 True
                                     (Some (case result of None \<Rightarrow> [] | Some r \<Rightarrow> r)) (snd r)))
             else amendedAfter ?p0 False result (snd skipped))"
    using assms
    by (simp add: parseListIteration_def throwIfCancellationRequested_def Let_def after
        recover_skipToRecoveryTokenAndLine cong: if_cong option.case_cong)
  also have "\<dots> = amendedIteration element result ?p0"
    unfolding amendedIteration_def elementStep_def ws andThen_assoc
    by (intro andThen_cong_result)
       (simp add: andThen_assoc andThen_Normal andThen_if andThen_case_option
          cong: if_cong option.case_cong)
  finally show ?thesis .
qed


lemmas list_spec_eval = amendedIteration_def claimedIteration_def elementStep_def amendedAfter_def
  claimedAfter_def skipToRecoveryTokenAndLine_def skipToRecoveryToken_def reportExpectedTokens_def
  expectedTokensMessage_def recoversPastLineTerminator_def recoveryToken_def insignificant_def
  skipTo_def tokensBefore_def upcoming_def

lemma atParameters_not_cancelled:
  "\<not> cancellationRequested (cancellationToken atParameters) (polls atParameters)"
  "\<not> cancellationRequested (cancellationToken atParametersLine) (polls atParametersLine)"
  by (simp_all add: atParameters_def atParametersLine_def parser_eval cong: completion_congs)

lemma atParameters_amendedIteration:
  "fst (amendedIteration (parseElement 1 Parameters) None
          (atParameters\<lparr>polls := Suc (polls atParameters)\<rparr>))
     = Normal (Continue,
         Some [SyntaxNode Parameter 0 1 None None None
                 [SyntaxNode Identifier 0 1 (Some ''a'') None None []]])
   \<and> token (snd (amendedIteration (parseElement 1 Parameters) None
          (atParameters\<lparr>polls := Suc (polls atParameters)\<rparr>))) = Identifier
   \<and> messages (snd (amendedIteration (parseElement 1 Parameters) None
          (atParameters\<lparr>polls := Suc (polls atParameters)\<rparr>))) 0
     = [Diagnostic 2 (Expected [CommaToken, CloseParenToken])]"
  by (simp add: atParameters_def list_spec_eval parser_eval cong: completion_congs)

lemma atParametersLine_amendedIteration:
  "fst (amendedIteration (parseElement 1 Parameters) None
          (atParametersLine\<lparr>polls := Suc (polls atParametersLine)\<rparr>))
     = Normal (Continue, None)
   \<and> token (snd (amendedIteration (parseElement 1 Parameters) None
          (atParametersLine\<lparr>polls := Suc (polls atParametersLine)\<rparr>))) = TildeToken
   \<and> messages (snd (amendedIteration (parseElement 1 Parameters) None
          (atParametersLine\<lparr>polls := Suc (polls atParametersLine)\<rparr>))) 0
     = [Diagnostic 0 (Expected [CommaToken, CloseParenToken])]"
  by (simp add: atParametersLine_def list_spec_eval parser_eval cong: completion_congs)

text \<open>
  In the parameter list \<open>(a b)\<close> the iteration at \<open>a\<close> parses the parameter and, the
  separator missing, reports that a comma or a parenthesis was expected and stays at \<open>b\<close>.
  In a parameter list that starts with \<open>+\<close>, a line terminator and \<open>~\<close>, the iteration
  reports and recovers up to the line terminator and past it, to \<open>~\<close>.
\<close>

theorem parseList_iteration_witness:
  "\<not> cancellationRequested (cancellationToken atParameters) (polls atParameters)
   \<and> fst (parseListIteration (parseElement 1 Parameters) (hasCloseToken atParameters)
        (hasSeparator atParameters) (shouldConsumeCloseToken atParameters)
        (shouldSkipWhitespace atParameters) None atParameters)
     = Normal (Continue,
         Some [SyntaxNode Parameter 0 1 None None None
                 [SyntaxNode Identifier 0 1 (Some ''a'') None None []]])
   \<and> token (snd (parseListIteration (parseElement 1 Parameters) (hasCloseToken atParameters)
        (hasSeparator atParameters) (shouldConsumeCloseToken atParameters)
        (shouldSkipWhitespace atParameters) None atParameters)) = Identifier
   \<and> messages (snd (parseListIteration (parseElement 1 Parameters) (hasCloseToken atParameters)
        (hasSeparator atParameters) (shouldConsumeCloseToken atParameters)
        (shouldSkipWhitespace atParameters) None atParameters)) 0
     = [Diagnostic 2 (Expected [CommaToken, CloseParenToken])]
   \<and> fst (parseListIteration (parseElement 1 Parameters) (hasCloseToken atParametersLine)
        (hasSeparator atParametersLine) (shouldConsumeCloseToken atParametersLine)
        (shouldSkipWhitespace atParametersLine) None atParametersLine)
     = Normal (Continue, None)
   \<and> token (snd (parseListIteration (parseElement 1 Parameters) (hasCloseToken atParametersLine)
        (hasSeparator atParametersLine) (shouldConsumeCloseToken atParametersLine)
        (shouldSkipWhitespace atParametersLine) None atParametersLine)) = TildeToken
   \<and> messages (snd (parseListIteration (parseElement 1 Parameters) (hasCloseToken atParametersLine)
        (hasSeparator atParametersLine) (shouldConsumeCloseToken atParametersLine)
        (shouldSkipWhitespace atParametersLine) None atParametersLine)) 0
     = [Diagnostic 0 (Expected [CommaToken, CloseParenToken])]"
  unfolding parseList_iteration [where p = atParameters, OF atParameters_not_cancelled(1)]
    parseList_iteration [where p = atParametersLine, OF atParameters_not_cancelled(2)]
  using atParameters_not_cancelled(1) atParameters_amendedIteration
    atParametersLine_amendedIteration
  by blast

text \<open>
  C2 as stated fails in three ways. In \<open>[no + "a" here]\<close> the list of the assertion starts
  at \<open>+\<close>, which starts no element and is neither the separator nor \<open>here\<close>: the code ends
  the list and leaves the token where it is, where the iteration as described goes on
  after skipping to the terminal. In the parameter list with the line terminator the code
  ends on \<open>~\<close>, past the recovery token the description stops at. In \<open>(a b)\<close> the code
  reports a diagnostic after the parameter \<open>a\<close>, where the description reports none, an
  element having matched.
\<close>

theorem parseList_iteration_counterexample:
  "parseListIteration (parseElement 1 NoSymbolHere) (hasCloseToken atPlusToken)
     (hasSeparator atPlusToken) (shouldConsumeCloseToken atPlusToken)
     (shouldSkipWhitespace atPlusToken) None atPlusToken
     = (Normal (Break, None), atPlusToken\<lparr>polls := 2\<rparr>)
   \<and> token atPlusToken = PlusToken
   \<and> fst (claimedIteration (parseElement 1 NoSymbolHere) None (atPlusToken\<lparr>polls := 2\<rparr>))
     = Normal (Continue, None)
   \<and> token (snd (claimedIteration (parseElement 1 NoSymbolHere) None (atPlusToken\<lparr>polls := 2\<rparr>)))
     = Terminal
   \<and> token (snd (parseListIteration (parseElement 1 Parameters) (hasCloseToken atParametersLine)
        (hasSeparator atParametersLine) (shouldConsumeCloseToken atParametersLine)
        (shouldSkipWhitespace atParametersLine) None atParametersLine)) = TildeToken
   \<and> token (snd (claimedIteration (parseElement 1 Parameters) None
          (atParametersLine\<lparr>polls := 2\<rparr>))) = LineTerminatorToken
   \<and> messages (snd (parseListIteration (parseElement 1 Parameters) (hasCloseToken atParameters)
        (hasSeparator atParameters) (shouldConsumeCloseToken atParameters)
        (shouldSkipWhitespace atParameters) None atParameters)) 0
     = [Diagnostic 2 (Expected [CommaToken, CloseParenToken])]
   \<and> messages (snd (claimedIteration (parseElement 1 Parameters) None
          (atParameters\<lparr>polls := 2\<rparr>))) 0 = []"
  by (simp add: atPlusToken_def atParametersLine_def atParameters_def list_spec_eval parser_eval
      cong: completion_congs)

subsection \<open>Speculation\<close>

lemma reportAll_discard [simp]: "reportAll NullDiagnosticMessages at ms store = store"
  by (induction ms arbitrary: store) (simp_all add: reportAll_def report_def)










lemma run_nextTokenIsArgumentCallback: "run nextTokenIsArgumentCallback = nextTokenIsArgument"
  by (rule ext) (simp add: nextTokenIsArgumentCallback_def nextTokenIsArgument_def Let_def)







end
